theory Spec2Isabelle
  imports Complex_Main "HOL-Library.Word"
begin

unbundle bit_operations_syntax

section \<open>C integers\<close>

text \<open>
  The library is written for platforms where \<^verbatim>\<open>int\<close> has 32 bits (cpfspd\_cce.c refuses to
  compile otherwise). Values of type \<^verbatim>\<open>int\<close> are modelled as HOL integers; a result of
  \<^verbatim>\<open>int\<close> arithmetic is reduced to the signed 32-bit range by \<open>int32\<close>, a result of
  \<^verbatim>\<open>long\<close> or \<^verbatim>\<open>fio_offset_t\<close> (\<^verbatim>\<open>long long\<close>) arithmetic to the signed 64-bit
  range by \<open>int64\<close> (LP64).  Division and remainder truncate towards zero as in C.
  A division by zero traps in C; \<open>c_div\<close> and \<open>c_mod\<close> are total (quotient 0), and a statement
  about a function that divides describes the calls that return.
\<close>

definition int32 :: "int \<Rightarrow> int" where
  "int32 x = (x + 2147483648) mod 4294967296 - 2147483648"

definition int64 :: "int \<Rightarrow> int" where
  "int64 x = (x + 9223372036854775808) mod 18446744073709551616 - 9223372036854775808"

definition in_int32 :: "int \<Rightarrow> bool" where
  "in_int32 x = (- 2147483648 \<le> x \<and> x \<le> 2147483647)"

definition in_int64 :: "int \<Rightarrow> bool" where
  "in_int64 x = (- 9223372036854775808 \<le> x \<and> x \<le> 9223372036854775807)"

definition mul32 :: "int \<Rightarrow> int \<Rightarrow> int" where
  "mul32 a b = int32 (a * b)"

definition add32 :: "int \<Rightarrow> int \<Rightarrow> int" where
  "add32 a b = int32 (a + b)"

definition sub32 :: "int \<Rightarrow> int \<Rightarrow> int" where
  "sub32 a b = int32 (a - b)"

definition add64 :: "int \<Rightarrow> int \<Rightarrow> int" where
  "add64 a b = int64 (a + b)"

definition mul64 :: "int \<Rightarrow> int \<Rightarrow> int" where
  "mul64 a b = int64 (a * b)"

definition c_div :: "int \<Rightarrow> int \<Rightarrow> int" where
  "c_div a b = sgn a * sgn b * (\<bar>a\<bar> div \<bar>b\<bar>)"

definition c_mod :: "int \<Rightarrow> int \<Rightarrow> int" where
  "c_mod a b = a - b * c_div a b"

section \<open>Status codes and header data types (cpfspd.h)\<close>

type_synonym pT_status = int

abbreviation P_OK :: pT_status where
  "P_OK \<equiv> 0"

abbreviation P_FILE_OPEN_FAILED :: pT_status where
  "P_FILE_OPEN_FAILED \<equiv> 100"

abbreviation P_FILE_CREATE_FAILED :: pT_status where
  "P_FILE_CREATE_FAILED \<equiv> 101"

abbreviation P_FILE_MODIFY_FAILED :: pT_status where
  "P_FILE_MODIFY_FAILED \<equiv> 102"

abbreviation P_FILE_IS_NOT_PFSPD_FILE :: pT_status where
  "P_FILE_IS_NOT_PFSPD_FILE \<equiv> 103"

abbreviation P_WRITE_FAILED :: pT_status where
  "P_WRITE_FAILED \<equiv> 110"

abbreviation P_READ_FAILED :: pT_status where
  "P_READ_FAILED \<equiv> 111"

abbreviation P_SEEK_FAILED :: pT_status where
  "P_SEEK_FAILED \<equiv> 112"

abbreviation P_NEGATIVE_SEEK_ON_STDIO :: pT_status where
  "P_NEGATIVE_SEEK_ON_STDIO \<equiv> 113"

abbreviation P_WRITE_BEYOND_EOF_STDOUT :: pT_status where
  "P_WRITE_BEYOND_EOF_STDOUT \<equiv> 115"

abbreviation P_REWRITE_ON_STDOUT :: pT_status where
  "P_REWRITE_ON_STDOUT \<equiv> 116"

abbreviation P_REWRITE_MODIFIED_HEADER :: pT_status where
  "P_REWRITE_MODIFIED_HEADER \<equiv> 117"

abbreviation P_TOO_MANY_IMAGES :: pT_status where
  "P_TOO_MANY_IMAGES \<equiv> 199"

abbreviation P_TOO_MANY_COMPONENTS :: pT_status where
  "P_TOO_MANY_COMPONENTS \<equiv> 200"

abbreviation P_INVALID_COMPONENT :: pT_status where
  "P_INVALID_COMPONENT \<equiv> 201"

abbreviation P_NO_IH_RECORDS_ALLOWED :: pT_status where
  "P_NO_IH_RECORDS_ALLOWED \<equiv> 202"

abbreviation P_ILLEGAL_BYTES_PER_REC :: pT_status where
  "P_ILLEGAL_BYTES_PER_REC \<equiv> 203"

abbreviation P_ILLEGAL_TEM_SBSMPL :: pT_status where
  "P_ILLEGAL_TEM_SBSMPL \<equiv> 204"

abbreviation P_INVALID_AUXILIARY :: pT_status where
  "P_INVALID_AUXILIARY \<equiv> 205"

abbreviation P_ILLEGAL_LIN_SBSMPL :: pT_status where
  "P_ILLEGAL_LIN_SBSMPL \<equiv> 206"

abbreviation P_ILLEGAL_PIX_SBSMPL :: pT_status where
  "P_ILLEGAL_PIX_SBSMPL \<equiv> 207"

abbreviation P_SHOULD_BE_INTERLACED :: pT_status where
  "P_SHOULD_BE_INTERLACED \<equiv> 210"

abbreviation P_READ_CHR_FROM_LUM_ONLY :: pT_status where
  "P_READ_CHR_FROM_LUM_ONLY \<equiv> 211"

abbreviation P_READ_RGB_FROM_LUM_ONLY :: pT_status where
  "P_READ_RGB_FROM_LUM_ONLY \<equiv> 212"

abbreviation P_READ_PLANAR_CHR_FROM_MULT_CHR :: pT_status where
  "P_READ_PLANAR_CHR_FROM_MULT_CHR \<equiv> 213"

abbreviation P_READ_RGB_FROM_YUV :: pT_status where
  "P_READ_RGB_FROM_YUV \<equiv> 214"

abbreviation P_READ_CHR_FROM_RGB :: pT_status where
  "P_READ_CHR_FROM_RGB \<equiv> 215"

abbreviation P_READ_CHR_FROM_STREAM :: pT_status where
  "P_READ_CHR_FROM_STREAM \<equiv> 216"

abbreviation P_READ_RGB_FROM_STREAM :: pT_status where
  "P_READ_RGB_FROM_STREAM \<equiv> 217"

abbreviation P_READ_INVALID_COMPONENT :: pT_status where
  "P_READ_INVALID_COMPONENT \<equiv> 218"

abbreviation P_WRITE_INVALID_COMPONENT :: pT_status where
  "P_WRITE_INVALID_COMPONENT \<equiv> 219"

abbreviation P_WRONG_LUM_COMP_SIZE :: pT_status where
  "P_WRONG_LUM_COMP_SIZE \<equiv> 220"

abbreviation P_WRONG_CHR_COMP_SIZE :: pT_status where
  "P_WRONG_CHR_COMP_SIZE \<equiv> 221"

abbreviation P_WRONG_RGB_COMP_SIZE :: pT_status where
  "P_WRONG_RGB_COMP_SIZE \<equiv> 222"

abbreviation P_WRONG_STREAM_COMP_SIZE :: pT_status where
  "P_WRONG_STREAM_COMP_SIZE \<equiv> 223"

abbreviation P_WRONG_XYZ_COMP_SIZE :: pT_status where
  "P_WRONG_XYZ_COMP_SIZE \<equiv> 224"

abbreviation P_EXCEEDING_DESCRIPTION_SIZE :: pT_status where
  "P_EXCEEDING_DESCRIPTION_SIZE \<equiv> 225"

abbreviation P_WRONG_EXTRA_COMP_SIZE :: pT_status where
  "P_WRONG_EXTRA_COMP_SIZE \<equiv> 226"

abbreviation P_WRONG_SUBSAMPLE_FACTOR :: pT_status where
  "P_WRONG_SUBSAMPLE_FACTOR \<equiv> 227"

abbreviation P_EXCEEDING_AUXILIARY_DATA_SIZE :: pT_status where
  "P_EXCEEDING_AUXILIARY_DATA_SIZE \<equiv> 228"

abbreviation P_EXCEEDING_AUXILIARY_HDR_SIZE :: pT_status where
  "P_EXCEEDING_AUXILIARY_HDR_SIZE \<equiv> 229"

abbreviation P_HEADER_IS_MODIFIED :: pT_status where
  "P_HEADER_IS_MODIFIED \<equiv> 230"

abbreviation P_INCOMP_MULT_COLOR_FORMAT :: pT_status where
  "P_INCOMP_MULT_COLOR_FORMAT \<equiv> 242"

abbreviation P_INCOMP_PLANAR_COLOR_FORMAT :: pT_status where
  "P_INCOMP_PLANAR_COLOR_FORMAT \<equiv> 243"

abbreviation P_ILLEGAL_COLOR_FORMAT :: pT_status where
  "P_ILLEGAL_COLOR_FORMAT \<equiv> 300"

abbreviation P_ILLEGAL_IMAGE_FREQUENCY :: pT_status where
  "P_ILLEGAL_IMAGE_FREQUENCY \<equiv> 400"

abbreviation P_ILLEGAL_IMAGE_FREQ_MOD :: pT_status where
  "P_ILLEGAL_IMAGE_FREQ_MOD \<equiv> 410"

abbreviation P_ILLEGAL_ILP_FREQ_MOD :: pT_status where
  "P_ILLEGAL_ILP_FREQ_MOD \<equiv> 420"

abbreviation P_ILLEGAL_IMAGE_SIZE :: pT_status where
  "P_ILLEGAL_IMAGE_SIZE \<equiv> 500"

abbreviation P_ILLEGAL_INTERLACE :: pT_status where
  "P_ILLEGAL_INTERLACE \<equiv> 501"

abbreviation P_ILLEGAL_COMP_SIZE :: pT_status where
  "P_ILLEGAL_COMP_SIZE \<equiv> 502"

abbreviation P_ILLEGAL_PHSHFT :: pT_status where
  "P_ILLEGAL_PHSHFT \<equiv> 503"

abbreviation P_ILLEGAL_ASPECT_RATIO :: pT_status where
  "P_ILLEGAL_ASPECT_RATIO \<equiv> 600"

abbreviation P_ILLEGAL_SIZE_FREQUENCY :: pT_status where
  "P_ILLEGAL_SIZE_FREQUENCY \<equiv> 700"

abbreviation P_ILLEGAL_SIZE_INTERLACED_MODE :: pT_status where
  "P_ILLEGAL_SIZE_INTERLACED_MODE \<equiv> 701"

abbreviation P_ILLEGAL_SIZE_PROGRESSIVE_MODE :: pT_status where
  "P_ILLEGAL_SIZE_PROGRESSIVE_MODE \<equiv> 702"

abbreviation P_ILLEGAL_FORMAT_INTERL_MODE :: pT_status where
  "P_ILLEGAL_FORMAT_INTERL_MODE \<equiv> 703"

abbreviation P_ILLEGAL_NUM_OF_PIX_PER_LINE :: pT_status where
  "P_ILLEGAL_NUM_OF_PIX_PER_LINE \<equiv> 710"

abbreviation P_ILLEGAL_FILE_DATA_FORMAT :: pT_status where
  "P_ILLEGAL_FILE_DATA_FORMAT \<equiv> 800"

abbreviation P_FILE_DATA_FORMATS_NOT_EQUAL :: pT_status where
  "P_FILE_DATA_FORMATS_NOT_EQUAL \<equiv> 810"

abbreviation P_ILLEGAL_MEM_DATA_FORMAT :: pT_status where
  "P_ILLEGAL_MEM_DATA_FORMAT \<equiv> 820"

abbreviation P_UNKNOWN_FILE_TYPE :: pT_status where
  "P_UNKNOWN_FILE_TYPE \<equiv> 830"

abbreviation P_UNKNOWN_MEM_TYPE :: pT_status where
  "P_UNKNOWN_MEM_TYPE \<equiv> 840"

abbreviation P_INCOMP_FLOAT_CONVERSION :: pT_status where
  "P_INCOMP_FLOAT_CONVERSION \<equiv> 850"

abbreviation P_MALLOC_FAILED :: pT_status where
  "P_MALLOC_FAILED \<equiv> 900"

datatype pT_color =
    P_NO_COLOR
  | P_COLOR_422
  | P_COLOR_420
  | P_COLOR_444_PL
  | P_COLOR_422_PL
  | P_COLOR_420_PL
  | P_COLOR_RGB
  | P_STREAM
  | P_COLOR_XYZ
  | P_UNKNOWN_COLOR

datatype pT_data_fmt =
    P_8_BIT_FILE
  | P_10_BIT_FILE
  | P_12_BIT_FILE
  | P_14_BIT_FILE
  | P_16_BIT_FILE
  | P_16_REAL_FILE
  | P_UNKNOWN_DATA_FORMAT


text \<open>
  One image component (\<^verbatim>\<open>pT_component\<close>).  The character arrays \<^verbatim>\<open>data_fmt\<close> and
  \<^verbatim>\<open>com_code\<close> hold NUL-terminated strings; they are modelled by the characters before the
  terminator.
\<close>

record pT_component =
  lin_image :: int
  pix_line :: int
  data_fmt :: string
  tem_sbsmpl :: int
  lin_sbsmpl :: int
  pix_sbsmpl :: int
  tem_phshft :: int
  lin_phshft :: int
  pix_phshft :: int
  com_code :: string

text \<open>
  The header (\<^verbatim>\<open>pT_header\<close>).  \<^verbatim>\<open>comp\<close> is the array of \<open>P_PFSPD_MAX_COMP\<close> components,
  \<^verbatim>\<open>description\<close> and \<^verbatim>\<open>aux_hdrs\<close> are the raw byte arrays of \<open>P_SDESCRIPTION\<close> and
  \<open>P_SAUX_HDR\<close> bytes.  The three frequencies are C doubles; they are modelled as reals.
\<close>

record pT_header =
  nr_images :: int
  nr_compon :: int
  nr_fd_recs :: int
  nr_aux_data_recs :: int
  appl_type :: string
  bytes_rec :: int
  little_endian :: int
  nr_aux_hdr_recs :: int
  ima_freq :: real
  lin_freq :: real
  pix_freq :: real
  act_lines :: int
  act_pixel :: int
  interlace :: int
  h_pp_size :: int
  v_pp_size :: int
  comp :: "pT_component list"
  description :: "char list"
  disable_hdr_checks :: int
  modified :: int
  offset_lo :: int
  offset_hi :: int
  aux_hdrs :: "char list"

definition P_NUM_GLOB_RECS :: int where
  "P_NUM_GLOB_RECS = 2"

definition P_NUM_COMP_RECS :: int where
  "P_NUM_COMP_RECS = 2"

definition P_SDATA_FMT :: nat where
  "P_SDATA_FMT = 4"

definition P_SCOM_CODE :: nat where
  "P_SCOM_CODE = 5"

definition P_SDESCRIPTION :: nat where
  "P_SDESCRIPTION = 2048"

definition P_BYTES_REC :: int where
  "P_BYTES_REC = 512"

definition P_SAUX_NAME :: nat where
  "P_SAUX_NAME = 16"

definition P_SAUX_HDR :: nat where
  "P_SAUX_HDR = 16384"

definition P_PFSPD_MAX_COMP :: int where
  "P_PFSPD_MAX_COMP = 128"

definition P_Y_COM_CODE :: string where
  "P_Y_COM_CODE = ''Y    ''"

definition P_UV_COM_CODE :: string where
  "P_UV_COM_CODE = ''U/V  ''"

definition P_U_COM_CODE :: string where
  "P_U_COM_CODE = ''U    ''"

definition P_V_COM_CODE :: string where
  "P_V_COM_CODE = ''V    ''"

definition P_R_COM_CODE :: string where
  "P_R_COM_CODE = ''R    ''"

definition P_G_COM_CODE :: string where
  "P_G_COM_CODE = ''G    ''"

definition P_B_COM_CODE :: string where
  "P_B_COM_CODE = ''B    ''"

definition P_S_COM_CODE :: string where
  "P_S_COM_CODE = ''S    ''"

definition P_P_COM_CODE :: string where
  "P_P_COM_CODE = ''P    ''"

definition P_XYZX_COM_CODE :: string where
  "P_XYZX_COM_CODE = ''X    ''"

definition P_XYZY_COM_CODE :: string where
  "P_XYZY_COM_CODE = ''Y    ''"

definition P_XYZZ_COM_CODE :: string where
  "P_XYZZ_COM_CODE = ''Z    ''"

definition P_VOID_COM_CODE :: string where
  "P_VOID_COM_CODE = ''void ''"

definition P_VIDEO_APPL_TYPE :: string where
  "P_VIDEO_APPL_TYPE = ''VIDEO                    ''"

definition P_AUX_LAST :: string where
  "P_AUX_LAST = ''       8''"

definition P_B8_DATA_FMT :: string where
  "P_B8_DATA_FMT = ''B*8 ''"

definition P_B10_DATA_FMT :: string where
  "P_B10_DATA_FMT = ''B*10''"

definition P_B12_DATA_FMT :: string where
  "P_B12_DATA_FMT = ''B*12''"

definition P_B14_DATA_FMT :: string where
  "P_B14_DATA_FMT = ''B*14''"

definition P_I2_DATA_FMT :: string where
  "P_I2_DATA_FMT = ''I*2 ''"

definition P_R2_DATA_FMT :: string where
  "P_R2_DATA_FMT = ''R*2 ''"

text \<open>
  \<^verbatim>\<open>strncmp (a, b, n) == 0\<close> on NUL-free strings: the first \<open>n\<close> characters agree, a string
  shorter than \<open>n\<close> being compared up to and including its end.
\<close>

definition strncmp_eq :: "string \<Rightarrow> string \<Rightarrow> nat \<Rightarrow> bool" where
  "strncmp_eq a b n = (take n a = take n b)"

section \<open>Colour-format catalogue and detection (cpfspd\_hdr.c)\<close>

record pT_default_comp =
  name :: "string option"
  pix_ss :: int
  lin_ss :: int
  mplex :: int

record pT_default_format =
  format :: pT_color
  nr_comp :: int
  fcomp :: "pT_default_comp list"

definition dcomp :: "string \<Rightarrow> int \<Rightarrow> int \<Rightarrow> int \<Rightarrow> pT_default_comp" where
  "dcomp n p l m = \<lparr>name = Some n, pix_ss = p, lin_ss = l, mplex = m\<rparr>"

definition dnull :: pT_default_comp where
  "dnull = \<lparr>name = None, pix_ss = 0, lin_ss = 0, mplex = 0\<rparr>"

definition p_default_formats :: "pT_default_format list" where
  "p_default_formats =
   [\<lparr>format = P_NO_COLOR, nr_comp = 1,
       fcomp = [dcomp P_Y_COM_CODE 1 1 1, dnull, dnull]\<rparr>,
    \<lparr>format = P_COLOR_422, nr_comp = 2,
       fcomp = [dcomp P_Y_COM_CODE 1 1 1, dcomp P_UV_COM_CODE 2 1 2, dnull]\<rparr>,
    \<lparr>format = P_COLOR_420, nr_comp = 2,
       fcomp = [dcomp P_Y_COM_CODE 1 1 1, dcomp P_UV_COM_CODE 2 2 2, dnull]\<rparr>,
    \<lparr>format = P_COLOR_444_PL, nr_comp = 3,
       fcomp = [dcomp P_Y_COM_CODE 1 1 1, dcomp P_U_COM_CODE 1 1 1, dcomp P_V_COM_CODE 1 1 1]\<rparr>,
    \<lparr>format = P_COLOR_422_PL, nr_comp = 3,
       fcomp = [dcomp P_Y_COM_CODE 1 1 1, dcomp P_U_COM_CODE 2 1 1, dcomp P_V_COM_CODE 2 1 1]\<rparr>,
    \<lparr>format = P_COLOR_420_PL, nr_comp = 3,
       fcomp = [dcomp P_Y_COM_CODE 1 1 1, dcomp P_U_COM_CODE 2 2 1, dcomp P_V_COM_CODE 2 2 1]\<rparr>,
    \<lparr>format = P_COLOR_RGB, nr_comp = 3,
       fcomp = [dcomp P_R_COM_CODE 1 1 1, dcomp P_G_COM_CODE 1 1 1, dcomp P_B_COM_CODE 1 1 1]\<rparr>,
    \<lparr>format = P_COLOR_XYZ, nr_comp = 3,
       fcomp = [dcomp P_XYZX_COM_CODE 1 1 1, dcomp P_XYZY_COM_CODE 1 1 1,
                dcomp P_XYZZ_COM_CODE 1 1 1]\<rparr>,
    \<lparr>format = P_STREAM, nr_comp = 1,
       fcomp = [dcomp P_S_COM_CODE 1 1 1, dnull, dnull]\<rparr>,
    \<lparr>format = P_UNKNOWN_COLOR, nr_comp = 0,
       fcomp = [dnull, dnull, dnull]\<rparr>]"

text \<open>
  The body of the inner loop of \<^verbatim>\<open>p_check_color_format\<close>: component \<open>i\<close> of the header is
  compared with component \<open>i\<close> of catalogue entry \<open>e\<close>; the counter \<open>match\<close> is incremented
  when name, subsample factors and multiplexed width all agree.
\<close>

definition match_step :: "pT_header \<Rightarrow> pT_default_format \<Rightarrow> int \<Rightarrow> nat \<Rightarrow> int" where
  "match_step h e m i =
     (let c = comp h ! i; d = fcomp e ! i in
      case name d of
        None \<Rightarrow> m
      | Some n \<Rightarrow>
          if strncmp_eq (com_code c) n P_SCOM_CODE then
            (if pix_sbsmpl c = pix_ss d \<and> lin_sbsmpl c = lin_ss d \<and>
                mul32 (pix_line c) (pix_sbsmpl c) = mul32 (act_pixel h) (mplex d)
             then m + 1 else m)
          else m)"

text \<open>The body of the outer loop: one catalogue entry, updating \<^verbatim>\<open>*color_format\<close>.\<close>

definition format_step :: "pT_header \<Rightarrow> pT_color \<Rightarrow> pT_default_format \<Rightarrow> pT_color" where
  "format_step h cf e =
     (if nr_compon h \<ge> nr_comp e then
        (let m = foldl (match_step h e) 0 [0 ..< nat (nr_comp e)] in
         if m = nr_comp e then format e else cf)
      else cf)"

definition p_check_color_format :: "pT_header \<Rightarrow> pT_status \<times> pT_color" where
  "p_check_color_format h =
     (let cf = foldl (format_step h) P_UNKNOWN_COLOR
                 (takeWhile (\<lambda>e. format e \<noteq> P_UNKNOWN_COLOR) p_default_formats)
      in (if cf = P_UNKNOWN_COLOR then P_ILLEGAL_COLOR_FORMAT else P_OK, cf))"

text \<open>
  The matching rule in the words of the specification: an entry matches when the header has at
  least the entry's number of components and every required component agrees in name,
  subsample factors and multiplexed width.
\<close>

definition comp_agrees :: "pT_header \<Rightarrow> pT_default_format \<Rightarrow> nat \<Rightarrow> bool" where
  "comp_agrees h e i =
     (let c = comp h ! i; d = fcomp e ! i in
      (case name d of None \<Rightarrow> False | Some n \<Rightarrow> take P_SCOM_CODE (com_code c) = take P_SCOM_CODE n) \<and>
      pix_sbsmpl c = pix_ss d \<and> lin_sbsmpl c = lin_ss d \<and>
      mul32 (pix_line c) (pix_sbsmpl c) = mul32 (act_pixel h) (mplex d))"

definition entry_matches :: "pT_header \<Rightarrow> pT_default_format \<Rightarrow> bool" where
  "entry_matches h e =
     (nr_compon h \<ge> nr_comp e \<and> list_all (comp_agrees h e) [0 ..< nat (nr_comp e)])"

definition catalog :: "pT_default_format list" where
  "catalog = butlast p_default_formats"

definition last_matching_format :: "pT_header \<Rightarrow> pT_status \<times> pT_color" where
  "last_matching_format h =
     (case filter (entry_matches h) catalog of
        [] \<Rightarrow> (P_ILLEGAL_COLOR_FORMAT, P_UNKNOWN_COLOR)
      | e # es \<Rightarrow> (P_OK, format (last (e # es))))"

text \<open>
  The initialisers \<^verbatim>\<open>P_COMPONENT_INIT\<close> and \<^verbatim>\<open>P_HEADER_INIT\<close> of cpfspd.h: everything zero,
  the auxiliary headers holding the sentinel only.
\<close>

definition P_COMPONENT_INIT :: pT_component where
  "P_COMPONENT_INIT =
     \<lparr>lin_image = 0, pix_line = 0, data_fmt = [], tem_sbsmpl = 0, lin_sbsmpl = 0,
      pix_sbsmpl = 0, tem_phshft = 0, lin_phshft = 0, pix_phshft = 0, com_code = []\<rparr>"

definition P_HEADER_INIT :: pT_header where
  "P_HEADER_INIT =
     \<lparr>nr_images = 0, nr_compon = 0, nr_fd_recs = 0, nr_aux_data_recs = 0, appl_type = [],
      bytes_rec = 0, little_endian = 0, nr_aux_hdr_recs = 0,
      ima_freq = 0, lin_freq = 0, pix_freq = 0, act_lines = 0, act_pixel = 0, interlace = 0,
      h_pp_size = 0, v_pp_size = 0,
      comp = replicate 128 P_COMPONENT_INIT,
      description = replicate P_SDESCRIPTION (CHR 0x00),
      disable_hdr_checks = 0, modified = 0, offset_lo = 0, offset_hi = 0,
      aux_hdrs = P_AUX_LAST @ replicate (P_SAUX_HDR - 8) (CHR 0x00)\<rparr>"

text \<open>A header used to evaluate the functions: interlaced 720 x 576, \<open>Y\<close> and multiplexed \<open>U/V\<close>.\<close>

definition yuv422_comps :: "pT_component list" where
  "yuv422_comps =
     [P_COMPONENT_INIT\<lparr>lin_image := 288, pix_line := 720, data_fmt := P_B8_DATA_FMT,
        tem_sbsmpl := 1, lin_sbsmpl := 1, pix_sbsmpl := 1, com_code := P_Y_COM_CODE\<rparr>,
      P_COMPONENT_INIT\<lparr>lin_image := 288, pix_line := 720, data_fmt := P_B8_DATA_FMT,
        tem_sbsmpl := 1, lin_sbsmpl := 1, pix_sbsmpl := 2, com_code := P_UV_COM_CODE\<rparr>]"

definition yuv422_header :: pT_header where
  "yuv422_header =
     P_HEADER_INIT\<lparr>nr_images := 4, nr_compon := 2, nr_fd_recs := 36, bytes_rec := 512,
       nr_aux_hdr_recs := 32, ima_freq := 50, lin_freq := 15.625, pix_freq := 13.5,
       act_lines := 576, act_pixel := 720, interlace := 2, h_pp_size := 4, v_pp_size := 3,
       appl_type := P_VIDEO_APPL_TYPE,
       comp := yuv422_comps @ replicate 126 P_COMPONENT_INIT\<rparr>"

section \<open>Sizes and file offsets (cpfspd\_low.c)\<close>

text \<open>
  \<^verbatim>\<open>p_get_size_comp\<close> computes \<^verbatim>\<open>data_size * width * height\<close> in \<^verbatim>\<open>int\<close>;
  \<^verbatim>\<open>p_get_size_image\<close> and \<^verbatim>\<open>p_get_size_header\<close> accumulate \<^verbatim>\<open>int\<close> products in a
  \<^verbatim>\<open>long\<close>.
\<close>

definition p_get_size_comp :: "int \<Rightarrow> int \<Rightarrow> string \<Rightarrow> int" where
  "p_get_size_comp width height fmt =
     (let data_size = (if strncmp_eq fmt P_B8_DATA_FMT P_SDATA_FMT then 1 else 2)
      in mul32 (mul32 data_size width) height)"

definition comp_size_at :: "pT_header \<Rightarrow> nat \<Rightarrow> int" where
  "comp_size_at h i =
     p_get_size_comp (pix_line (comp h ! i)) (lin_image (comp h ! i)) (data_fmt (comp h ! i))"

definition p_get_size_image :: "pT_header \<Rightarrow> int" where
  "p_get_size_image h =
     foldl (\<lambda>size i. add64 size (comp_size_at h i))
       (mul32 (nr_aux_data_recs h) (bytes_rec h))
       [0 ..< nat (nr_compon h)]"

definition p_get_size_header :: "pT_header \<Rightarrow> int" where
  "p_get_size_header h =
     (let size = mul32 P_NUM_GLOB_RECS (bytes_rec h);
          size = add64 size (mul32 (nr_fd_recs h) (bytes_rec h));
          size = add64 size (mul32 (mul32 P_NUM_COMP_RECS (nr_compon h)) (bytes_rec h))
      in size)"

text \<open>
  The offset handed to the first \<^verbatim>\<open>p_position_pointer\<close> call of \<^verbatim>\<open>p_read_image\<close>
  (``skip header and previous images'', ``skip current image aux data'', ``skip previous
  components of current image''), a \<^verbatim>\<open>fio_offset_t\<close>.  \<^verbatim>\<open>p_write_image\<close> computes its
  offset by the same statements.
\<close>

definition p_read_image_offset :: "pT_header \<Rightarrow> int \<Rightarrow> int \<Rightarrow> int" where
  "p_read_image_offset h nr comp_nr =
     (let offset = p_get_size_header h;
          offset = add64 offset (mul64 (sub32 nr 1) (p_get_size_image h));
          offset = add64 offset (mul32 (nr_aux_data_recs h) (bytes_rec h))
      in foldl (\<lambda>offset i. add64 offset (comp_size_at h i)) offset [0 ..< nat comp_nr])"

definition p_write_image_offset :: "pT_header \<Rightarrow> int \<Rightarrow> int \<Rightarrow> int" where
  "p_write_image_offset h nr comp_nr =
     (let offset = p_get_size_header h;
          offset = add64 offset (mul64 (sub32 nr 1) (p_get_size_image h));
          offset = add64 offset (mul32 (nr_aux_data_recs h) (bytes_rec h))
      in foldl (\<lambda>offset i. add64 offset (comp_size_at h i)) offset [0 ..< nat comp_nr])"

text \<open>The layout formulas of the specification, over the mathematical integers.\<close>

definition bytes_per_sample :: "pT_component \<Rightarrow> int" where
  "bytes_per_sample c = (if take 4 (data_fmt c) = ''B*8 '' then 1 else 2)"

definition comp_bytes :: "pT_component \<Rightarrow> int" where
  "comp_bytes c = bytes_per_sample c * pix_line c * lin_image c"

definition header_size :: "pT_header \<Rightarrow> int" where
  "header_size h = (2 + nr_fd_recs h + 2 * nr_compon h) * bytes_rec h"

definition image_size :: "pT_header \<Rightarrow> int" where
  "image_size h =
     nr_aux_data_recs h * bytes_rec h
     + sum_list (map (\<lambda>i. comp_bytes (comp h ! i)) [0 ..< nat (nr_compon h)])"

definition component_offset :: "pT_header \<Rightarrow> int \<Rightarrow> int \<Rightarrow> int" where
  "component_offset h nr comp_nr =
     header_size h + (nr - 1) * image_size h + nr_aux_data_recs h * bytes_rec h
     + sum_list (map (\<lambda>i. comp_bytes (comp h ! i)) [0 ..< nat comp_nr])"

text \<open>
  The condition under which none of the C computations above leaves its type: the counts and
  sizes are not negative, every \<^verbatim>\<open>int\<close> product fits 32 bits and the final offset fits 64
  bits.
\<close>

definition comp_fits :: "pT_component \<Rightarrow> bool" where
  "comp_fits c =
     (0 \<le> pix_line c \<and> 0 \<le> lin_image c \<and>
      in_int32 (bytes_per_sample c * pix_line c) \<and> in_int32 (comp_bytes c))"

definition sizes_fit :: "pT_header \<Rightarrow> int \<Rightarrow> int \<Rightarrow> bool" where
  "sizes_fit h nr comp_nr =
     (0 \<le> bytes_rec h \<and> 0 \<le> nr_fd_recs h \<and> 0 \<le> nr_compon h \<and> 0 \<le> nr_aux_data_recs h \<and>
      in_int32 nr \<and>
      in_int32 (2 * bytes_rec h) \<and> in_int32 (nr_fd_recs h * bytes_rec h) \<and>
      in_int32 (2 * nr_compon h) \<and> in_int32 (2 * nr_compon h * bytes_rec h) \<and>
      in_int32 (nr_aux_data_recs h * bytes_rec h) \<and>
      list_all (\<lambda>i. comp_fits (comp h ! i)) [0 ..< max (nat (nr_compon h)) (nat comp_nr)] \<and>
      in_int64 (image_size h) \<and>
      in_int64 (component_offset h nr comp_nr))"

text \<open>
  A header whose only component has 40000 x 40000 samples of 16 bits: every field is within the
  width of its decimal field in the file header, the component has more than \<open>2^31\<close> bytes.
\<close>

definition big_header :: pT_header where
  "big_header =
     P_HEADER_INIT\<lparr>nr_images := 2, nr_compon := 1, nr_fd_recs := 36, bytes_rec := 512,
       nr_aux_hdr_recs := 32, act_lines := 40000, act_pixel := 40000, interlace := 1,
       h_pp_size := 1, v_pp_size := 1, appl_type := P_VIDEO_APPL_TYPE,
       comp := P_COMPONENT_INIT\<lparr>lin_image := 40000, pix_line := 40000,
          data_fmt := P_I2_DATA_FMT, tem_sbsmpl := 1, lin_sbsmpl := 1, pix_sbsmpl := 1,
          com_code := P_Y_COM_CODE\<rparr> # replicate 127 P_COMPONENT_INIT\<rparr>"

section \<open>Header checks (cpfspd\_hdr.c) and getters (cpfspd\_get.c)\<close>

definition p_get_comp_data_format :: "pT_header \<Rightarrow> nat \<Rightarrow> pT_data_fmt" where
  "p_get_comp_data_format h comp_nr =
     (let f = data_fmt (comp h ! comp_nr) in
      if strncmp_eq f P_B8_DATA_FMT P_SDATA_FMT then P_8_BIT_FILE
      else if strncmp_eq f P_B10_DATA_FMT P_SDATA_FMT then P_10_BIT_FILE
      else if strncmp_eq f P_B12_DATA_FMT P_SDATA_FMT then P_12_BIT_FILE
      else if strncmp_eq f P_B14_DATA_FMT P_SDATA_FMT then P_14_BIT_FILE
      else if strncmp_eq f P_I2_DATA_FMT P_SDATA_FMT then P_16_BIT_FILE
      else if strncmp_eq f P_R2_DATA_FMT P_SDATA_FMT then P_16_REAL_FILE
      else P_UNKNOWN_DATA_FORMAT)"

text \<open>
  The \<^verbatim>\<open>switch (color_format)\<close> that several functions use to find the number of components
  a colour format prescribes; the \<^verbatim>\<open>default\<close> branch yields 0.
\<close>

fun color_nr_compon :: "pT_color \<Rightarrow> nat" where
  "color_nr_compon P_NO_COLOR = 1"
| "color_nr_compon P_STREAM = 1"
| "color_nr_compon P_COLOR_422 = 2"
| "color_nr_compon P_COLOR_420 = 2"
| "color_nr_compon P_COLOR_444_PL = 3"
| "color_nr_compon P_COLOR_422_PL = 3"
| "color_nr_compon P_COLOR_420_PL = 3"
| "color_nr_compon P_COLOR_RGB = 3"
| "color_nr_compon P_COLOR_XYZ = 3"
| "color_nr_compon P_UNKNOWN_COLOR = 0"

text \<open>One iteration of the loop of \<^verbatim>\<open>p_check_file_data_format\<close>; the state is
  \<open>(status, first_comp_data_fmt)\<close>.\<close>

definition file_data_format_step ::
  "pT_header \<Rightarrow> pT_status \<times> pT_data_fmt \<Rightarrow> nat \<Rightarrow> pT_status \<times> pT_data_fmt" where
  "file_data_format_step h s i =
     (let temp_data_fmt = p_get_comp_data_format h i in
      if i = 0 then (fst s, temp_data_fmt)
      else if snd s \<noteq> temp_data_fmt then (P_FILE_DATA_FORMATS_NOT_EQUAL, snd s)
      else s)"

definition p_check_file_data_format ::
  "pT_header \<Rightarrow> pT_color \<Rightarrow> pT_status \<times> pT_data_fmt" where
  "p_check_file_data_format h color_format =
     (let (status, first) =
            foldl (file_data_format_step h) (P_OK, P_UNKNOWN_DATA_FORMAT)
              [0 ..< color_nr_compon color_format]
      in if first = P_UNKNOWN_DATA_FORMAT \<or>
            (disable_hdr_checks h = 0 \<and> first = P_16_REAL_FILE \<and>
             color_format \<noteq> P_COLOR_RGB \<and> color_format \<noteq> P_COLOR_XYZ)
         then (P_ILLEGAL_FILE_DATA_FORMAT, first)
         else (status, first))"

primrec poor_mans_pow :: "int \<Rightarrow> nat \<Rightarrow> int" where
  "poor_mans_pow x 0 = 1"
| "poor_mans_pow x (Suc y) = mul32 (poor_mans_pow x y) x"

definition MAX_DECIMAL :: "nat \<Rightarrow> int" where
  "MAX_DECIMAL s = sub32 (poor_mans_pow 10 s) 1"

text \<open>The body of the component loop of \<^verbatim>\<open>p_check_hdr_basic\<close>, entered with status
  \<open>P_OK\<close>; a later failing test overrides an earlier one.\<close>

definition check_comp_basic :: "pT_component \<Rightarrow> pT_status" where
  "check_comp_basic c =
     (let status = P_OK;
          status = (if lin_image c < 0 \<or> lin_image c > MAX_DECIMAL 6
                    then P_ILLEGAL_COMP_SIZE else status);
          status = (if pix_line c < 0 \<or> pix_line c > MAX_DECIMAL 6
                    then P_ILLEGAL_COMP_SIZE else status);
          status = (if tem_sbsmpl c \<noteq> 1 then P_ILLEGAL_TEM_SBSMPL else status);
          status = (if lin_sbsmpl c < 0 \<or> lin_sbsmpl c > MAX_DECIMAL 2
                    then P_ILLEGAL_LIN_SBSMPL else status);
          status = (if pix_sbsmpl c < 0 \<or> pix_sbsmpl c > MAX_DECIMAL 2
                    then P_ILLEGAL_PIX_SBSMPL else status);
          status = (if tem_phshft c < 0 \<or> tem_phshft c > MAX_DECIMAL 2
                    then P_ILLEGAL_PHSHFT else status);
          status = (if lin_phshft c < 0 \<or> lin_phshft c > MAX_DECIMAL 2
                    then P_ILLEGAL_PHSHFT else status);
          status = (if pix_phshft c < 0 \<or> pix_phshft c > MAX_DECIMAL 2
                    then P_ILLEGAL_PHSHFT else status)
      in status)"

definition p_check_hdr_basic :: "pT_header \<Rightarrow> pT_status" where
  "p_check_hdr_basic h =
     (let status = P_OK;
          status = (if nr_images h < 0 \<or> nr_images h > MAX_DECIMAL 7
                    then P_TOO_MANY_IMAGES else status);
          status = (if nr_compon h < 0 \<or> nr_compon h > P_PFSPD_MAX_COMP
                    then P_TOO_MANY_COMPONENTS else status);
          status = (if mul32 (nr_aux_hdr_recs h) (bytes_rec h) > int P_SAUX_HDR
                    then P_EXCEEDING_AUXILIARY_HDR_SIZE else status);
          status = (if act_lines h < 0 \<or> act_lines h > MAX_DECIMAL 6
                    then P_ILLEGAL_IMAGE_SIZE else status);
          status = (if act_pixel h < 0 \<or> act_pixel h > MAX_DECIMAL 6
                    then P_ILLEGAL_IMAGE_SIZE else status);
          status = (if interlace h < 0 \<or> interlace h > 2
                    then P_ILLEGAL_INTERLACE else status)
      in foldl (\<lambda>status i. if status = P_OK then check_comp_basic (comp h ! i) else status)
           status [0 ..< nat (nr_compon h)])"

text \<open>
  \<^verbatim>\<open>p_check_component_sizes\<close>.  \<open>lum_ok i\<close> is the test on a full-size component,
  \<open>chr_bad i m\<close> the test on a chrominance component with multiplexed width \<open>m * act_pixel\<close>.
\<close>

definition full_size_bad :: "pT_header \<Rightarrow> nat \<Rightarrow> bool" where
  "full_size_bad h i =
     (pix_line (comp h ! i) \<noteq> act_pixel h \<or>
      mul32 (lin_image (comp h ! i)) (interlace h) \<noteq> act_lines h)"

definition chr_size_bad :: "pT_header \<Rightarrow> nat \<Rightarrow> int \<Rightarrow> bool" where
  "chr_size_bad h i width =
     (mul32 (pix_line (comp h ! i)) (pix_sbsmpl (comp h ! i)) \<noteq> width \<or>
      mul32 (mul32 (lin_image (comp h ! i)) (lin_sbsmpl (comp h ! i))) (interlace h)
        \<noteq> act_lines h)"

definition extra_comp_step :: "pT_header \<Rightarrow> pT_status \<Rightarrow> nat \<Rightarrow> pT_status" where
  "extra_comp_step h status i =
     (if \<not> strncmp_eq (com_code (comp h ! i)) P_P_COM_CODE P_SCOM_CODE then
        (let multiplex =
               c_div (mul32 (pix_line (comp h ! i)) (pix_sbsmpl (comp h ! i))) (act_pixel h)
         in if chr_size_bad h i (mul32 (act_pixel h) multiplex)
            then P_WRONG_EXTRA_COMP_SIZE else status)
      else status)"

definition p_check_component_sizes :: "pT_header \<Rightarrow> pT_color \<Rightarrow> pT_status" where
  "p_check_component_sizes h color_format =
     (let status =
        (if color_format \<in> {P_NO_COLOR, P_COLOR_422, P_COLOR_420, P_COLOR_444_PL,
                               P_COLOR_422_PL, P_COLOR_420_PL} then
           (if full_size_bad h 0 then P_WRONG_LUM_COMP_SIZE else P_OK)
         else if color_format = P_STREAM then
           (if full_size_bad h 0 then P_WRONG_STREAM_COMP_SIZE else P_OK)
         else if color_format = P_COLOR_RGB then
           (if full_size_bad h 0 \<or> full_size_bad h 1 \<or> full_size_bad h 2
            then P_WRONG_RGB_COMP_SIZE else P_OK)
         else if color_format = P_COLOR_XYZ then
           (if full_size_bad h 0 \<or> full_size_bad h 1 \<or> full_size_bad h 2
            then P_WRONG_XYZ_COMP_SIZE else P_OK)
         else P_ILLEGAL_COLOR_FORMAT);
          status =
        (if status = P_OK then
           (if color_format \<in> {P_COLOR_422, P_COLOR_420} then
              (if chr_size_bad h 1 (mul32 (act_pixel h) 2) then P_WRONG_CHR_COMP_SIZE else status)
            else if color_format \<in> {P_COLOR_444_PL, P_COLOR_422_PL, P_COLOR_420_PL} then
              (if chr_size_bad h 1 (act_pixel h) \<or> chr_size_bad h 2 (act_pixel h)
               then P_WRONG_CHR_COMP_SIZE else status)
            else status)
         else status)
      in if status = P_OK then
           foldl (extra_comp_step h) status
             [color_nr_compon color_format ..< nat (nr_compon h)]
         else status)"

definition p_check_header :: "pT_header \<Rightarrow> pT_status" where
  "p_check_header h =
     (let status = p_check_hdr_basic h in
      if disable_hdr_checks h \<noteq> 0 then status
      else if status \<noteq> P_OK then status
      else
        (let (status, color_format) = p_check_color_format h in
         if status \<noteq> P_OK then status
         else
           (let status = p_check_component_sizes h color_format in
            if status \<noteq> P_OK then status
            else fst (p_check_file_data_format h color_format))))"

definition p_get_num_frames :: "pT_header \<Rightarrow> int" where
  "p_get_num_frames h = c_div (nr_images h) (interlace h)"

definition p_is_interlaced :: "pT_header \<Rightarrow> int" where
  "p_is_interlaced h = (if interlace h = 2 then 1 else 0)"

definition p_is_progressive :: "pT_header \<Rightarrow> int" where
  "p_is_progressive h = (if interlace h = 1 then 1 else 0)"

definition p_get_frame_width :: "pT_header \<Rightarrow> int" where
  "p_get_frame_width h = act_pixel h"

definition p_get_color_format :: "pT_header \<Rightarrow> pT_color" where
  "p_get_color_format h =
     (let (status, color_format) = p_check_color_format h
      in if status \<noteq> P_OK then P_UNKNOWN_COLOR else color_format)"

definition p_get_file_data_format :: "pT_header \<Rightarrow> pT_data_fmt" where
  "p_get_file_data_format h =
     (let (status, file_data_fmt) = p_check_file_data_format h (p_get_color_format h)
      in if status \<noteq> P_OK then P_UNKNOWN_DATA_FORMAT else file_data_fmt)"

datatype pT_freq =
    P_50HZ
  | P_60HZ
  | P_REAL_60HZ
  | P_75HZ
  | P_90HZ
  | P_REAL_90HZ
  | P_100HZ
  | P_120HZ
  | P_REAL_120HZ
  | P_25HZ
  | P_24HZ
  | P_REAL_24HZ
  | P_30HZ
  | P_REAL_30HZ
  | P_UNKNOWN_FREQ

datatype pT_asp_rat =
    P_4_3
  | P_16_9
  | P_AS_WH
  | P_UNKNOWN_ASPECT_RATIO

definition P_STD_IMA_FREQ_50HZ :: real where
  "P_STD_IMA_FREQ_50HZ = 50"

definition P_STD_IMA_FREQ_60HZ :: real where
  "P_STD_IMA_FREQ_60HZ = 5994 / 100"

definition P_STD_IMA_FREQ_REAL_60HZ :: real where
  "P_STD_IMA_FREQ_REAL_60HZ = 60"

text \<open>Conversion of a double to \<^verbatim>\<open>int\<close> truncates towards zero.\<close>

definition c_trunc :: "real \<Rightarrow> int" where
  "c_trunc x = (if 0 \<le> x then \<lfloor>x\<rfloor> else \<lceil>x\<rceil>)"

definition P_TO_INT :: "real \<Rightarrow> int" where
  "P_TO_INT a = c_trunc (100 * a + 1 / 2)"

definition p_get_image_freq :: "pT_header \<Rightarrow> pT_freq" where
  "p_get_image_freq h =
     (let int_image_freq = P_TO_INT (ima_freq h) in
      if int_image_freq = P_TO_INT (4 / 10 * P_STD_IMA_FREQ_60HZ) then P_24HZ
      else if int_image_freq = P_TO_INT (4 / 10 * P_STD_IMA_FREQ_REAL_60HZ) then P_REAL_24HZ
      else if int_image_freq = P_TO_INT (1 / 2 * P_STD_IMA_FREQ_50HZ) then P_25HZ
      else if int_image_freq = P_TO_INT (1 / 2 * P_STD_IMA_FREQ_60HZ) then P_30HZ
      else if int_image_freq = P_TO_INT (1 / 2 * P_STD_IMA_FREQ_REAL_60HZ) then P_REAL_30HZ
      else if int_image_freq = P_TO_INT P_STD_IMA_FREQ_50HZ then P_50HZ
      else if int_image_freq = P_TO_INT P_STD_IMA_FREQ_60HZ then P_60HZ
      else if int_image_freq = P_TO_INT P_STD_IMA_FREQ_REAL_60HZ then P_REAL_60HZ
      else if int_image_freq = P_TO_INT (3 / 2 * P_STD_IMA_FREQ_50HZ) then P_75HZ
      else if int_image_freq = P_TO_INT (3 / 2 * P_STD_IMA_FREQ_60HZ) then P_90HZ
      else if int_image_freq = P_TO_INT (3 / 2 * P_STD_IMA_FREQ_REAL_60HZ) then P_REAL_90HZ
      else if int_image_freq = P_TO_INT (2 * P_STD_IMA_FREQ_50HZ) then P_100HZ
      else if int_image_freq = P_TO_INT (2 * P_STD_IMA_FREQ_60HZ) then P_120HZ
      else if int_image_freq = P_TO_INT (2 * P_STD_IMA_FREQ_REAL_60HZ) then P_REAL_120HZ
      else P_UNKNOWN_FREQ)"

section \<open>Header modification (cpfspd\_mod.c) and construction (cpfspd\_hdr.c)\<close>

text \<open>
  A function that takes a \<^verbatim>\<open>pT_header *\<close> and changes the header returns the new header
  next to its C result.
\<close>

definition p_mod_num_frames :: "pT_header \<Rightarrow> int \<Rightarrow> pT_status \<times> pT_header" where
  "p_mod_num_frames h num_frames =
     (P_OK, h\<lparr>nr_images := mul32 num_frames (interlace h), modified := 1\<rparr>)"

definition p_mod_add_comp :: "pT_header \<Rightarrow> int \<times> pT_header" where
  "p_mod_add_comp h =
     (if nr_compon h < P_PFSPD_MAX_COMP then
        (let c = nr_compon h;
             new = \<lparr>lin_image = c_div (act_lines h) (interlace h), pix_line = act_pixel h,
                    data_fmt = P_B8_DATA_FMT, tem_sbsmpl = 1, lin_sbsmpl = 1, pix_sbsmpl = 1,
                    tem_phshft = 0, lin_phshft = 0, pix_phshft = 0,
                    com_code = P_VOID_COM_CODE\<rparr>
         in (c, h\<lparr>nr_compon := add32 c 1, comp := (comp h)[nat c := new], modified := 1\<rparr>))
      else (- 1, h))"

definition data_fmt_string :: "pT_data_fmt \<Rightarrow> string option" where
  "data_fmt_string f =
     (case f of
        P_8_BIT_FILE \<Rightarrow> Some P_B8_DATA_FMT
      | P_10_BIT_FILE \<Rightarrow> Some P_B10_DATA_FMT
      | P_12_BIT_FILE \<Rightarrow> Some P_B12_DATA_FMT
      | P_14_BIT_FILE \<Rightarrow> Some P_B14_DATA_FMT
      | P_16_BIT_FILE \<Rightarrow> Some P_I2_DATA_FMT
      | P_16_REAL_FILE \<Rightarrow> Some P_R2_DATA_FMT
      | P_UNKNOWN_DATA_FORMAT \<Rightarrow> None)"

text \<open>\<^verbatim>\<open>sprintf ("%-*s", width, s)\<close>: left-justified, padded with spaces to at least \<open>width\<close>.\<close>

definition pad_right :: "nat \<Rightarrow> string \<Rightarrow> string" where
  "pad_right width s = s @ replicate (width - length s) CHR '' ''"

definition p_mod_set_comp_2 ::
  "pT_header \<Rightarrow> int \<Rightarrow> string \<Rightarrow> pT_data_fmt \<Rightarrow> int \<Rightarrow> int \<Rightarrow> int \<Rightarrow> pT_status \<times> pT_header" where
  "p_mod_set_comp_2 h cmp nm file_data_fmt pix_subsample line_subsample multiplex_factor =
     (let status = P_OK;
          status = (if cmp < 0 \<or> cmp \<ge> nr_compon h then P_INVALID_COMPONENT else status);
          status = (if c_mod (act_pixel h) pix_subsample \<noteq> 0 \<or>
                       c_mod (act_lines h) line_subsample \<noteq> 0
                    then P_WRONG_SUBSAMPLE_FACTOR else status);
          (format_str, status) =
             (case data_fmt_string file_data_fmt of
                Some f \<Rightarrow> (f, status)
              | None \<Rightarrow> ('' '', P_ILLEGAL_FILE_DATA_FORMAT));
          name_str = take P_SCOM_CODE nm
      in if status = P_OK then
           (let new = \<lparr>lin_image = c_div (c_div (act_lines h) line_subsample) (interlace h),
                         pix_line = c_div (mul32 multiplex_factor (act_pixel h)) pix_subsample,
                         data_fmt = format_str, tem_sbsmpl = 1, lin_sbsmpl = line_subsample,
                         pix_sbsmpl = pix_subsample, tem_phshft = 0, lin_phshft = 0,
                         pix_phshft = 0, com_code = pad_right P_SCOM_CODE name_str\<rparr>
            in (status, h\<lparr>comp := (comp h)[nat cmp := new], modified := 1\<rparr>))
         else (status, h\<lparr>modified := 1\<rparr>))"

text \<open>The header after \<^verbatim>\<open>memset (header, 0, sizeof (pT_header))\<close>.\<close>

definition zero_header :: pT_header where
  "zero_header =
     \<lparr>nr_images = 0, nr_compon = 0, nr_fd_recs = 0, nr_aux_data_recs = 0, appl_type = [],
      bytes_rec = 0, little_endian = 0, nr_aux_hdr_recs = 0,
      ima_freq = 0, lin_freq = 0, pix_freq = 0, act_lines = 0, act_pixel = 0, interlace = 0,
      h_pp_size = 0, v_pp_size = 0,
      comp = replicate 128 P_COMPONENT_INIT,
      description = replicate P_SDESCRIPTION (CHR 0x00),
      disable_hdr_checks = 0, modified = 0, offset_lo = 0, offset_hi = 0,
      aux_hdrs = replicate P_SAUX_HDR (CHR 0x00)\<rparr>"

text \<open>\<^verbatim>\<open>strcpy\<close> of \<open>s\<close> to offset \<open>off\<close> of a byte array: the characters and the
  terminating NUL.\<close>

definition write_bytes :: "char list \<Rightarrow> nat \<Rightarrow> char list \<Rightarrow> char list" where
  "write_bytes buf off bs = take off buf @ bs @ drop (off + length bs) buf"

definition strcpy_at :: "char list \<Rightarrow> nat \<Rightarrow> string \<Rightarrow> char list" where
  "strcpy_at buf off s = write_bytes buf off (s @ [CHR 0x00])"

text \<open>The catalogue entry that the \<^verbatim>\<open>while\<close> loop of \<^verbatim>\<open>p_create_free_header\<close> stops at: the
  first entry with the requested format, or the sentinel.\<close>

definition find_default_format :: "pT_color \<Rightarrow> pT_default_format" where
  "find_default_format color =
     hd (dropWhile (\<lambda>e. format e \<noteq> color \<and> format e \<noteq> P_UNKNOWN_COLOR) p_default_formats)"

definition create_comp_step ::
  "pT_default_format \<Rightarrow> pT_status \<times> pT_header \<Rightarrow> nat \<Rightarrow> pT_status \<times> pT_header" where
  "create_comp_step e s i =
     (if fst s \<noteq> P_OK then s
      else
        (let (cmp, h1) = p_mod_add_comp (snd s);
             d = fcomp e ! i
         in p_mod_set_comp_2 h1 cmp (case name d of Some n \<Rightarrow> n | None \<Rightarrow> [])
              P_8_BIT_FILE (pix_ss d) (lin_ss d) (mplex d)))"

definition p_create_free_header ::
  "pT_color \<Rightarrow> real \<Rightarrow> real \<Rightarrow> real \<Rightarrow> int \<Rightarrow> int \<Rightarrow> int \<Rightarrow> int \<Rightarrow> int
     \<Rightarrow> pT_status \<times> pT_header" where
  "p_create_free_header color ima lin pix lines pixel interlace_factor h_ratio v_ratio =
     (if color = P_UNKNOWN_COLOR then (P_ILLEGAL_COLOR_FORMAT, zero_header)
      else
        (let aux_recs = c_div (int P_SAUX_HDR + P_BYTES_REC - 1) P_BYTES_REC;
             h = zero_header\<lparr>nr_images := 0, nr_compon := 0,
                   nr_fd_recs := c_div (int P_SDESCRIPTION + P_BYTES_REC - 1) P_BYTES_REC + aux_recs,
                   nr_aux_data_recs := 0, appl_type := P_VIDEO_APPL_TYPE,
                   bytes_rec := P_BYTES_REC, little_endian := 0, nr_aux_hdr_recs := aux_recs,
                   ima_freq := ima, lin_freq := lin, pix_freq := pix,
                   act_lines := lines, act_pixel := pixel, interlace := interlace_factor,
                   h_pp_size := h_ratio, v_pp_size := v_ratio,
                   aux_hdrs := strcpy_at (aux_hdrs zero_header) 0 P_AUX_LAST\<rparr>;
             e = find_default_format color
         in foldl (create_comp_step e) (P_OK, h) [0 ..< nat (nr_comp e)]))"

definition p_mod_file_data_format :: "pT_header \<Rightarrow> pT_data_fmt \<Rightarrow> pT_status \<times> pT_header" where
  "p_mod_file_data_format h file_data_fmt =
     (let color_format = p_get_color_format h;
          (format_str, status) =
             (if file_data_fmt = P_16_REAL_FILE \<and>
                 \<not> (color_format = P_COLOR_RGB \<or> color_format = P_COLOR_XYZ)
              then ('' '', P_ILLEGAL_FILE_DATA_FORMAT)
              else (case data_fmt_string file_data_fmt of
                      Some f \<Rightarrow> (f, P_OK)
                    | None \<Rightarrow> ('' '', P_ILLEGAL_FILE_DATA_FORMAT)));
          status = (if color_format = P_UNKNOWN_COLOR then P_ILLEGAL_COLOR_FORMAT else status);
          cs = (if status = P_OK then
                  foldl (\<lambda>cs i. cs[i := (cs ! i)\<lparr>data_fmt := format_str\<rparr>]) (comp h)
                    [0 ..< color_nr_compon color_format]
                else comp h)
      in (status, h\<lparr>comp := cs, modified := 1\<rparr>))"

definition p_mod_color_format :: "pT_header \<Rightarrow> pT_color \<Rightarrow> pT_status \<times> pT_header" where
  "p_mod_color_format h color_format =
     (let old_color_format = p_get_color_format h;
          num_frames = p_get_num_frames h;
          file_data_fmt = p_get_file_data_format h;
          (status, h1) =
            (if old_color_format \<noteq> color_format then
               (let (status, h1) =
                      p_create_free_header color_format (ima_freq h) (lin_freq h) (pix_freq h)
                        (act_lines h) (act_pixel h) (interlace h) (h_pp_size h) (v_pp_size h);
                    (status, h1) =
                      (if status = P_OK then p_mod_num_frames h1 num_frames else (status, h1));
                    (status, h1) =
                      (if status = P_OK then p_mod_file_data_format h1 file_data_fmt
                       else (status, h1))
                in (status, h1))
             else (P_OK, h))
      in (status, h1\<lparr>modified := 1\<rparr>))"

text \<open>
  \<^verbatim>\<open>lcd\<close>: the loop runs while \<^verbatim>\<open>x * y != 0\<close>.  It is entered with positive \<open>x\<close> and \<open>y\<close>
  and keeps both non-negative, so that it stops as soon as one of them is 0; the guard of the
  model says so.
\<close>

function lcd_loop :: "int \<Rightarrow> int \<Rightarrow> int" where
  "lcd_loop x y =
     (if 0 < x \<and> 0 < y \<and> mul32 x y \<noteq> 0 then
        (if x > y then lcd_loop (c_mod x y) y else lcd_loop x (c_mod y x))
      else add32 x y)"
  by pat_completeness auto
termination
proof (relation "measure (\<lambda>(x, y). nat (x + y))")
  show "wf (measure (\<lambda>(x, y). nat (x + y)))" by simp
next
  fix x y :: int
  assume a: "0 < x \<and> 0 < y \<and> mul32 x y \<noteq> 0" and b: "y < x"
  have m: "c_mod x y = x mod y"
    using a by (simp add: c_mod_def c_div_def minus_mult_div_eq_mod)
  have "x mod y < y" and "0 \<le> x mod y" using a by simp_all
  then have "nat (x mod y + y) < nat (x + y)" using a b by linarith
  then show "((c_mod x y, y), (x, y)) \<in> measure (\<lambda>(x, y). nat (x + y))"
    by (simp add: m)
next
  fix x y :: int
  assume a: "0 < x \<and> 0 < y \<and> mul32 x y \<noteq> 0" and b: "\<not> y < x"
  have m: "c_mod y x = y mod x"
    using a by (simp add: c_mod_def c_div_def minus_mult_div_eq_mod)
  have "y mod x < x" and "0 \<le> y mod x" using a by simp_all
  then have "nat (x + y mod x) < nat (x + y)" using a b by linarith
  then show "((x, c_mod y x), (x, y)) \<in> measure (\<lambda>(x, y). nat (x + y))"
    by (simp add: m)
qed

definition lcd :: "int \<Rightarrow> int \<Rightarrow> int" where
  "lcd x y = (if x \<le> 0 \<or> y \<le> 0 then 1 else lcd_loop x y)"

definition p_mod_aspect_ratio :: "pT_header \<Rightarrow> pT_asp_rat \<Rightarrow> pT_status \<times> pT_header" where
  "p_mod_aspect_ratio h ratio =
     (let (h_ratio, v_ratio, status) =
            (case ratio of
               P_4_3 \<Rightarrow> (4, 3, P_OK)
             | P_16_9 \<Rightarrow> (16, 9, P_OK)
             | P_AS_WH \<Rightarrow>
                 (let d = lcd (act_pixel h) (act_lines h)
                  in (c_div (act_pixel h) d, c_div (act_lines h) d, P_OK))
             | P_UNKNOWN_ASPECT_RATIO \<Rightarrow> (0, 0, P_ILLEGAL_ASPECT_RATIO));
          h1 = (if status = P_OK then h\<lparr>h_pp_size := h_ratio, v_pp_size := v_ratio\<rparr> else h)
      in (status, h1\<lparr>modified := 1\<rparr>))"

text \<open>The colour components whose \<^verbatim>\<open>lin_image\<close> the progressive/interlaced conversions
  rescale: the \<^verbatim>\<open>switch (color_format)\<close> of both functions, stream and unknown formats
  falling to \<^verbatim>\<open>default\<close>.\<close>

definition scaled_comps :: "pT_color \<Rightarrow> nat list" where
  "scaled_comps color_format =
     (if color_format = P_STREAM then [] else [0 ..< color_nr_compon color_format])"

definition p_mod_to_progressive :: "pT_header \<Rightarrow> pT_status \<times> pT_header" where
  "p_mod_to_progressive h =
     (let color_format = p_get_color_format h;
          h1 = (if p_is_interlaced h \<noteq> 0 then
                  h\<lparr>nr_images := c_div (nr_images h) 2,
                    lin_freq := lin_freq h * 2, pix_freq := pix_freq h * 2, interlace := 1,
                    comp := foldl (\<lambda>cs i. cs[i := (cs ! i)\<lparr>lin_image := mul32 (lin_image (cs ! i)) 2\<rparr>])
                              (comp h) (scaled_comps color_format)\<rparr>
                else h)
      in (P_OK, h1\<lparr>modified := 1\<rparr>))"

definition p_mod_to_interlaced :: "pT_header \<Rightarrow> pT_status \<times> pT_header" where
  "p_mod_to_interlaced h =
     (let color_format = p_get_color_format h;
          h1 = (if p_is_progressive h \<noteq> 0 then
                  h\<lparr>nr_images := mul32 (nr_images h) 2,
                    lin_freq := lin_freq h / 2, pix_freq := pix_freq h / 2, interlace := 2,
                    comp := foldl (\<lambda>cs i. cs[i := (cs ! i)\<lparr>lin_image := c_div (lin_image (cs ! i)) 2\<rparr>])
                              (comp h) (scaled_comps color_format)\<rparr>
                else h)
      in (P_OK, h1\<lparr>modified := 1\<rparr>))"

definition p_mod_to_dbl_image_rate :: "pT_header \<Rightarrow> pT_status \<times> pT_header" where
  "p_mod_to_dbl_image_rate h =
     (let old_image_freq = p_get_image_freq h in
      if old_image_freq \<in> {P_50HZ, P_60HZ, P_REAL_60HZ} then
        (P_OK, h\<lparr>nr_images := mul32 (nr_images h) 2, ima_freq := ima_freq h * 2,
                 lin_freq := lin_freq h * 2, pix_freq := pix_freq h * 2, modified := 1\<rparr>)
      else (P_ILLEGAL_IMAGE_FREQ_MOD, h\<lparr>modified := 1\<rparr>))"

definition p_mod_to_onehalf_image_rate :: "pT_header \<Rightarrow> pT_status \<times> pT_header" where
  "p_mod_to_onehalf_image_rate h =
     (let old_image_freq = p_get_image_freq h in
      if old_image_freq \<in> {P_50HZ, P_60HZ, P_REAL_60HZ} then
        (P_OK, h\<lparr>nr_images := c_trunc (real_of_int (nr_images h) * (3 / 2)),
                 ima_freq := ima_freq h * (3 / 2), lin_freq := lin_freq h * (3 / 2),
                 pix_freq := pix_freq h * (3 / 2), modified := 1\<rparr>)
      else (P_ILLEGAL_IMAGE_FREQ_MOD, h\<lparr>modified := 1\<rparr>))"

definition image_size_step :: "pT_header \<Rightarrow> int \<Rightarrow> int \<Rightarrow> pT_component \<Rightarrow> pT_component" where
  "image_size_step h width height c =
     (let h_subsample = c_div (act_pixel h) (pix_line c);
          v_subsample = c_div (act_lines h) (lin_image c)
      in c\<lparr>pix_line := c_div width h_subsample, lin_image := c_div height v_subsample\<rparr>)"

definition p_mod_image_size :: "pT_header \<Rightarrow> int \<Rightarrow> int \<Rightarrow> pT_status \<times> pT_header" where
  "p_mod_image_size h width height =
     (let reset_freq = (if width \<le> act_pixel h \<and> height \<le> act_lines h then 0 else (1::int));
          cs = foldl (\<lambda>cs i. cs[i := image_size_step h width height (cs ! i)]) (comp h)
                 [0 ..< nat (nr_compon h)];
          h1 = h\<lparr>comp := cs, act_pixel := width, act_lines := height\<rparr>;
          h2 = (if reset_freq \<noteq> 0 then h1\<lparr>pix_freq := 0, lin_freq := 0\<rparr> else h1)
      in (P_OK, h2\<lparr>modified := 1\<rparr>))"

definition p_mod_all_freqs :: "pT_header \<Rightarrow> real \<Rightarrow> real \<Rightarrow> real \<Rightarrow> pT_status \<times> pT_header" where
  "p_mod_all_freqs h image_freq line_freq pixel_freq =
     (if image_freq \<ge> 0 \<and> line_freq \<ge> 0 \<and> pixel_freq \<ge> 0 then
        (P_OK, h\<lparr>ima_freq := image_freq, lin_freq := line_freq, pix_freq := pixel_freq,
                 modified := 1\<rparr>)
      else (P_ILLEGAL_ILP_FREQ_MOD, h))"

definition p_mod_file_description :: "pT_header \<Rightarrow> string \<Rightarrow> pT_status \<times> pT_header" where
  "p_mod_file_description h descr =
     (if length descr \<ge> P_SDESCRIPTION then
        (P_EXCEEDING_DESCRIPTION_SIZE, h\<lparr>modified := 1\<rparr>)
      else
        (P_OK, h\<lparr>description := strcpy_at (replicate P_SDESCRIPTION (CHR 0x00)) 0 descr,
                 modified := 1\<rparr>))"

definition p_mod_rm_comp :: "pT_header \<Rightarrow> int \<Rightarrow> pT_status \<times> pT_header" where
  "p_mod_rm_comp h cmp =
     (if cmp \<noteq> - 1 then
        (if cmp < 0 \<or> cmp \<ge> nr_compon h then (P_INVALID_COMPONENT, h\<lparr>modified := 1\<rparr>)
         else
           (P_OK, h\<lparr>comp := foldl (\<lambda>cs i. cs[i := cs ! Suc i]) (comp h)
                               [nat cmp ..< nat (nr_compon h - 1)],
                    nr_compon := sub32 (nr_compon h) 1, modified := 1\<rparr>))
      else (P_OK, h))"

definition p_mod_rm_extra_comps :: "pT_header \<Rightarrow> pT_status \<times> pT_header" where
  "p_mod_rm_extra_comps h =
     (let (status, color_format) = p_check_color_format h;
          h1 = (if status = P_OK \<and> color_format \<noteq> P_UNKNOWN_COLOR
                then h\<lparr>nr_compon := int (color_nr_compon color_format)\<rparr> else h)
      in (status, h1\<lparr>modified := 1\<rparr>))"

section \<open>Auxiliary-header catalogue (cpfspd\_aux.c)\<close>

definition P_SAUX_HDRLEN :: nat where
  "P_SAUX_HDRLEN = 8"

definition P_SMAX_LEN :: nat where
  "P_SMAX_LEN = 8"

definition P_SRESERVED :: nat where
  "P_SRESERVED = 16"

definition P_SMIN_VALID :: nat where
  "P_SMIN_VALID = 48"

definition uint32 :: "int \<Rightarrow> int" where
  "uint32 x = x mod 4294967296"

definition isdigit :: "char \<Rightarrow> bool" where
  "isdigit ch = (48 \<le> (of_char ch :: nat) \<and> (of_char ch :: nat) \<le> 57)"

definition digit_val :: "char \<Rightarrow> nat" where
  "digit_val ch = of_char ch - 48"

text \<open>
  \<^verbatim>\<open>atoi\<close> on a string of spaces and digits: leading spaces are skipped and the digits up to
  the next space are read.
\<close>

definition atoi :: "string \<Rightarrow> nat" where
  "atoi s =
     foldl (\<lambda>v ch. 10 * v + digit_val ch) 0
       (takeWhile isdigit (dropWhile (\<lambda>ch. ch = CHR '' '') s))"

text \<open>
  \<^verbatim>\<open>p_aux_parse_int (&aux_hdrs[off], 8)\<close>: 0 when a byte of the field is neither a space nor
  a digit.  All calls in the library pass the length 8.  A field that would extend beyond the
  array is read as 0 in the model; the C code would read outside the header there.
\<close>

definition p_aux_parse_int :: "char list \<Rightarrow> nat \<Rightarrow> nat" where
  "p_aux_parse_int aux off =
     (if off + 8 \<le> length aux then
        (let field = take 8 (drop off aux) in
         if list_all (\<lambda>ch. ch = CHR '' '' \<or> isdigit ch) field then atoi field else 0)
      else 0)"

text \<open>
  The chain of valid records from offset \<open>off\<close> on, each with its offset and declared length.
  Every \<^verbatim>\<open>do ... while (len >= P_SMIN_VALID)\<close> loop of the file walks this chain: it reads
  the length at the current offset, stops when it is below \<open>P_SMIN_VALID\<close>, and advances by
  it otherwise.
\<close>

function aux_records :: "char list \<Rightarrow> nat \<Rightarrow> (nat \<times> nat) list" where
  "aux_records aux off =
     (let len = p_aux_parse_int aux off in
      if len \<ge> P_SMIN_VALID then (off, len) # aux_records aux (off + len) else [])"
  by pat_completeness auto
termination
proof (relation "measure (\<lambda>(aux, off). length aux - off)")
  show "wf (measure (\<lambda>(aux, off). length aux - off))" by simp
next
  fix aux :: "char list" and off len :: nat
  assume l: "len = p_aux_parse_int aux off" and v: "P_SMIN_VALID \<le> len"
  have "off + 8 \<le> length aux"
    using l v by (auto simp: p_aux_parse_int_def P_SMIN_VALID_def split: if_splits)
  then show "((aux, off + len), (aux, off)) \<in> measure (\<lambda>(aux, off). length aux - off)"
    using v by (simp add: P_SMIN_VALID_def)
qed

text \<open>The offset at which a chain that starts at \<open>off\<close> ends, where the sentinel
  stands.\<close>

definition records_end :: "(nat \<times> nat) list \<Rightarrow> nat \<Rightarrow> nat" where
  "records_end rs off = (case rs of [] \<Rightarrow> off | _ \<Rightarrow> fst (last rs) + snd (last rs))"

definition aux_end :: "char list \<Rightarrow> nat" where
  "aux_end aux = (case aux_records aux 0 of [] \<Rightarrow> 0 | rs \<Rightarrow> fst (last rs) + snd (last rs))"

definition aux_max_len :: "char list \<Rightarrow> nat \<Rightarrow> nat" where
  "aux_max_len aux off = p_aux_parse_int aux (off + P_SAUX_HDRLEN + P_SAUX_NAME)"

definition p_aux_get_total :: "char list \<Rightarrow> int" where
  "p_aux_get_total aux =
     uint32 (foldl (\<lambda>total (off, len).
                let maxlen = int (aux_max_len aux off)
                in if maxlen > 0 then add32 total (add32 maxlen (int P_SMAX_LEN)) else total)
              0 (aux_records aux 0))"

text \<open>
  \<^verbatim>\<open>(p_aux_get_total (aux_hdrs) + bytes_rec - 1) / bytes_rec\<close>, computed in
  \<^verbatim>\<open>unsigned int\<close> and stored in an \<^verbatim>\<open>int\<close>.
\<close>

definition aux_data_recs :: "char list \<Rightarrow> int \<Rightarrow> int" where
  "aux_data_recs aux brec =
     int32 (uint32 (p_aux_get_total aux + brec - 1) div uint32 brec)"

definition p_get_num_aux :: "pT_header \<Rightarrow> int" where
  "p_get_num_aux h = int (length (aux_records (aux_hdrs h) 0))"

definition aux_name_at :: "char list \<Rightarrow> nat \<Rightarrow> char list" where
  "aux_name_at aux off = take P_SAUX_NAME (drop (off + P_SAUX_HDRLEN) aux)"

text \<open>The index of the first record of the chain whose name field equals the name padded
  with spaces to 16 characters, or \<open>-1\<close>.\<close>

fun first_index :: "('a \<Rightarrow> bool) \<Rightarrow> 'a list \<Rightarrow> int \<Rightarrow> int" where
  "first_index P [] i = - 1"
| "first_index P (x # xs) i = (if P x then i else first_index P xs (i + 1))"

definition p_get_aux_by_name :: "pT_header \<Rightarrow> string \<Rightarrow> int" where
  "p_get_aux_by_name h nm =
     first_index (\<lambda>(off, len). aux_name_at (aux_hdrs h) off = take P_SAUX_NAME (pad_right P_SAUX_NAME nm))
       (aux_records (aux_hdrs h) 0) 0"

text \<open>Decimal output of \<^verbatim>\<open>sprintf ("%*d", width, n)\<close>: right-justified, padded with spaces
  to at least \<open>width\<close>.\<close>

fun digits :: "nat \<Rightarrow> string" where
  "digits n =
     (if n < 10 then [char_of (48 + n)]
      else digits (n div 10) @ [char_of (48 + n mod 10)])"

definition show_int :: "int \<Rightarrow> string" where
  "show_int n = (if n < 0 then CHR ''-'' # digits (nat (- n)) else digits (nat n))"

definition pad_left :: "nat \<Rightarrow> string \<Rightarrow> string" where
  "pad_left width s = replicate (width - length s) CHR '' '' @ s"

text \<open>The for loop ``\<^verbatim>\<open>len = p_aux_parse_int (...); offset += len\<close>'' run \<open>n\<close> times.\<close>

primrec skip_records :: "char list \<Rightarrow> nat \<Rightarrow> nat \<Rightarrow> nat" where
  "skip_records aux 0 off = off"
| "skip_records aux (Suc n) off = skip_records aux n (off + p_aux_parse_int aux off)"

definition p_mod_add_aux ::
  "pT_header \<Rightarrow> int \<Rightarrow> string \<Rightarrow> int \<Rightarrow> char list \<Rightarrow> int \<times> pT_header" where
  "p_mod_add_aux h max_size nm descr_len descr =
     (if p_get_aux_by_name h nm \<ge> 0 then (- 1, h)
      else
        (let aux = aux_hdrs h;
             offset = aux_end aux;
             aux_id = int (length (aux_records aux 0))
         in if add32 (add32 (add32 (add32 (int offset) (int P_SMIN_VALID)) descr_len)
                     (int P_SAUX_HDRLEN)) 1 > int P_SAUX_HDR
            then (- 1, h)
            else
              (let rec = pad_left P_SAUX_HDRLEN (show_int (add32 (int P_SMIN_VALID) descr_len))
                         @ pad_right P_SAUX_NAME nm
                         @ pad_left P_SMAX_LEN (show_int max_size)
                         @ pad_right P_SRESERVED '' '';
                   aux = strcpy_at aux offset rec;
                   offset = offset + P_SMIN_VALID;
                   (aux, offset) =
                     (if descr_len > 0
                      then (write_bytes aux offset (take (nat descr_len) descr),
                            offset + nat descr_len)
                      else (aux, offset));
                   aux = strcpy_at aux offset P_AUX_LAST
               in (aux_id,
                   h\<lparr>aux_hdrs := aux,
                     nr_aux_data_recs := aux_data_recs aux (bytes_rec h),
                     modified := 1\<rparr>))))"

definition p_mod_rm_aux :: "pT_header \<Rightarrow> int \<Rightarrow> pT_status \<times> pT_header" where
  "p_mod_rm_aux h aux_id =
     (if aux_id < 0 \<or> aux_id \<ge> p_get_num_aux h then (P_INVALID_AUXILIARY, h\<lparr>modified := 1\<rparr>)
      else
        (let aux = aux_hdrs h;
             offset = skip_records aux (nat aux_id) 0;
             len = p_aux_parse_int aux offset;
             aux = write_bytes aux offset (take (P_SAUX_HDR - offset - len) (drop (offset + len) aux));
             aux = write_bytes aux (P_SAUX_HDR - len) (replicate len (CHR 0x00))
         in (P_OK,
             h\<lparr>aux_hdrs := aux,
               nr_aux_data_recs := aux_data_recs aux (bytes_rec h),
               modified := 1\<rparr>)))"

text \<open>\<^verbatim>\<open>p_get_aux\<close> with only the \<^verbatim>\<open>max_size\<close> output requested, as \<^verbatim>\<open>p_rewrite_header\<close>
  calls it; \<open>None\<close> when the output is not written.\<close>

definition p_get_aux :: "pT_header \<Rightarrow> int \<Rightarrow> pT_status \<times> int option" where
  "p_get_aux h aux_id =
     (if aux_id < 0 \<or> aux_id \<ge> p_get_num_aux h then (P_INVALID_AUXILIARY, None)
      else
        (let offset = skip_records (aux_hdrs h) (nat aux_id) 0
         in (P_OK, Some (int (aux_max_len (aux_hdrs h) offset)))))"

section \<open>Reading, writing and rewriting the header (cpfspd\_hdr.c)\<close>

text \<open>
  The low-level routines \<^verbatim>\<open>p_read_hdr\<close> and \<^verbatim>\<open>p_write_hdr\<close> of cpfspd\_low.c move the
  header between memory and the byte stream.  The functions of this section do not depend on
  how they do it: they are parameters here, acting on a state \<open>'fs\<close> of the file system.
  \<^verbatim>\<open>p_read_hdr\<close> receives the header structure it is to fill and returns it;
  \<^verbatim>\<open>p_write_hdr\<close> receives the \<^verbatim>\<open>rewrite\<close> flag and returns the header, in which it
  updates the file position and the endian mode.  A \<^verbatim>\<open>NULL\<close> file name is \<open>None\<close>.
\<close>

type_synonym 'fs read_hdr = "'fs \<Rightarrow> string \<Rightarrow> pT_header \<Rightarrow> pT_status \<times> pT_header \<times> 'fs"

type_synonym 'fs write_hdr = "'fs \<Rightarrow> string \<Rightarrow> pT_header \<Rightarrow> int \<Rightarrow> pT_status \<times> pT_header \<times> 'fs"

definition p_read_header ::
  "'fs read_hdr \<Rightarrow> 'fs \<Rightarrow> string option \<Rightarrow> pT_header \<Rightarrow> pT_status \<times> pT_header \<times> 'fs" where
  "p_read_header p_read_hdr fs filename h =
     (let (status, h, fs) =
            (case filename of
               None \<Rightarrow> (P_FILE_OPEN_FAILED, h, fs)
             | Some f \<Rightarrow> p_read_hdr fs f h);
          status = (if status = P_OK then p_check_header h else status)
      in (status, h\<lparr>modified := 0\<rparr>, fs))"

definition p_write_header ::
  "'fs write_hdr \<Rightarrow> 'fs \<Rightarrow> string option \<Rightarrow> pT_header \<Rightarrow> pT_status \<times> pT_header \<times> 'fs" where
  "p_write_header p_write_hdr fs filename h =
     (let status = (if filename = None then P_FILE_CREATE_FAILED else P_OK);
          status = (if status = P_OK then p_check_header h else status);
          (status, h, fs) =
            (if status = P_OK then
               (let h = (if disable_hdr_checks h = 0 then
                           (let min_aux_recs = c_div (int P_SAUX_HDR) (bytes_rec h);
                                min_fd_recs = c_div (int P_SDESCRIPTION) (bytes_rec h);
                                aux_recs = max (nr_aux_hdr_recs h) min_aux_recs
                            in h\<lparr>nr_aux_hdr_recs := aux_recs,
                                 nr_fd_recs := max (nr_fd_recs h) (add32 aux_recs min_fd_recs)\<rparr>)
                         else h)
                in p_write_hdr fs (the filename) h 0)
             else (status, h, fs))
      in (status, h\<lparr>modified := 0\<rparr>, fs))"

text \<open>
  The \<^verbatim>\<open>do ... while\<close> loop of \<^verbatim>\<open>p_rewrite_header\<close> that advances \<open>aux_id\<close> to the next
  auxiliary header with data: the state is \<open>(aux_id, max_size)\<close>, and \<open>max_size\<close> keeps its
  value when \<^verbatim>\<open>p_get_aux\<close> fails.
\<close>

function next_data_aux :: "pT_header \<Rightarrow> int \<Rightarrow> int \<Rightarrow> int \<times> int" where
  "next_data_aux h aux_id max_size =
     (case p_get_aux h (aux_id + 1) of
        (status, Some m) \<Rightarrow> (if m = 0 then next_data_aux h (aux_id + 1) m else (aux_id + 1, m))
      | (status, None) \<Rightarrow> (- 1, max_size))"
  by pat_completeness auto
termination
  apply (relation "measure (\<lambda>(h, aux_id, m). nat (p_get_num_aux h - aux_id))")
   apply simp
  apply (auto simp: p_get_aux_def Let_def split: if_splits)
  done

declare next_data_aux.simps [simp del]

lemma p_get_aux_Some:
  "p_get_aux h i = (st, Some m) \<Longrightarrow> 0 \<le> i \<and> i < p_get_num_aux h"
  by (auto simp: p_get_aux_def Let_def split: if_splits)

lemma next_data_aux_range:
  "next_data_aux h aux_id max_size = (i, m) \<Longrightarrow>
     i = - 1 \<or> (aux_id < i \<and> i < p_get_num_aux h \<and> 0 \<le> i)"
proof (induction h aux_id max_size rule: next_data_aux.induct)
  case (1 h aux_id max_size)
  obtain status y where g: "p_get_aux h (aux_id + 1) = (status, y)"
    by (cases "p_get_aux h (aux_id + 1)")
  show ?case
  proof (cases y)
    case None
    then have "next_data_aux h aux_id max_size = (- 1, max_size)"
      using g by (simp add: next_data_aux.simps [of h aux_id max_size])
    then show ?thesis using "1.prems" by simp
  next
    case (Some m')
    have r: "0 \<le> aux_id + 1 \<and> aux_id + 1 < p_get_num_aux h"
      using g Some p_get_aux_Some by blast
    show ?thesis
    proof (cases "m' = 0")
      case True
      then have "next_data_aux h aux_id max_size = next_data_aux h (aux_id + 1) m'"
        using g Some by (simp add: next_data_aux.simps [of h aux_id max_size])
      then have "next_data_aux h (aux_id + 1) m' = (i, m)" using "1.prems" by simp
      from "1.IH" [OF g [symmetric] Some True this] show ?thesis by auto
    next
      case False
      then have "next_data_aux h aux_id max_size = (aux_id + 1, m')"
        using g Some by (simp add: next_data_aux.simps [of h aux_id max_size])
      then show ?thesis using "1.prems" r by auto
    qed
  qed
qed

text \<open>
  The \<^verbatim>\<open>while\<close> loop that checks all old auxiliary headers with data; the state is
  \<open>(status, old_aux_id, old_max_size, aux_id, max_size)\<close>.
\<close>

function aux_compare_loop ::
  "pT_header \<Rightarrow> pT_header \<Rightarrow> pT_status \<times> int \<times> int \<times> int \<times> int
     \<Rightarrow> pT_status \<times> int \<times> int \<times> int \<times> int" where
  "aux_compare_loop old_header h (status, old_aux_id, old_max_size, aux_id, max_size) =
     (if status = P_OK \<and> old_aux_id \<noteq> - 1 then
        (let (aux_id1, max_size1) = next_data_aux h aux_id max_size;
             status1 = (if aux_id1 = - 1 \<or> old_max_size \<noteq> max_size1
                        then P_REWRITE_MODIFIED_HEADER else status);
             (old_aux_id1, old_max_size1) = next_data_aux old_header old_aux_id old_max_size
         in aux_compare_loop old_header h
              (status1, old_aux_id1, old_max_size1, aux_id1, max_size1))
      else (status, old_aux_id, old_max_size, aux_id, max_size))"
  by pat_completeness auto
termination
proof (relation "measure (\<lambda>(old_header, h, status, old_aux_id, r).
         if old_aux_id = - 1 then 0 else nat (p_get_num_aux old_header - old_aux_id) + 1)",
       goal_cases)
  case 1
  show ?case by simp
next
  case (2 old_header h status old_aux_id old_max_size aux_id max_size x aux_id1 max_size1
          status1 y old_aux_id1 old_max_size1)
  then have "next_data_aux old_header old_aux_id old_max_size = (old_aux_id1, old_max_size1)"
    by simp
  from next_data_aux_range [OF this]
  have "old_aux_id1 = - 1 \<or> (old_aux_id < old_aux_id1 \<and> old_aux_id1 < p_get_num_aux old_header)"
    by auto
  then show ?case using 2(1) by auto
qed

declare aux_compare_loop.simps [simp del]

text \<open>The test of the main header fields and the loop over the components.\<close>

definition main_fields_differ :: "pT_header \<Rightarrow> pT_header \<Rightarrow> bool" where
  "main_fields_differ old_header h =
     (let old_size = mul32 (act_lines old_header) (act_pixel old_header);
          new_size = mul32 (act_lines h) (act_pixel h)
      in nr_images old_header \<noteq> nr_images h \<or>
         nr_compon old_header \<noteq> nr_compon h \<or>
         nr_fd_recs old_header \<noteq> nr_fd_recs h \<or>
         nr_aux_data_recs old_header \<noteq> nr_aux_data_recs h \<or>
         bytes_rec old_header \<noteq> bytes_rec h \<or>
         little_endian old_header \<noteq> little_endian h \<or>
         nr_aux_hdr_recs old_header \<noteq> nr_aux_hdr_recs h \<or>
         interlace old_header \<noteq> interlace h \<or>
         old_size \<noteq> new_size)"

definition comp_differs :: "pT_header \<Rightarrow> pT_header \<Rightarrow> nat \<Rightarrow> bool" where
  "comp_differs old_header h i =
     (let old_size = mul32 (lin_image (comp old_header ! i)) (pix_line (comp old_header ! i));
          new_size = mul32 (lin_image (comp h ! i)) (pix_line (comp h ! i))
      in old_size \<noteq> new_size \<or> data_fmt (comp old_header ! i) \<noteq> data_fmt (comp h ! i))"

definition p_rewrite_header ::
  "'fs read_hdr \<Rightarrow> 'fs write_hdr \<Rightarrow> 'fs \<Rightarrow> string option \<Rightarrow> pT_header \<Rightarrow> pT_header
     \<Rightarrow> pT_status \<times> pT_header \<times> 'fs" where
  "p_rewrite_header p_read_hdr p_write_hdr fs filename h old0 =
     (let status = (if filename = None then P_FILE_MODIFY_FAILED else P_OK);
          status = (if status = P_OK then p_check_header h else status);
          (status, h, fs) =
            (if status = P_OK then
               (let (status, old_header, fs) = p_read_hdr fs (the filename) old0;
                    status = (if status = P_OK \<and> main_fields_differ old_header h
                              then P_REWRITE_MODIFIED_HEADER else status);
                    status = (if status = P_OK then
                                foldl (\<lambda>status i. if comp_differs old_header h i
                                         then P_REWRITE_MODIFIED_HEADER else status)
                                  status [0 ..< nat (nr_compon h)]
                              else status);
                    status = (if status = P_OK \<and> nr_fd_recs h = 0 \<and>
                                 \<not> list_all (\<lambda>ch. ch = CHR 0x00) (take P_SDESCRIPTION (description h))
                              then P_EXCEEDING_DESCRIPTION_SIZE else status);
                    status = (if status = P_OK then
                                (let (old_aux_id, old_max_size) = next_data_aux old_header (- 1) 0;
                                     (status, old_aux_id, old_max_size, aux_id, max_size) =
                                        aux_compare_loop old_header h
                                          (status, old_aux_id, old_max_size, - 1, 0);
                                     (aux_id, max_size) = next_data_aux h aux_id max_size
                                 in if aux_id \<ge> 0 then P_REWRITE_MODIFIED_HEADER else status)
                              else status)
                in if status = P_OK then p_write_hdr fs (the filename) h 1
                   else (status, h, fs))
             else (status, h, fs))
      in (status, h\<lparr>modified := 0\<rparr>, fs))"

section \<open>Reading and writing images (cpfspd\_rwi.c)\<close>

definition P_READ_Y :: int where
  "P_READ_Y = 0"

definition P_READ_ALL :: int where
  "P_READ_ALL = 1"

definition P_READ_UV :: int where
  "P_READ_UV = 2"

definition P_READ_U :: int where
  "P_READ_U = 3"

definition P_READ_V :: int where
  "P_READ_V = 4"

definition P_READ_R :: int where
  "P_READ_R = 5"

definition P_READ_G :: int where
  "P_READ_G = 6"

definition P_READ_B :: int where
  "P_READ_B = 7"

definition P_8_BIT_MEM :: int where
  "P_8_BIT_MEM = 0"

definition P_UNSIGNED_CHAR :: int where
  "P_UNSIGNED_CHAR = 8"

definition P_UNSIGNED_SHORT :: int where
  "P_UNSIGNED_SHORT = 16"

definition P_COMPONENT_MODE_MASK :: int where
  "P_COMPONENT_MODE_MASK = 7"

definition P_MEM_DATA_FMT_MASK :: int where
  "P_MEM_DATA_FMT_MASK = 112"

definition P_NORMAL_COMP :: int where
  "P_NORMAL_COMP = - 1"

text \<open>
  A buffer pointer is its address in bytes, \<open>NULL\<close> the address 0.  The low-level routines
  \<^verbatim>\<open>p_read_image\<close> and \<^verbatim>\<open>p_write_image\<close> of cpfspd\_low.c are parameters of this section:
  they act on a state \<open>'w\<close> that holds the files and the buffer memory, receive
  \<open>filename, header, nr, comp_nr, mem_buffer, mem_type, mem_data_fmt, width, height, stride\<close>
  and return the status and the new file position \<open>(offset_hi, offset_lo)\<close>, the only part
  of the header they change.
\<close>

definition NULL :: int where
  "NULL = 0"

type_synonym 'w image_io =
  "'w \<Rightarrow> string \<Rightarrow> pT_header \<Rightarrow> int \<Rightarrow> int \<Rightarrow> int \<Rightarrow> int \<Rightarrow> int \<Rightarrow> int \<Rightarrow> int \<Rightarrow> int
     \<Rightarrow> pT_status \<times> (int \<times> int) \<times> 'w"

text \<open>One guarded call ``\<^verbatim>\<open>if ((status == P_OK) && read_i) status = p_read_image (...)\<close>''.\<close>

definition image_call ::
  "'w image_io \<Rightarrow> bool \<Rightarrow> string \<Rightarrow> int \<Rightarrow> int \<Rightarrow> int \<Rightarrow> int \<Rightarrow> int \<Rightarrow> int \<Rightarrow> int \<Rightarrow> int
     \<Rightarrow> pT_status \<times> pT_header \<times> 'w \<Rightarrow> pT_status \<times> pT_header \<times> 'w" where
  "image_call io do_it filename image_number comp_nr buf mem_type mem_data_fmt width height
     stride s =
     (case s of (status, h, w) \<Rightarrow>
        if status = P_OK \<and> do_it then
          (case io w filename h image_number comp_nr buf mem_type mem_data_fmt width height stride
           of (status', (hi, lo), w') \<Rightarrow> (status', h\<lparr>offset_lo := lo, offset_hi := hi\<rparr>, w'))
        else s)"

text \<open>The components selected by the \<^verbatim>\<open>switch\<close> on colour format and component mode of
  \<^verbatim>\<open>p_read_buffers\<close>: \<open>(status, read_0, read_1, read_2)\<close>.\<close>

definition read_components :: "pT_color \<Rightarrow> int \<Rightarrow> pT_status \<times> bool \<times> bool \<times> bool" where
  "read_components color_format component_mode =
     (if color_format = P_NO_COLOR then
        (if component_mode = P_READ_Y then (P_OK, True, False, False)
         else if component_mode \<in> {P_READ_ALL, P_READ_UV, P_READ_U, P_READ_V}
         then (P_READ_CHR_FROM_LUM_ONLY, False, False, False)
         else (P_READ_RGB_FROM_LUM_ONLY, False, False, False))
      else if color_format \<in> {P_COLOR_422, P_COLOR_420} then
        (if component_mode = P_READ_ALL then (P_OK, True, True, False)
         else if component_mode = P_READ_Y then (P_OK, True, False, False)
         else if component_mode = P_READ_UV then (P_OK, False, True, False)
         else if component_mode \<in> {P_READ_U, P_READ_V}
         then (P_READ_PLANAR_CHR_FROM_MULT_CHR, False, False, False)
         else (P_READ_RGB_FROM_YUV, False, False, False))
      else if color_format \<in> {P_COLOR_444_PL, P_COLOR_422_PL, P_COLOR_420_PL} then
        (if component_mode = P_READ_ALL then (P_OK, True, True, True)
         else if component_mode = P_READ_Y then (P_OK, True, False, False)
         else if component_mode = P_READ_UV then (P_OK, False, True, True)
         else if component_mode = P_READ_U then (P_OK, False, True, False)
         else if component_mode = P_READ_V then (P_OK, False, False, True)
         else (P_READ_RGB_FROM_YUV, False, False, False))
      else if color_format \<in> {P_COLOR_RGB, P_COLOR_XYZ} then
        (if component_mode = P_READ_ALL then (P_OK, True, True, True)
         else if component_mode = P_READ_R then (P_OK, True, False, False)
         else if component_mode = P_READ_G then (P_OK, False, True, False)
         else if component_mode = P_READ_B then (P_OK, False, False, True)
         else if component_mode = P_READ_Y then (P_OK, True, True, True)
         else (P_READ_CHR_FROM_RGB, False, False, False))
      else if color_format = P_STREAM then
        (if component_mode = P_READ_ALL then (P_OK, True, False, False)
         else if component_mode = P_READ_Y then (P_OK, True, False, False)
         else if component_mode \<in> {P_READ_UV, P_READ_U, P_READ_V}
         then (P_READ_CHR_FROM_STREAM, False, False, False)
         else (P_READ_RGB_FROM_STREAM, False, False, False))
      else (P_OK, False, False, False))"

definition write_components :: "pT_color \<Rightarrow> bool \<times> bool \<times> bool" where
  "write_components color_format =
     (if color_format \<in> {P_NO_COLOR, P_STREAM} then (True, False, False)
      else if color_format \<in> {P_COLOR_422, P_COLOR_420} then (True, True, False)
      else if color_format \<in> {P_COLOR_444_PL, P_COLOR_422_PL, P_COLOR_420_PL,
                                  P_COLOR_RGB, P_COLOR_XYZ} then (True, True, True)
      else (False, False, False))"

text \<open>``set component width \& height'': the size of buffer \<open>i\<close>, 0 when it is not used.\<close>

definition buffer_size :: "pT_header \<Rightarrow> bool \<Rightarrow> nat \<Rightarrow> int \<Rightarrow> int \<Rightarrow> int \<times> int" where
  "buffer_size h used i width height =
     (if used then (c_div width (pix_sbsmpl (comp h ! i)), c_div height (lin_sbsmpl (comp h ! i)))
      else (0, 0))"

definition image_number_of :: "int \<Rightarrow> int \<Rightarrow> int \<Rightarrow> int" where
  "image_number_of per_field frame field =
     (if per_field \<noteq> 0 then add32 (mul32 2 (sub32 frame 1)) field else frame)"

definition p_read_buffers ::
  "'w image_io \<Rightarrow> 'w \<Rightarrow> string \<Rightarrow> pT_header \<Rightarrow> pT_color \<Rightarrow> int \<Rightarrow> int \<Rightarrow> int \<Rightarrow> int
     \<Rightarrow> int \<Rightarrow> int \<Rightarrow> int \<Rightarrow> int \<Rightarrow> int \<Rightarrow> int \<Rightarrow> int \<Rightarrow> int \<Rightarrow> int \<Rightarrow> int
     \<Rightarrow> pT_status \<times> pT_header \<times> 'w" where
  "p_read_buffers p_read_image w filename h color_format frame field cmp read_field
     buf_0 buf_1 buf_2 mem_type read_mode width height stride_0 stride_1 stride_2 =
     (let component_mode = read_mode AND P_COMPONENT_MODE_MASK;
          mem_data_fmt = read_mode AND P_MEM_DATA_FMT_MASK;
          (status, read_0, read_1, read_2) =
             (if cmp \<noteq> P_NORMAL_COMP then (P_OK, True, False, False)
              else read_components color_format component_mode);
          comp_0 = (if cmp \<noteq> P_NORMAL_COMP then cmp else 0);
          (width_0, height_0) = buffer_size h read_0 0 width height;
          (width_1, height_1) = buffer_size h read_1 1 width height;
          (width_2, height_2) = buffer_size h read_2 2 width height;
          width_1 = (if color_format \<in> {P_COLOR_422, P_COLOR_420} then mul32 width_1 2
                     else width_1);
          image_number = image_number_of read_field frame field;
          s = image_call p_read_image read_0 filename image_number comp_0 buf_0 mem_type
                mem_data_fmt width_0 height_0 stride_0 (status, h, w);
          s = image_call p_read_image read_1 filename image_number 1 buf_1 mem_type
                mem_data_fmt width_1 height_1 stride_1 s;
          s = image_call p_read_image read_2 filename image_number 2 buf_2 mem_type
                mem_data_fmt width_2 height_2 stride_2 s
      in s)"

definition p_write_buffers ::
  "'w image_io \<Rightarrow> 'w \<Rightarrow> string \<Rightarrow> pT_header \<Rightarrow> pT_color \<Rightarrow> int \<Rightarrow> int \<Rightarrow> int \<Rightarrow> int
     \<Rightarrow> int \<Rightarrow> int \<Rightarrow> int \<Rightarrow> int \<Rightarrow> int \<Rightarrow> int \<Rightarrow> int \<Rightarrow> int \<Rightarrow> int \<Rightarrow> int
     \<Rightarrow> pT_status \<times> pT_header \<times> 'w" where
  "p_write_buffers p_write_image w filename h color_format frame field cmp write_field
     buf_0 buf_1 buf_2 mem_type write_mode width height stride_0 stride_1 stride_2 =
     (let mem_data_fmt = write_mode AND P_MEM_DATA_FMT_MASK;
          (write_0, write_1, write_2) =
             (if cmp \<noteq> P_NORMAL_COMP then (True, False, False)
              else write_components color_format);
          comp_0 = (if cmp \<noteq> P_NORMAL_COMP then cmp else 0);
          (width_0, height_0) = buffer_size h write_0 0 width height;
          (width_1, height_1) = buffer_size h write_1 1 width height;
          (width_2, height_2) = buffer_size h write_2 2 width height;
          width_1 = (if color_format \<in> {P_COLOR_422, P_COLOR_420} then mul32 width_1 2
                     else width_1);
          image_number = image_number_of write_field frame field;
          s = image_call p_write_image write_0 filename image_number comp_0 buf_0 mem_type
                mem_data_fmt width_0 height_0 stride_0 (P_OK, h, w);
          s = image_call p_write_image write_1 filename image_number 1 buf_1 mem_type
                mem_data_fmt width_1 height_1 stride_1 s;
          s = image_call p_write_image write_2 filename image_number 2 buf_2 mem_type
                mem_data_fmt width_2 height_2 stride_2 s
      in s)"

definition p_get_strides :: "pT_color \<Rightarrow> int \<Rightarrow> int \<Rightarrow> int \<times> int \<times> int" where
  "p_get_strides color_format stride uv_stride =
     (if color_format \<in> {P_COLOR_422, P_COLOR_420, P_COLOR_444_PL, P_COLOR_422_PL,
                            P_COLOR_420_PL} then
        (if uv_stride \<noteq> 0 then (stride, uv_stride, uv_stride) else (stride, stride, stride))
      else (stride, stride, stride))"

definition p_read_field_all ::
  "'w image_io \<Rightarrow> 'w \<Rightarrow> string \<Rightarrow> pT_header \<Rightarrow> pT_color \<Rightarrow> int \<Rightarrow> int \<Rightarrow> int
     \<Rightarrow> int \<Rightarrow> int \<Rightarrow> int \<Rightarrow> int \<Rightarrow> int \<Rightarrow> int \<Rightarrow> int \<Rightarrow> int \<Rightarrow> int
     \<Rightarrow> pT_status \<times> pT_header \<times> 'w" where
  "p_read_field_all p_read_image w filename h color_format frame field cmp
     buf_0 buf_1 buf_2 mem_type read_mode width fld_height stride uv_stride =
     (let (stride_0, stride_1, stride_2) = p_get_strides color_format stride uv_stride;
          status = (if p_is_progressive h \<noteq> 0 then P_SHOULD_BE_INTERLACED else P_OK)
      in if status = P_OK then
           p_read_buffers p_read_image w filename h color_format frame field cmp 1
             buf_0 buf_1 buf_2 mem_type read_mode width fld_height stride_0 stride_1 stride_2
         else (status, h, w))"

definition p_write_field_all ::
  "'w image_io \<Rightarrow> 'w \<Rightarrow> string \<Rightarrow> pT_header \<Rightarrow> pT_color \<Rightarrow> int \<Rightarrow> int \<Rightarrow> int
     \<Rightarrow> int \<Rightarrow> int \<Rightarrow> int \<Rightarrow> int \<Rightarrow> int \<Rightarrow> int \<Rightarrow> int \<Rightarrow> int \<Rightarrow> int
     \<Rightarrow> pT_status \<times> pT_header \<times> 'w" where
  "p_write_field_all p_write_image w filename h color_format frame field cmp
     buf_0 buf_1 buf_2 mem_type write_mode width fld_height stride uv_stride =
     (let (stride_0, stride_1, stride_2) = p_get_strides color_format stride uv_stride;
          status = (if p_is_progressive h \<noteq> 0 then P_SHOULD_BE_INTERLACED else P_OK)
      in if status = P_OK then
           p_write_buffers p_write_image w filename h color_format frame field cmp 1
             buf_0 buf_1 buf_2 mem_type write_mode width fld_height stride_0 stride_1 stride_2
         else (status, h, w))"

text \<open>
  The element size of a memory type, \<open>None\<close> for the \<^verbatim>\<open>default\<close> branch of the
  \<^verbatim>\<open>switch (mem_type)\<close> in the frame functions, and the pointer \<open>buf + n\<close> for elements of
  size \<open>sz\<close>.
\<close>

definition mem_el_size :: "int \<Rightarrow> int option" where
  "mem_el_size mem_type =
     (if mem_type = P_UNSIGNED_CHAR then Some 1
      else if mem_type = P_UNSIGNED_SHORT then Some 2
      else None)"

definition ptr_add :: "int \<Rightarrow> int \<Rightarrow> int \<Rightarrow> int" where
  "ptr_add buf sz n = buf + sz * n"

definition p_read_frame_all ::
  "'w image_io \<Rightarrow> 'w \<Rightarrow> string \<Rightarrow> pT_header \<Rightarrow> pT_color \<Rightarrow> int \<Rightarrow> int
     \<Rightarrow> int \<Rightarrow> int \<Rightarrow> int \<Rightarrow> int \<Rightarrow> int \<Rightarrow> int \<Rightarrow> int \<Rightarrow> int \<Rightarrow> int
     \<Rightarrow> pT_status \<times> pT_header \<times> 'w" where
  "p_read_frame_all p_read_image w filename h color_format frame cmp
     buf_0 buf_1 buf_2 mem_type read_mode width frm_height stride uv_stride =
     (let (stride_0, stride_1, stride_2) = p_get_strides color_format stride uv_stride in
      if p_is_interlaced h \<noteq> 0 then
        (case p_read_buffers p_read_image w filename h color_format frame 1 cmp 1
                buf_0 buf_1 buf_2 mem_type read_mode width (c_div frm_height 2)
                (mul32 2 stride_0) (mul32 2 stride_1) (mul32 2 stride_2)
         of (status, h1, w1) \<Rightarrow>
           if status = P_OK then
             (case mem_el_size mem_type of
                Some sz \<Rightarrow>
                  p_read_buffers p_read_image w1 filename h1 color_format frame 2 cmp 1
                    (ptr_add buf_0 sz stride_0) (ptr_add buf_1 sz stride_1)
                    (ptr_add buf_2 sz stride_2) mem_type read_mode width (c_div frm_height 2)
                    (mul32 2 stride_0) (mul32 2 stride_1) (mul32 2 stride_2)
              | None \<Rightarrow> (P_UNKNOWN_MEM_TYPE, h1, w1))
           else (status, h1, w1))
      else
        p_read_buffers p_read_image w filename h color_format frame 0 cmp 0
          buf_0 buf_1 buf_2 mem_type read_mode width frm_height stride_0 stride_1 stride_2)"

text \<open>In \<^verbatim>\<open>p_write_frame_all\<close> a \<open>NULL\<close> buffer stays \<open>NULL\<close> for the second field.\<close>

definition ptr_add_nonnull :: "int \<Rightarrow> int \<Rightarrow> int \<Rightarrow> int" where
  "ptr_add_nonnull buf sz n = (if buf \<noteq> NULL then ptr_add buf sz n else NULL)"

definition p_write_frame_all ::
  "'w image_io \<Rightarrow> 'w \<Rightarrow> string \<Rightarrow> pT_header \<Rightarrow> pT_color \<Rightarrow> int \<Rightarrow> int
     \<Rightarrow> int \<Rightarrow> int \<Rightarrow> int \<Rightarrow> int \<Rightarrow> int \<Rightarrow> int \<Rightarrow> int \<Rightarrow> int \<Rightarrow> int
     \<Rightarrow> pT_status \<times> pT_header \<times> 'w" where
  "p_write_frame_all p_write_image w filename h color_format frame cmp
     buf_0 buf_1 buf_2 mem_type write_mode width frm_height stride uv_stride =
     (let (stride_0, stride_1, stride_2) = p_get_strides color_format stride uv_stride in
      if p_is_interlaced h \<noteq> 0 then
        (case p_write_buffers p_write_image w filename h color_format frame 1 cmp 1
                buf_0 buf_1 buf_2 mem_type write_mode width (c_div frm_height 2)
                (mul32 2 stride_0) (mul32 2 stride_1) (mul32 2 stride_2)
         of (status, h1, w1) \<Rightarrow>
           if status = P_OK then
             (case mem_el_size mem_type of
                Some sz \<Rightarrow>
                  p_write_buffers p_write_image w1 filename h1 color_format frame 2 cmp 1
                    (ptr_add_nonnull buf_0 sz stride_0) (ptr_add_nonnull buf_1 sz stride_1)
                    (ptr_add_nonnull buf_2 sz stride_2) mem_type write_mode width
                    (c_div frm_height 2)
                    (mul32 2 stride_0) (mul32 2 stride_1) (mul32 2 stride_2)
              | None \<Rightarrow> (P_UNKNOWN_MEM_TYPE, h1, w1))
           else (status, h1, w1))
      else
        p_write_buffers p_write_image w filename h color_format frame 0 cmp 0
          buf_0 buf_1 buf_2 mem_type write_mode width frm_height stride_0 stride_1 stride_2)"

definition p_check_modified :: "pT_header \<Rightarrow> pT_status" where
  "p_check_modified h = (if modified h = 1 then P_HEADER_IS_MODIFIED else P_OK)"

definition p_check_multiplexed :: "pT_color \<Rightarrow> pT_status" where
  "p_check_multiplexed color_format =
     (if color_format \<noteq> P_NO_COLOR \<and> color_format \<noteq> P_COLOR_422 \<and>
         color_format \<noteq> P_COLOR_420
      then P_INCOMP_MULT_COLOR_FORMAT else P_OK)"

definition p_check_multi_or_stream :: "pT_color \<Rightarrow> pT_status" where
  "p_check_multi_or_stream color_format =
     (if color_format \<noteq> P_NO_COLOR \<and> color_format \<noteq> P_COLOR_422 \<and>
         color_format \<noteq> P_COLOR_420 \<and> color_format \<noteq> P_STREAM
      then P_INCOMP_MULT_COLOR_FORMAT else P_OK)"

definition p_check_planar :: "pT_color \<Rightarrow> pT_status" where
  "p_check_planar color_format =
     (if color_format \<noteq> P_NO_COLOR \<and> color_format \<noteq> P_COLOR_444_PL \<and>
         color_format \<noteq> P_COLOR_422_PL \<and> color_format \<noteq> P_COLOR_420_PL \<and>
         color_format \<noteq> P_COLOR_RGB \<and> color_format \<noteq> P_COLOR_XYZ
      then P_INCOMP_PLANAR_COLOR_FORMAT else P_OK)"

definition p_check_comp :: "pT_header \<Rightarrow> int \<Rightarrow> int \<Rightarrow> pT_status" where
  "p_check_comp h cmp reading =
     (if cmp < 0 \<or> cmp \<ge> nr_compon h then
        (if reading \<noteq> 0 then P_READ_INVALID_COMPONENT else P_WRITE_INVALID_COMPONENT)
      else P_OK)"

text \<open>The external read and write functions.\<close>

definition p_read_field ::
  "'w image_io \<Rightarrow> 'w \<Rightarrow> string \<Rightarrow> pT_header \<Rightarrow> int \<Rightarrow> int \<Rightarrow> int \<Rightarrow> int \<Rightarrow> int \<Rightarrow> int \<Rightarrow> int \<Rightarrow> int
     \<Rightarrow> pT_status \<times> pT_header \<times> 'w" where
  "p_read_field p_read_image w filename h frame field y_fld uv_fld read_mode width fld_height stride =
     (let color_format = p_get_color_format h;
          status = p_check_modified h;
          status = (if status = P_OK then p_check_header h else status);
          status = (if status = P_OK then p_check_multiplexed color_format else status)
      in if status = P_OK then
           p_read_field_all p_read_image w filename h color_format frame field P_NORMAL_COMP y_fld uv_fld NULL P_UNSIGNED_CHAR read_mode width fld_height stride 0
         else (status, h, w))"

definition p_read_frame ::
  "'w image_io \<Rightarrow> 'w \<Rightarrow> string \<Rightarrow> pT_header \<Rightarrow> int \<Rightarrow> int \<Rightarrow> int \<Rightarrow> int \<Rightarrow> int \<Rightarrow> int \<Rightarrow> int
     \<Rightarrow> pT_status \<times> pT_header \<times> 'w" where
  "p_read_frame p_read_image w filename h frame y_or_s_frm uv_frm read_mode width frm_height stride =
     (let color_format = p_get_color_format h;
          status = p_check_modified h;
          status = (if status = P_OK then p_check_header h else status);
          status = (if status = P_OK then p_check_multi_or_stream color_format else status)
      in if status = P_OK then
           p_read_frame_all p_read_image w filename h color_format frame P_NORMAL_COMP y_or_s_frm uv_frm NULL P_UNSIGNED_CHAR read_mode width frm_height stride 0
         else (status, h, w))"

definition p_write_field ::
  "'w image_io \<Rightarrow> 'w \<Rightarrow> string \<Rightarrow> pT_header \<Rightarrow> int \<Rightarrow> int \<Rightarrow> int \<Rightarrow> int \<Rightarrow> int \<Rightarrow> int \<Rightarrow> int
     \<Rightarrow> pT_status \<times> pT_header \<times> 'w" where
  "p_write_field p_write_image w filename h frame field y_fld uv_fld width fld_height stride =
     (let color_format = p_get_color_format h;
          status = p_check_modified h;
          status = (if status = P_OK then p_check_header h else status);
          status = (if status = P_OK then p_check_multiplexed color_format else status)
      in if status = P_OK then
           p_write_field_all p_write_image w filename h color_format frame field P_NORMAL_COMP y_fld uv_fld NULL P_UNSIGNED_CHAR P_8_BIT_MEM width fld_height stride 0
         else (status, h, w))"

definition p_write_frame ::
  "'w image_io \<Rightarrow> 'w \<Rightarrow> string \<Rightarrow> pT_header \<Rightarrow> int \<Rightarrow> int \<Rightarrow> int \<Rightarrow> int \<Rightarrow> int \<Rightarrow> int
     \<Rightarrow> pT_status \<times> pT_header \<times> 'w" where
  "p_write_frame p_write_image w filename h frame y_or_s_frm uv_frm width frm_height stride =
     (let color_format = p_get_color_format h;
          status = p_check_modified h;
          status = (if status = P_OK then p_check_header h else status);
          status = (if status = P_OK then p_check_multi_or_stream color_format else status)
      in if status = P_OK then
           p_write_frame_all p_write_image w filename h color_format frame P_NORMAL_COMP y_or_s_frm uv_frm NULL P_UNSIGNED_CHAR P_8_BIT_MEM width frm_height stride 0
         else (status, h, w))"

definition p_read_field_16 ::
  "'w image_io \<Rightarrow> 'w \<Rightarrow> string \<Rightarrow> pT_header \<Rightarrow> int \<Rightarrow> int \<Rightarrow> int \<Rightarrow> int \<Rightarrow> int \<Rightarrow> int \<Rightarrow> int \<Rightarrow> int
     \<Rightarrow> pT_status \<times> pT_header \<times> 'w" where
  "p_read_field_16 p_read_image w filename h frame field y_fld uv_fld read_mode width fld_height stride =
     (let color_format = p_get_color_format h;
          status = p_check_modified h;
          status = (if status = P_OK then p_check_header h else status);
          status = (if status = P_OK then p_check_multiplexed color_format else status)
      in if status = P_OK then
           p_read_field_all p_read_image w filename h color_format frame field P_NORMAL_COMP y_fld uv_fld NULL P_UNSIGNED_SHORT read_mode width fld_height stride 0
         else (status, h, w))"

definition p_read_frame_16 ::
  "'w image_io \<Rightarrow> 'w \<Rightarrow> string \<Rightarrow> pT_header \<Rightarrow> int \<Rightarrow> int \<Rightarrow> int \<Rightarrow> int \<Rightarrow> int \<Rightarrow> int \<Rightarrow> int
     \<Rightarrow> pT_status \<times> pT_header \<times> 'w" where
  "p_read_frame_16 p_read_image w filename h frame y_or_s_frm uv_frm read_mode width frm_height stride =
     (let color_format = p_get_color_format h;
          status = p_check_modified h;
          status = (if status = P_OK then p_check_header h else status);
          status = (if status = P_OK then p_check_multi_or_stream color_format else status)
      in if status = P_OK then
           p_read_frame_all p_read_image w filename h color_format frame P_NORMAL_COMP y_or_s_frm uv_frm NULL P_UNSIGNED_SHORT read_mode width frm_height stride 0
         else (status, h, w))"

definition p_write_field_16 ::
  "'w image_io \<Rightarrow> 'w \<Rightarrow> string \<Rightarrow> pT_header \<Rightarrow> int \<Rightarrow> int \<Rightarrow> int \<Rightarrow> int \<Rightarrow> int \<Rightarrow> int \<Rightarrow> int \<Rightarrow> int
     \<Rightarrow> pT_status \<times> pT_header \<times> 'w" where
  "p_write_field_16 p_write_image w filename h frame field y_fld uv_fld write_mode width fld_height stride =
     (let color_format = p_get_color_format h;
          status = p_check_modified h;
          status = (if status = P_OK then p_check_header h else status);
          status = (if status = P_OK then p_check_multiplexed color_format else status)
      in if status = P_OK then
           p_write_field_all p_write_image w filename h color_format frame field P_NORMAL_COMP y_fld uv_fld NULL P_UNSIGNED_SHORT write_mode width fld_height stride 0
         else (status, h, w))"

definition p_write_frame_16 ::
  "'w image_io \<Rightarrow> 'w \<Rightarrow> string \<Rightarrow> pT_header \<Rightarrow> int \<Rightarrow> int \<Rightarrow> int \<Rightarrow> int \<Rightarrow> int \<Rightarrow> int \<Rightarrow> int
     \<Rightarrow> pT_status \<times> pT_header \<times> 'w" where
  "p_write_frame_16 p_write_image w filename h frame y_or_s_frm uv_frm write_mode width frm_height stride =
     (let color_format = p_get_color_format h;
          status = p_check_modified h;
          status = (if status = P_OK then p_check_header h else status);
          status = (if status = P_OK then p_check_multi_or_stream color_format else status)
      in if status = P_OK then
           p_write_frame_all p_write_image w filename h color_format frame P_NORMAL_COMP y_or_s_frm uv_frm NULL P_UNSIGNED_SHORT write_mode width frm_height stride 0
         else (status, h, w))"

definition p_read_field_planar ::
  "'w image_io \<Rightarrow> 'w \<Rightarrow> string \<Rightarrow> pT_header \<Rightarrow> int \<Rightarrow> int \<Rightarrow> int \<Rightarrow> int \<Rightarrow> int \<Rightarrow> int \<Rightarrow> int \<Rightarrow> int \<Rightarrow> int \<Rightarrow> int
     \<Rightarrow> pT_status \<times> pT_header \<times> 'w" where
  "p_read_field_planar p_read_image w filename h frame field y_or_r_fld u_or_g_fld v_or_b_fld read_mode width fld_height stride uv_stride =
     (let color_format = p_get_color_format h;
          status = p_check_modified h;
          status = (if status = P_OK then p_check_header h else status);
          status = (if status = P_OK then p_check_planar color_format else status)
      in if status = P_OK then
           p_read_field_all p_read_image w filename h color_format frame field P_NORMAL_COMP y_or_r_fld u_or_g_fld v_or_b_fld P_UNSIGNED_CHAR read_mode width fld_height stride uv_stride
         else (status, h, w))"

definition p_read_frame_planar ::
  "'w image_io \<Rightarrow> 'w \<Rightarrow> string \<Rightarrow> pT_header \<Rightarrow> int \<Rightarrow> int \<Rightarrow> int \<Rightarrow> int \<Rightarrow> int \<Rightarrow> int \<Rightarrow> int \<Rightarrow> int \<Rightarrow> int
     \<Rightarrow> pT_status \<times> pT_header \<times> 'w" where
  "p_read_frame_planar p_read_image w filename h frame y_or_r_frm u_or_g_frm v_or_b_frm read_mode width frm_height stride uv_stride =
     (let color_format = p_get_color_format h;
          status = p_check_modified h;
          status = (if status = P_OK then p_check_header h else status);
          status = (if status = P_OK then p_check_planar color_format else status)
      in if status = P_OK then
           p_read_frame_all p_read_image w filename h color_format frame P_NORMAL_COMP y_or_r_frm u_or_g_frm v_or_b_frm P_UNSIGNED_CHAR read_mode width frm_height stride uv_stride
         else (status, h, w))"

definition p_write_field_planar ::
  "'w image_io \<Rightarrow> 'w \<Rightarrow> string \<Rightarrow> pT_header \<Rightarrow> int \<Rightarrow> int \<Rightarrow> int \<Rightarrow> int \<Rightarrow> int \<Rightarrow> int \<Rightarrow> int \<Rightarrow> int \<Rightarrow> int
     \<Rightarrow> pT_status \<times> pT_header \<times> 'w" where
  "p_write_field_planar p_write_image w filename h frame field y_or_r_fld u_or_g_fld v_or_b_fld width fld_height stride uv_stride =
     (let color_format = p_get_color_format h;
          status = p_check_modified h;
          status = (if status = P_OK then p_check_header h else status);
          status = (if status = P_OK then p_check_planar color_format else status)
      in if status = P_OK then
           p_write_field_all p_write_image w filename h color_format frame field P_NORMAL_COMP y_or_r_fld u_or_g_fld v_or_b_fld P_UNSIGNED_CHAR P_8_BIT_MEM width fld_height stride uv_stride
         else (status, h, w))"

definition p_write_frame_planar ::
  "'w image_io \<Rightarrow> 'w \<Rightarrow> string \<Rightarrow> pT_header \<Rightarrow> int \<Rightarrow> int \<Rightarrow> int \<Rightarrow> int \<Rightarrow> int \<Rightarrow> int \<Rightarrow> int \<Rightarrow> int
     \<Rightarrow> pT_status \<times> pT_header \<times> 'w" where
  "p_write_frame_planar p_write_image w filename h frame y_or_r_frm u_or_g_frm v_or_b_frm width frm_height stride uv_stride =
     (let color_format = p_get_color_format h;
          status = p_check_modified h;
          status = (if status = P_OK then p_check_header h else status);
          status = (if status = P_OK then p_check_planar color_format else status)
      in if status = P_OK then
           p_write_frame_all p_write_image w filename h color_format frame P_NORMAL_COMP y_or_r_frm u_or_g_frm v_or_b_frm P_UNSIGNED_CHAR P_8_BIT_MEM width frm_height stride uv_stride
         else (status, h, w))"

definition p_read_field_planar_16 ::
  "'w image_io \<Rightarrow> 'w \<Rightarrow> string \<Rightarrow> pT_header \<Rightarrow> int \<Rightarrow> int \<Rightarrow> int \<Rightarrow> int \<Rightarrow> int \<Rightarrow> int \<Rightarrow> int \<Rightarrow> int \<Rightarrow> int \<Rightarrow> int
     \<Rightarrow> pT_status \<times> pT_header \<times> 'w" where
  "p_read_field_planar_16 p_read_image w filename h frame field y_or_r_fld u_or_g_fld v_or_b_fld read_mode width fld_height stride uv_stride =
     (let color_format = p_get_color_format h;
          status = p_check_modified h;
          status = (if status = P_OK then p_check_header h else status);
          status = (if status = P_OK then p_check_planar color_format else status)
      in if status = P_OK then
           p_read_field_all p_read_image w filename h color_format frame field P_NORMAL_COMP y_or_r_fld u_or_g_fld v_or_b_fld P_UNSIGNED_SHORT read_mode width fld_height stride uv_stride
         else (status, h, w))"

definition p_read_frame_planar_16 ::
  "'w image_io \<Rightarrow> 'w \<Rightarrow> string \<Rightarrow> pT_header \<Rightarrow> int \<Rightarrow> int \<Rightarrow> int \<Rightarrow> int \<Rightarrow> int \<Rightarrow> int \<Rightarrow> int \<Rightarrow> int \<Rightarrow> int
     \<Rightarrow> pT_status \<times> pT_header \<times> 'w" where
  "p_read_frame_planar_16 p_read_image w filename h frame y_or_r_frm u_or_g_frm v_or_b_frm read_mode width frm_height stride uv_stride =
     (let color_format = p_get_color_format h;
          status = p_check_modified h;
          status = (if status = P_OK then p_check_header h else status);
          status = (if status = P_OK then p_check_planar color_format else status)
      in if status = P_OK then
           p_read_frame_all p_read_image w filename h color_format frame P_NORMAL_COMP y_or_r_frm u_or_g_frm v_or_b_frm P_UNSIGNED_SHORT read_mode width frm_height stride uv_stride
         else (status, h, w))"

definition p_write_field_planar_16 ::
  "'w image_io \<Rightarrow> 'w \<Rightarrow> string \<Rightarrow> pT_header \<Rightarrow> int \<Rightarrow> int \<Rightarrow> int \<Rightarrow> int \<Rightarrow> int \<Rightarrow> int \<Rightarrow> int \<Rightarrow> int \<Rightarrow> int \<Rightarrow> int
     \<Rightarrow> pT_status \<times> pT_header \<times> 'w" where
  "p_write_field_planar_16 p_write_image w filename h frame field y_or_r_fld u_or_g_fld v_or_b_fld write_mode width fld_height stride uv_stride =
     (let color_format = p_get_color_format h;
          status = p_check_modified h;
          status = (if status = P_OK then p_check_header h else status);
          status = (if status = P_OK then p_check_planar color_format else status)
      in if status = P_OK then
           p_write_field_all p_write_image w filename h color_format frame field P_NORMAL_COMP y_or_r_fld u_or_g_fld v_or_b_fld P_UNSIGNED_SHORT write_mode width fld_height stride uv_stride
         else (status, h, w))"

definition p_write_frame_planar_16 ::
  "'w image_io \<Rightarrow> 'w \<Rightarrow> string \<Rightarrow> pT_header \<Rightarrow> int \<Rightarrow> int \<Rightarrow> int \<Rightarrow> int \<Rightarrow> int \<Rightarrow> int \<Rightarrow> int \<Rightarrow> int \<Rightarrow> int
     \<Rightarrow> pT_status \<times> pT_header \<times> 'w" where
  "p_write_frame_planar_16 p_write_image w filename h frame y_or_r_frm u_or_g_frm v_or_b_frm write_mode width frm_height stride uv_stride =
     (let color_format = p_get_color_format h;
          status = p_check_modified h;
          status = (if status = P_OK then p_check_planar color_format else status);
          status = (if status = P_OK then p_check_header h else status)
      in if status = P_OK then
           p_write_frame_all p_write_image w filename h color_format frame P_NORMAL_COMP y_or_r_frm u_or_g_frm v_or_b_frm P_UNSIGNED_SHORT write_mode width frm_height stride uv_stride
         else (status, h, w))"

definition p_read_field_comp ::
  "'w image_io \<Rightarrow> 'w \<Rightarrow> string \<Rightarrow> pT_header \<Rightarrow> int \<Rightarrow> int \<Rightarrow> int \<Rightarrow> int \<Rightarrow> int \<Rightarrow> int \<Rightarrow> int \<Rightarrow> int
     \<Rightarrow> pT_status \<times> pT_header \<times> 'w" where
  "p_read_field_comp p_read_image w filename h frame field cmp c_fld read_mode width fld_height stride =
     (let status = p_check_modified h;
          status = (if status = P_OK then p_check_comp h cmp 1 else status)
      in if status = P_OK then
           p_read_field_all p_read_image w filename h P_UNKNOWN_COLOR frame field cmp c_fld NULL NULL P_UNSIGNED_CHAR read_mode width fld_height stride 0
         else (status, h, w))"

definition p_read_frame_comp ::
  "'w image_io \<Rightarrow> 'w \<Rightarrow> string \<Rightarrow> pT_header \<Rightarrow> int \<Rightarrow> int \<Rightarrow> int \<Rightarrow> int \<Rightarrow> int \<Rightarrow> int \<Rightarrow> int
     \<Rightarrow> pT_status \<times> pT_header \<times> 'w" where
  "p_read_frame_comp p_read_image w filename h frame cmp c_frm read_mode width frm_height stride =
     (let status = p_check_modified h;
          status = (if status = P_OK then p_check_comp h cmp 1 else status)
      in if status = P_OK then
           p_read_frame_all p_read_image w filename h P_UNKNOWN_COLOR frame cmp c_frm NULL NULL P_UNSIGNED_CHAR read_mode width frm_height stride 0
         else (status, h, w))"

definition p_write_field_comp ::
  "'w image_io \<Rightarrow> 'w \<Rightarrow> string \<Rightarrow> pT_header \<Rightarrow> int \<Rightarrow> int \<Rightarrow> int \<Rightarrow> int \<Rightarrow> int \<Rightarrow> int \<Rightarrow> int
     \<Rightarrow> pT_status \<times> pT_header \<times> 'w" where
  "p_write_field_comp p_write_image w filename h frame field cmp c_fld width fld_height stride =
     (let status = p_check_modified h;
          status = (if status = P_OK then p_check_comp h cmp 0 else status)
      in if status = P_OK then
           p_write_field_all p_write_image w filename h P_UNKNOWN_COLOR frame field cmp c_fld NULL NULL P_UNSIGNED_CHAR P_8_BIT_MEM width fld_height stride 0
         else (status, h, w))"

definition p_write_frame_comp ::
  "'w image_io \<Rightarrow> 'w \<Rightarrow> string \<Rightarrow> pT_header \<Rightarrow> int \<Rightarrow> int \<Rightarrow> int \<Rightarrow> int \<Rightarrow> int \<Rightarrow> int
     \<Rightarrow> pT_status \<times> pT_header \<times> 'w" where
  "p_write_frame_comp p_write_image w filename h frame cmp c_frm width frm_height stride =
     (let status = p_check_modified h;
          status = (if status = P_OK then p_check_comp h cmp 0 else status)
      in if status = P_OK then
           p_write_frame_all p_write_image w filename h P_UNKNOWN_COLOR frame cmp c_frm NULL NULL P_UNSIGNED_CHAR P_8_BIT_MEM width frm_height stride 0
         else (status, h, w))"

definition p_read_field_comp_16 ::
  "'w image_io \<Rightarrow> 'w \<Rightarrow> string \<Rightarrow> pT_header \<Rightarrow> int \<Rightarrow> int \<Rightarrow> int \<Rightarrow> int \<Rightarrow> int \<Rightarrow> int \<Rightarrow> int \<Rightarrow> int
     \<Rightarrow> pT_status \<times> pT_header \<times> 'w" where
  "p_read_field_comp_16 p_read_image w filename h frame field cmp c_fld read_mode width fld_height stride =
     (let status = p_check_modified h;
          status = (if status = P_OK then p_check_comp h cmp 1 else status)
      in if status = P_OK then
           p_read_field_all p_read_image w filename h P_UNKNOWN_COLOR frame field cmp c_fld NULL NULL P_UNSIGNED_SHORT read_mode width fld_height stride 0
         else (status, h, w))"

definition p_read_frame_comp_16 ::
  "'w image_io \<Rightarrow> 'w \<Rightarrow> string \<Rightarrow> pT_header \<Rightarrow> int \<Rightarrow> int \<Rightarrow> int \<Rightarrow> int \<Rightarrow> int \<Rightarrow> int \<Rightarrow> int
     \<Rightarrow> pT_status \<times> pT_header \<times> 'w" where
  "p_read_frame_comp_16 p_read_image w filename h frame cmp c_frm read_mode width frm_height stride =
     (let status = p_check_modified h;
          status = (if status = P_OK then p_check_comp h cmp 1 else status)
      in if status = P_OK then
           p_read_frame_all p_read_image w filename h P_UNKNOWN_COLOR frame cmp c_frm NULL NULL P_UNSIGNED_SHORT read_mode width frm_height stride 0
         else (status, h, w))"

definition p_write_field_comp_16 ::
  "'w image_io \<Rightarrow> 'w \<Rightarrow> string \<Rightarrow> pT_header \<Rightarrow> int \<Rightarrow> int \<Rightarrow> int \<Rightarrow> int \<Rightarrow> int \<Rightarrow> int \<Rightarrow> int \<Rightarrow> int
     \<Rightarrow> pT_status \<times> pT_header \<times> 'w" where
  "p_write_field_comp_16 p_write_image w filename h frame field cmp c_fld write_mode width fld_height stride =
     (let status = p_check_modified h;
          status = (if status = P_OK then p_check_comp h cmp 0 else status)
      in if status = P_OK then
           p_write_field_all p_write_image w filename h P_UNKNOWN_COLOR frame field cmp c_fld NULL NULL P_UNSIGNED_SHORT write_mode width fld_height stride 0
         else (status, h, w))"

definition p_write_frame_comp_16 ::
  "'w image_io \<Rightarrow> 'w \<Rightarrow> string \<Rightarrow> pT_header \<Rightarrow> int \<Rightarrow> int \<Rightarrow> int \<Rightarrow> int \<Rightarrow> int \<Rightarrow> int \<Rightarrow> int
     \<Rightarrow> pT_status \<times> pT_header \<times> 'w" where
  "p_write_frame_comp_16 p_write_image w filename h frame cmp c_frm write_mode width frm_height stride =
     (let status = p_check_modified h;
          status = (if status = P_OK then p_check_comp h cmp 0 else status)
      in if status = P_OK then
           p_write_frame_all p_write_image w filename h P_UNKNOWN_COLOR frame cmp c_frm NULL NULL P_UNSIGNED_SHORT write_mode width frm_height stride 0
         else (status, h, w))"

section \<open>The 16-bit float codec (cpfspd\_aux.c)\<close>

text \<open>
  An \<^verbatim>\<open>unsigned short\<close> is an integer in \<open>0 ..< 65536\<close>, a \<^verbatim>\<open>p_uint32\<close> one in
  \<open>0 ..< 4294967296\<close>, a \<^verbatim>\<open>float\<close> its IEEE 754 bit pattern, the \<^verbatim>\<open>u32\<close> member of the union
  \<^verbatim>\<open>float_u32\<close> through which both functions access it.  The normalisation loop
  ``\<^verbatim>\<open>while ((mantissa & (1 << 10)) == 0) { exponent--; mantissa <<= 1; }\<close>'' does not end
  for the mantissa 0, so it is a partial function.
\<close>

definition uint16 :: "int \<Rightarrow> int" where
  "uint16 x = x mod 65536"

partial_function (option) f16_normalize :: "int \<Rightarrow> int \<Rightarrow> (int \<times> int) option" where
  "f16_normalize exponent mantissa =
     (if mantissa AND push_bit 10 1 = 0
      then f16_normalize (sub32 exponent 1) (uint32 (push_bit 1 mantissa))
      else Some (exponent, mantissa))"

declare f16_normalize.simps [code]

definition p_cce_f16_to_float :: "int \<Rightarrow> int option" where
  "p_cce_f16_to_float f16 =
     (let sign = uint32 (push_bit 16 (f16 AND 0x8000));
          exponent = drop_bit 10 f16 AND 0x001F;
          mantissa = f16 AND 0x03FF;
          r = (if exponent = 0x1F then Some (0xFF, mantissa)
               else if exponent = 0 then
                 (if mantissa = 0 then Some (exponent, mantissa)
                  else
                    (case f16_normalize (127 - 15) mantissa of
                       None \<Rightarrow> None
                     | Some (exponent, mantissa) \<Rightarrow>
                         Some (add32 exponent 1, mantissa AND uint32 (NOT (push_bit 10 1)))))
               else Some (add32 exponent (127 - 15), mantissa))
      in case r of
           None \<Rightarrow> None
         | Some (exponent, mantissa) \<Rightarrow>
             Some (sign OR uint32 (push_bit 23 (uint32 exponent))
                        OR uint32 (push_bit 13 mantissa)))"

definition p_cce_float_to_f16 :: "int \<Rightarrow> int" where
  "p_cce_float_to_f16 f32 =
     (let sign = uint16 (drop_bit 16 f32 AND 0x00008000);
          exponent = drop_bit 23 f32 AND 0x000000FF;
          mantissa = f32 AND 0x007FFFFF
      in if exponent = 0 \<and> mantissa = 0 then uint16 (sign OR 0 OR 0)
         else if exponent = 0xFF then
           (if mantissa = 0 then uint16 (sign OR push_bit 10 0x1F OR 0)
            else if drop_bit 13 mantissa = 0 then uint16 (sign OR push_bit 10 0x1F OR 1)
            else uint16 (sign OR push_bit 10 0x1F OR drop_bit 13 mantissa))
         else
           (let exponent = sub32 exponent (127 - 15) in
            if exponent < - 9 then uint16 (sign OR 0 OR 0)
            else if exponent \<le> 0 then
              (let mantissa = drop_bit (nat (1 - exponent)) (mantissa OR 0x800000);
                   mantissa = uint32 (mantissa + 0x1000)
               in uint16 (sign OR 0 OR drop_bit 13 mantissa))
            else
              (let mantissa = uint32 (mantissa + 0x1000);
                   (mantissa, exponent) =
                      (if mantissa AND 0x800000 = 0 then (mantissa, exponent)
                       else (0, add32 exponent 1))
               in if exponent > 30 then uint16 (sign OR push_bit 10 0x1F OR 0)
                  else uint16 (sign OR push_bit 10 exponent OR drop_bit 13 mantissa))))"

section \<open>Colour-format detection returns the last matching catalogue entry\<close>

lemma foldl_match_step:
  "foldl (match_step h e) m xs = m + int (length (filter (comp_agrees h e) xs))"
proof (induction xs arbitrary: m)
  case Nil
  then show ?case by simp
next
  case (Cons i xs)
  have "match_step h e m i = (if comp_agrees h e i then m + 1 else m)"
    by (auto simp: match_step_def comp_agrees_def strncmp_eq_def Let_def split: option.split)
  then show ?case using Cons by simp
qed

lemma filter_length_eq_iff:
  "length (filter P xs) = length xs \<longleftrightarrow> list_all P xs"
proof (induction xs)
  case Nil
  then show ?case by simp
next
  case (Cons a xs)
  have le: "length (filter P xs) \<le> length xs" by (rule length_filter_le)
  show ?case
  proof (cases "P a")
    case True
    then show ?thesis using Cons by simp
  next
    case False
    have "length (filter P xs) \<noteq> Suc (length xs)" using le by linarith
    then show ?thesis using False by simp
  qed
qed

lemma format_step_eq:
  assumes "0 \<le> nr_comp e"
  shows "format_step h cf e = (if entry_matches h e then format e else cf)"
proof -
  let ?n = "nat (nr_comp e)"
  have "int (length (filter (comp_agrees h e) [0 ..< ?n])) = nr_comp e
        \<longleftrightarrow> list_all (comp_agrees h e) [0 ..< ?n]"
    using assms filter_length_eq_iff [of "comp_agrees h e" "[0 ..< ?n]"] by auto
  then show ?thesis
    by (simp add: format_step_def entry_matches_def foldl_match_step Let_def)
qed

lemma foldl_last_match_if:
  "foldl (\<lambda>cf e. if P e then f e else cf) init xs =
     (if filter P xs = [] then init else f (last (filter P xs)))"
  by (induction xs rule: rev_induct) simp_all

lemma foldl_last_match:
  "foldl (\<lambda>cf e. if P e then f e else cf) init xs =
     (case filter P xs of [] \<Rightarrow> init | y # ys \<Rightarrow> f (last (y # ys)))"
  by (simp add: foldl_last_match_if split: list.split)

lemma catalog_eq: "takeWhile (\<lambda>e. format e \<noteq> P_UNKNOWN_COLOR) p_default_formats = catalog"
  by (simp add: p_default_formats_def catalog_def)

lemma catalog_props: "e \<in> set catalog \<Longrightarrow> 0 \<le> nr_comp e \<and> format e \<noteq> P_UNKNOWN_COLOR"
  by (auto simp: p_default_formats_def catalog_def)

lemma foldl_format_step:
  "(\<And>e. e \<in> set xs \<Longrightarrow> 0 \<le> nr_comp e) \<Longrightarrow>
   foldl (format_step h) cf xs = foldl (\<lambda>cf e. if entry_matches h e then format e else cf) cf xs"
  by (induction xs arbitrary: cf) (simp_all add: format_step_eq)

text \<open>
  Claim C3.  \<^verbatim>\<open>p_check_color_format\<close> scans the whole catalogue in order and returns the
  format of the last entry that matches the header: the header has at least the entry's number
  of components and each required component agrees in component-code name, pixel and line
  subsample factor and satisfies \<^verbatim>\<open>pix_line * pix_sbsmpl == act_pixel * mplex\<close>.  When no
  entry matches the result is \<open>P_ILLEGAL_COLOR_FORMAT\<close> with colour \<open>P_UNKNOWN_COLOR\<close>.
\<close>

theorem p_check_color_format_last_match:
  "p_check_color_format h = last_matching_format h"
proof -
  have fold: "foldl (format_step h) P_UNKNOWN_COLOR catalog =
      (case filter (entry_matches h) catalog of [] \<Rightarrow> P_UNKNOWN_COLOR
       | y # ys \<Rightarrow> format (last (y # ys)))"
    using foldl_format_step [of catalog h P_UNKNOWN_COLOR] catalog_props
    by (simp add: foldl_last_match)
  show ?thesis
  proof (cases "filter (entry_matches h) catalog")
    case Nil
    then show ?thesis
      by (simp add: p_check_color_format_def last_matching_format_def catalog_eq fold)
  next
    case (Cons y ys)
    have "last (y # ys) \<in> set (filter (entry_matches h) catalog)"
      unfolding Cons by (rule last_in_set) simp
    then have "format (last (y # ys)) \<noteq> P_UNKNOWN_COLOR"
      using catalog_props by auto
    then show ?thesis
      by (simp add: p_check_color_format_def last_matching_format_def catalog_eq fold Cons)
  qed
qed

text \<open>
  The header \<open>yuv422_header\<close> matches two catalogue entries, luminance only and 4:2:2
  multiplexed; the later one is returned.
\<close>

theorem p_check_color_format_last_match_witness:
  "map format (filter (entry_matches yuv422_header) catalog) = [P_NO_COLOR, P_COLOR_422] \<and>
   p_check_color_format yuv422_header = (P_OK, P_COLOR_422)"
proof -
  have m: "map format (filter (entry_matches yuv422_header) catalog) = [P_NO_COLOR, P_COLOR_422]"
    by (simp add: catalog_def p_default_formats_def entry_matches_def comp_agrees_def
        yuv422_header_def yuv422_comps_def P_HEADER_INIT_def P_COMPONENT_INIT_def dcomp_def
        dnull_def mul32_def int32_def P_SCOM_CODE_def P_Y_COM_CODE_def P_UV_COM_CODE_def
        P_U_COM_CODE_def P_V_COM_CODE_def P_R_COM_CODE_def P_XYZX_COM_CODE_def
        P_S_COM_CODE_def upt_rec nth_append Let_def)
  then obtain e1 e2 where es: "filter (entry_matches yuv422_header) catalog = [e1, e2]"
    and f2: "format e2 = P_COLOR_422"
    by (auto simp: map_eq_Cons_conv)
  show ?thesis
    using p_check_color_format_last_match [of yuv422_header] m
    by (simp add: last_matching_format_def es f2)
qed

section \<open>File offsets of image components\<close>

lemma int32_id: "in_int32 x \<Longrightarrow> int32 x = x"
  by (simp add: int32_def in_int32_def)

lemma int64_id: "in_int64 x \<Longrightarrow> int64 x = x"
  by (simp add: int64_def in_int64_def)

lemma in_int32_imp_64: "in_int32 x \<Longrightarrow> in_int64 x"
  by (simp add: in_int32_def in_int64_def)

lemma comp_size_at_fits:
  assumes "comp_fits (comp h ! i)"
  shows "comp_size_at h i = comp_bytes (comp h ! i)"
  using assms
  by (simp add: comp_size_at_def p_get_size_comp_def comp_fits_def comp_bytes_def
      bytes_per_sample_def strncmp_eq_def P_SDATA_FMT_def P_B8_DATA_FMT_def mul32_def
      int32_id Let_def)

lemma comp_bytes_nonneg: "comp_fits c \<Longrightarrow> 0 \<le> comp_bytes c"
  by (simp add: comp_fits_def comp_bytes_def bytes_per_sample_def)

lemma sum_comp_bytes_nonneg:
  "list_all (\<lambda>i. comp_fits (comp h ! i)) xs \<Longrightarrow>
   0 \<le> sum_list (map (\<lambda>i. comp_bytes (comp h ! i)) xs)"
  by (induction xs) (simp_all add: comp_bytes_nonneg)

lemma foldl_add64_comp_sizes:
  "list_all (\<lambda>i. comp_fits (comp h ! i)) xs \<Longrightarrow> in_int64 acc \<Longrightarrow>
   in_int64 (acc + sum_list (map (\<lambda>i. comp_bytes (comp h ! i)) xs)) \<Longrightarrow>
   foldl (\<lambda>s i. add64 s (comp_size_at h i)) acc xs =
     acc + sum_list (map (\<lambda>i. comp_bytes (comp h ! i)) xs)"
proof (induction xs arbitrary: acc)
  case Nil
  then show ?case by simp
next
  case (Cons x xs)
  let ?b = "comp_bytes (comp h ! x)"
  let ?rest = "sum_list (map (\<lambda>i. comp_bytes (comp h ! i)) xs)"
  from Cons.prems have fx: "comp_fits (comp h ! x)"
    and fxs: "list_all (\<lambda>i. comp_fits (comp h ! i)) xs" by simp_all
  have b0: "0 \<le> ?b" using fx by (rule comp_bytes_nonneg)
  have r0: "0 \<le> ?rest" using fxs by (rule sum_comp_bytes_nonneg)
  have tot: "in_int64 (acc + ?b + ?rest)" using Cons.prems(3) by (simp add: add.assoc)
  have mid: "in_int64 (acc + ?b)"
    using Cons.prems(2) tot b0 r0 by (simp add: in_int64_def)
  have step: "add64 acc (comp_size_at h x) = acc + ?b"
    by (simp add: add64_def comp_size_at_fits [OF fx] int64_id [OF mid])
  show ?case
    using Cons.IH [OF fxs mid tot] by (simp add: step add.assoc)
qed

lemma list_all_upt_mono:
  "list_all P [0 ..< max m n] \<Longrightarrow> list_all P [0 ..< m] \<and> list_all P [0 ..< n]"
  by (auto simp: list_all_iff)

lemma p_get_size_image_eq:
  assumes "sizes_fit h nr comp_nr"
  shows "p_get_size_image h = image_size h"
proof -
  from assms have cs: "list_all (\<lambda>i. comp_fits (comp h ! i)) [0 ..< nat (nr_compon h)]"
    and a32: "in_int32 (nr_aux_data_recs h * bytes_rec h)"
    and i64: "in_int64 (image_size h)"
    using list_all_upt_mono [of "\<lambda>i. comp_fits (comp h ! i)" "nat (nr_compon h)" "nat comp_nr"]
    by (simp_all add: sizes_fit_def)
  show ?thesis
    unfolding p_get_size_image_def image_size_def
    using foldl_add64_comp_sizes [OF cs in_int32_imp_64 [OF a32]] i64
    by (simp add: mul32_def int32_id [OF a32] image_size_def)
qed

lemma p_get_size_header_eq:
  assumes "sizes_fit h nr comp_nr"
  shows "p_get_size_header h = header_size h"
proof -
  from assms have a: "in_int32 (2 * bytes_rec h)" and b: "in_int32 (nr_fd_recs h * bytes_rec h)"
    and c: "in_int32 (2 * nr_compon h)" and d: "in_int32 (2 * nr_compon h * bytes_rec h)"
    by (simp_all add: sizes_fit_def)
  have s1: "in_int64 (2 * bytes_rec h + nr_fd_recs h * bytes_rec h)"
    using a b unfolding in_int32_def in_int64_def by linarith
  have s2: "in_int64 (2 * bytes_rec h + nr_fd_recs h * bytes_rec h + 2 * nr_compon h * bytes_rec h)"
    using a b d unfolding in_int32_def in_int64_def by linarith
  have m1: "mul32 P_NUM_GLOB_RECS (bytes_rec h) = 2 * bytes_rec h"
    by (simp add: mul32_def P_NUM_GLOB_RECS_def int32_id [OF a])
  have m2: "mul32 (nr_fd_recs h) (bytes_rec h) = nr_fd_recs h * bytes_rec h"
    by (simp add: mul32_def int32_id [OF b])
  have m3: "mul32 (mul32 P_NUM_COMP_RECS (nr_compon h)) (bytes_rec h) = 2 * nr_compon h * bytes_rec h"
    by (simp add: mul32_def P_NUM_COMP_RECS_def int32_id [OF c] int32_id [OF d])
  have "p_get_size_header h =
      2 * bytes_rec h + nr_fd_recs h * bytes_rec h + 2 * nr_compon h * bytes_rec h"
    by (simp add: p_get_size_header_def m1 m2 m3 add64_def int64_id [OF s1] int64_id [OF s2]
        Let_def)
  then show ?thesis
    by (simp add: header_size_def algebra_simps)
qed

lemma image_offset_eq:
  assumes fit: "sizes_fit h nr comp_nr" and nr: "1 \<le> nr"
  shows "foldl (\<lambda>offset i. add64 offset (comp_size_at h i))
           (add64 (add64 (p_get_size_header h) (mul64 (sub32 nr 1) (p_get_size_image h)))
              (mul32 (nr_aux_data_recs h) (bytes_rec h)))
           [0 ..< nat comp_nr] = component_offset h nr comp_nr"
proof -
  let ?sum = "sum_list (map (\<lambda>i. comp_bytes (comp h ! i)) [0 ..< nat comp_nr])"
  let ?aux = "nr_aux_data_recs h * bytes_rec h"
  from fit have cs: "list_all (\<lambda>i. comp_fits (comp h ! i)) [0 ..< nat comp_nr]"
    and cs': "list_all (\<lambda>i. comp_fits (comp h ! i)) [0 ..< nat (nr_compon h)]"
    and a32: "in_int32 ?aux" and n32: "in_int32 nr"
    and tot: "in_int64 (component_offset h nr comp_nr)"
    and nonneg: "0 \<le> bytes_rec h" "0 \<le> nr_fd_recs h" "0 \<le> nr_compon h" "0 \<le> nr_aux_data_recs h"
    using list_all_upt_mono [of "\<lambda>i. comp_fits (comp h ! i)" "nat (nr_compon h)" "nat comp_nr"]
    by (simp_all add: sizes_fit_def)
  have sum0: "0 \<le> ?sum" using cs by (rule sum_comp_bytes_nonneg)
  have aux0: "0 \<le> ?aux" using nonneg by simp
  have hdr0: "0 \<le> header_size h" using nonneg by (simp add: header_size_def)
  have img0: "0 \<le> image_size h"
    using aux0 sum_comp_bytes_nonneg [OF cs'] by (simp add: image_size_def)
  have prod0: "0 \<le> (nr - 1) * image_size h" using nr img0 by simp
  have tot': "in_int64 (header_size h + (nr - 1) * image_size h + ?aux + ?sum)"
    using tot by (simp add: component_offset_def)
  have n1: "sub32 nr 1 = nr - 1"
    using nr n32 by (simp add: sub32_def int32_def in_int32_def)
  have p64: "in_int64 ((nr - 1) * image_size h)"
    using tot' hdr0 prod0 aux0 sum0 by (simp add: in_int64_def)
  have h64: "in_int64 (header_size h + (nr - 1) * image_size h)"
    using tot' hdr0 prod0 aux0 sum0 by (simp add: in_int64_def)
  have a64: "in_int64 (header_size h + (nr - 1) * image_size h + ?aux)"
    using tot' hdr0 prod0 aux0 sum0 by (simp add: in_int64_def)
  have start: "add64 (add64 (p_get_size_header h) (mul64 (sub32 nr 1) (p_get_size_image h)))
              (mul32 (nr_aux_data_recs h) (bytes_rec h)) =
         header_size h + (nr - 1) * image_size h + ?aux"
    by (simp add: p_get_size_header_eq [OF fit] p_get_size_image_eq [OF fit] n1 add64_def
        mul64_def mul32_def int64_id [OF p64] int64_id [OF h64] int64_id [OF a64]
        int32_id [OF a32])
  show ?thesis
    unfolding start using foldl_add64_comp_sizes [OF cs a64 tot']
    by (simp add: component_offset_def)
qed

text \<open>
  Claim C1, amended.  For an image index \<open>nr \<ge> 1\<close> and a header whose counts and sizes are
  not negative and for which no C computation leaves its type (\<open>sizes_fit\<close>), the offset at
  which \<^verbatim>\<open>p_read_image\<close> and \<^verbatim>\<open>p_write_image\<close> position the file equals
  \<open>header_size + (nr - 1) * image_size + nr_aux_data_recs * bytes_rec\<close> plus the byte sizes of
  the components before \<open>comp_nr\<close>.
\<close>

theorem image_access_offset:
  assumes "sizes_fit h nr comp_nr" and "1 \<le> nr"
  shows "p_read_image_offset h nr comp_nr = component_offset h nr comp_nr \<and>
         p_write_image_offset h nr comp_nr = component_offset h nr comp_nr"
  using image_offset_eq [OF assms]
  by (simp add: p_read_image_offset_def p_write_image_offset_def Let_def)

lemma yuv422_fields:
  "nr_compon yuv422_header = 2" "bytes_rec yuv422_header = 512"
  "nr_fd_recs yuv422_header = 36" "nr_aux_data_recs yuv422_header = 0"
  "nr_images yuv422_header = 4" "interlace yuv422_header = 2"
  "act_lines yuv422_header = 576" "act_pixel yuv422_header = 720"
  "modified yuv422_header = 0" "disable_hdr_checks yuv422_header = 0"
  "nr_aux_hdr_recs yuv422_header = 32"
  by (simp_all add: yuv422_header_def P_HEADER_INIT_def)

lemma yuv422_comp0:
  "comp yuv422_header ! 0 = \<lparr>lin_image = 288, pix_line = 720, data_fmt = ''B*8 '',
     tem_sbsmpl = 1, lin_sbsmpl = 1, pix_sbsmpl = 1, tem_phshft = 0, lin_phshft = 0,
     pix_phshft = 0, com_code = ''Y    ''\<rparr>"
  by (simp add: yuv422_header_def yuv422_comps_def P_COMPONENT_INIT_def P_B8_DATA_FMT_def
      P_Y_COM_CODE_def)

lemma yuv422_comp1:
  "comp yuv422_header ! Suc 0 = \<lparr>lin_image = 288, pix_line = 720, data_fmt = ''B*8 '',
     tem_sbsmpl = 1, lin_sbsmpl = 1, pix_sbsmpl = 2, tem_phshft = 0, lin_phshft = 0,
     pix_phshft = 0, com_code = ''U/V  ''\<rparr>"
  by (simp add: yuv422_header_def yuv422_comps_def P_COMPONENT_INIT_def P_B8_DATA_FMT_def
      P_UV_COM_CODE_def)

lemma yuv422_comp_bytes:
  "comp_bytes (comp yuv422_header ! 0) = 207360"
  "comp_bytes (comp yuv422_header ! Suc 0) = 207360"
  by (simp_all add: yuv422_comp0 yuv422_comp1 comp_bytes_def bytes_per_sample_def)

lemma yuv422_comp_fits:
  "comp_fits (comp yuv422_header ! 0)" "comp_fits (comp yuv422_header ! Suc 0)"
  by (simp_all add: comp_fits_def yuv422_comp_bytes in_int32_def)
     (simp_all add: yuv422_comp0 yuv422_comp1 bytes_per_sample_def)

lemma yuv422_component_offset: "component_offset yuv422_header 3 1 = 1058304"
  by (simp add: component_offset_def header_size_def image_size_def yuv422_fields
      yuv422_comp_bytes upt_rec)

theorem image_access_offset_witness:
  "sizes_fit yuv422_header 3 1 \<and> (1::int) \<le> 3 \<and>
   p_read_image_offset yuv422_header 3 1 = 1058304 \<and>
   p_write_image_offset yuv422_header 3 1 = 1058304"
proof -
  have img: "image_size yuv422_header = 414720"
    by (simp add: image_size_def yuv422_fields yuv422_comp_bytes upt_rec)
  have fit: "sizes_fit yuv422_header 3 1"
    by (simp add: sizes_fit_def yuv422_fields yuv422_comp_fits yuv422_component_offset img
        in_int32_def in_int64_def upt_rec)
  show ?thesis
    using image_access_offset [OF fit] fit yuv422_component_offset by simp
qed

text \<open>
  The claim as stated, for every header, fails: a single 16-bit component of 40000 x 40000
  samples has 3200000000 bytes, which \<^verbatim>\<open>p_get_size_comp\<close> computes in a 32-bit \<^verbatim>\<open>int\<close>.
  For the second image the code seeks to a negative offset where the formula gives
  3200020480.
\<close>

lemma big_comp0:
  "comp big_header ! 0 = \<lparr>lin_image = 40000, pix_line = 40000, data_fmt = ''I*2 '',
     tem_sbsmpl = 1, lin_sbsmpl = 1, pix_sbsmpl = 1, tem_phshft = 0, lin_phshft = 0,
     pix_phshft = 0, com_code = ''Y    ''\<rparr>"
  by (simp add: big_header_def P_COMPONENT_INIT_def P_I2_DATA_FMT_def P_Y_COM_CODE_def)

lemma big_size0: "comp_size_at big_header 0 = - 1094967296"
  by (simp add: comp_size_at_def big_comp0 p_get_size_comp_def strncmp_eq_def
      P_B8_DATA_FMT_def P_SDATA_FMT_def mul32_def int32_def)

lemma big_fields:
  "nr_compon big_header = 1" "bytes_rec big_header = 512" "nr_fd_recs big_header = 36"
  "nr_aux_data_recs big_header = 0"
  by (simp_all add: big_header_def P_HEADER_INIT_def)

lemma big_image: "p_get_size_image big_header = - 1094967296"
  by (simp add: p_get_size_image_def big_fields big_size0 mul32_def add64_def int32_def
      int64_def)

lemma big_hdr: "p_get_size_header big_header = 20480"
  by (simp add: p_get_size_header_def big_fields mul32_def add64_def int32_def int64_def
      P_NUM_GLOB_RECS_def P_NUM_COMP_RECS_def)

theorem image_access_offset_counterexample:
  "p_read_image_offset big_header 2 0 = - 1094946816 \<and>
   p_write_image_offset big_header 2 0 = - 1094946816 \<and>
   component_offset big_header 2 0 = 3200020480"
proof -
  have "comp_bytes (comp big_header ! 0) = 3200000000"
    by (simp add: big_comp0 comp_bytes_def bytes_per_sample_def)
  then have "component_offset big_header 2 0 = 3200020480"
    by (simp add: component_offset_def header_size_def image_size_def big_fields)
  then show ?thesis
    by (simp add: p_read_image_offset_def p_write_image_offset_def big_image big_hdr
        big_fields mul32_def mul64_def add64_def sub32_def int32_def int64_def)
qed

section \<open>The modified flag after a header modification\<close>

lemma modified_num_frames: "modified (snd (p_mod_num_frames h n)) = 1"
  by (simp add: p_mod_num_frames_def)

lemma modified_color_format: "modified (snd (p_mod_color_format h c)) = 1"
  by (simp add: p_mod_color_format_def Let_def split: prod.split)

lemma modified_aspect_ratio: "modified (snd (p_mod_aspect_ratio h r)) = 1"
  by (simp add: p_mod_aspect_ratio_def Let_def split: prod.split pT_asp_rat.split)

lemma modified_to_progressive: "modified (snd (p_mod_to_progressive h)) = 1"
  by (simp add: p_mod_to_progressive_def Let_def)

lemma modified_to_interlaced: "modified (snd (p_mod_to_interlaced h)) = 1"
  by (simp add: p_mod_to_interlaced_def Let_def)

lemma modified_image_size: "modified (snd (p_mod_image_size h w ht)) = 1"
  by (simp add: p_mod_image_size_def Let_def)

lemma modified_file_data_format: "modified (snd (p_mod_file_data_format h f)) = 1"
  by (simp add: p_mod_file_data_format_def Let_def split: prod.split)

lemma modified_file_description: "modified (snd (p_mod_file_description h d)) = 1"
  by (simp add: p_mod_file_description_def)

lemma modified_set_comp_2: "modified (snd (p_mod_set_comp_2 h c nm f ps ls mf)) = 1"
  by (simp add: p_mod_set_comp_2_def Let_def split: prod.split)

lemma modified_rm_aux: "modified (snd (p_mod_rm_aux h i)) = 1"
  by (simp add: p_mod_rm_aux_def Let_def)

lemma modified_all_freqs:
  "modified (snd (p_mod_all_freqs h i l p)) =
     (if i \<ge> 0 \<and> l \<ge> 0 \<and> p \<ge> 0 then 1 else modified h)"
  by (simp add: p_mod_all_freqs_def)

lemma modified_add_comp:
  "modified (snd (p_mod_add_comp h)) =
     (if nr_compon h < P_PFSPD_MAX_COMP then 1 else modified h)"
  by (simp add: p_mod_add_comp_def Let_def)

lemma modified_rm_comp:
  "modified (snd (p_mod_rm_comp h c)) = (if c = - 1 then modified h else 1)"
  by (simp add: p_mod_rm_comp_def)

lemma modified_add_aux:
  "modified (snd (p_mod_add_aux h ms nm dl d)) =
     (if fst (p_mod_add_aux h ms nm dl d) \<ge> 0 then 1 else modified h)"
  by (simp add: p_mod_add_aux_def Let_def split: prod.split)

text \<open>
  Claim C5, amended.  \<^verbatim>\<open>p_mod_num_frames\<close>, \<^verbatim>\<open>p_mod_color_format\<close>,
  \<^verbatim>\<open>p_mod_aspect_ratio\<close>, \<^verbatim>\<open>p_mod_to_progressive\<close>, \<^verbatim>\<open>p_mod_to_interlaced\<close>,
  \<^verbatim>\<open>p_mod_image_size\<close>, \<^verbatim>\<open>p_mod_file_data_format\<close>, \<^verbatim>\<open>p_mod_file_description\<close>,
  \<^verbatim>\<open>p_mod_set_comp_2\<close> and \<^verbatim>\<open>p_mod_rm_aux\<close> set \<^verbatim>\<open>header->modified\<close> to 1 whatever
  they return.  \<^verbatim>\<open>p_mod_all_freqs\<close> sets it when it accepts the frequencies (none negative),
  \<^verbatim>\<open>p_mod_add_comp\<close> when it adds a component (fewer than 128 before),
  \<^verbatim>\<open>p_mod_rm_comp\<close> unless the component is \<open>-1\<close>, and \<^verbatim>\<open>p_mod_add_aux\<close> when it returns
  the new index; otherwise these four leave the flag as it was.
\<close>

theorem mod_sets_modified:
  "modified (snd (p_mod_num_frames h num_frames)) = 1 \<and>
   modified (snd (p_mod_color_format h color)) = 1 \<and>
   modified (snd (p_mod_aspect_ratio h ratio)) = 1 \<and>
   modified (snd (p_mod_to_progressive h)) = 1 \<and>
   modified (snd (p_mod_to_interlaced h)) = 1 \<and>
   modified (snd (p_mod_image_size h width height)) = 1 \<and>
   modified (snd (p_mod_file_data_format h fmt)) = 1 \<and>
   modified (snd (p_mod_file_description h descr)) = 1 \<and>
   modified (snd (p_mod_set_comp_2 h cmp nm fmt pix_sub lin_sub mf)) = 1 \<and>
   modified (snd (p_mod_rm_aux h aux_id)) = 1 \<and>
   modified (snd (p_mod_all_freqs h ifreq lfreq pfreq)) =
     (if ifreq \<ge> 0 \<and> lfreq \<ge> 0 \<and> pfreq \<ge> 0 then 1 else modified h) \<and>
   modified (snd (p_mod_add_comp h)) =
     (if nr_compon h < P_PFSPD_MAX_COMP then 1 else modified h) \<and>
   modified (snd (p_mod_rm_comp h cmp)) = (if cmp = - 1 then modified h else 1) \<and>
   modified (snd (p_mod_add_aux h max_size nm descr_len descr)) =
     (if fst (p_mod_add_aux h max_size nm descr_len descr) \<ge> 0 then 1 else modified h)"
  by (intro conjI, rule modified_num_frames, rule modified_color_format,
      rule modified_aspect_ratio, rule modified_to_progressive, rule modified_to_interlaced,
      rule modified_image_size, rule modified_file_data_format,
      rule modified_file_description, rule modified_set_comp_2, rule modified_rm_aux,
      rule modified_all_freqs, rule modified_add_comp, rule modified_rm_comp,
      rule modified_add_aux)

text \<open>The statement at the header \<open>yuv422_header\<close> and concrete arguments.\<close>

theorem mod_sets_modified_witness:
  "modified (snd (p_mod_num_frames yuv422_header 5)) = 1 \<and>
   modified (snd (p_mod_color_format yuv422_header P_COLOR_RGB)) = 1 \<and>
   modified (snd (p_mod_aspect_ratio yuv422_header P_16_9)) = 1 \<and>
   modified (snd (p_mod_to_progressive yuv422_header)) = 1 \<and>
   modified (snd (p_mod_to_interlaced yuv422_header)) = 1 \<and>
   modified (snd (p_mod_image_size yuv422_header 352 288)) = 1 \<and>
   modified (snd (p_mod_file_data_format yuv422_header P_10_BIT_FILE)) = 1 \<and>
   modified (snd (p_mod_file_description yuv422_header ''test'')) = 1 \<and>
   modified (snd (p_mod_set_comp_2 yuv422_header 0 ''Y'' P_10_BIT_FILE 1 1 1)) = 1 \<and>
   modified (snd (p_mod_rm_aux yuv422_header 0)) = 1 \<and>
   modified (snd (p_mod_all_freqs yuv422_header 50 15 13)) = 1 \<and>
   modified (snd (p_mod_add_comp yuv422_header)) = 1 \<and>
   modified (snd (p_mod_rm_comp yuv422_header 0)) = 1"
  using mod_sets_modified [where h = yuv422_header and num_frames = 5 and color = P_COLOR_RGB
      and ratio = P_16_9 and width = 352 and height = 288 and fmt = P_10_BIT_FILE
      and descr = "''test''" and cmp = 0 and nm = "''Y''" and pix_sub = 1 and lin_sub = 1
      and mf = 1 and aux_id = 0 and ifreq = 50 and lfreq = 15 and pfreq = 13]
  by (simp add: yuv422_fields P_PFSPD_MAX_COMP_def)

text \<open>
  The claim as stated fails: on a header that is not flagged as modified,
  \<^verbatim>\<open>p_mod_all_freqs\<close> with a negative image frequency returns \<open>P_ILLEGAL_ILP_FREQ_MOD\<close> and
  \<^verbatim>\<open>p_mod_rm_comp\<close> with component \<open>-1\<close> is a no-op, and both leave the flag at 0.
\<close>

theorem mod_sets_modified_counterexample:
  "modified yuv422_header = 0 \<and>
   fst (p_mod_all_freqs yuv422_header (- 1) (125 / 8) (27 / 2)) = P_ILLEGAL_ILP_FREQ_MOD \<and>
   modified (snd (p_mod_all_freqs yuv422_header (- 1) (125 / 8) (27 / 2))) = 0 \<and>
   fst (p_mod_rm_comp yuv422_header (- 1)) = P_OK \<and>
   modified (snd (p_mod_rm_comp yuv422_header (- 1))) = 0"
  by (simp add: p_mod_all_freqs_def p_mod_rm_comp_def yuv422_fields)

section \<open>The modified flag after reading, writing and rewriting the header\<close>

text \<open>
  Claim C10.  \<^verbatim>\<open>p_read_header\<close>, \<^verbatim>\<open>p_write_header\<close> and \<^verbatim>\<open>p_rewrite_header\<close> return with
  \<^verbatim>\<open>header->modified\<close> set to 0, whatever status they return and whatever the low-level
  read and write routines did.
\<close>

theorem header_io_clears_modified:
  "modified (fst (snd (p_read_header rd fs filename h))) = 0 \<and>
   modified (fst (snd (p_write_header wr fs filename h))) = 0 \<and>
   modified (fst (snd (p_rewrite_header rd wr fs filename h old0))) = 0"
proof -
  have r: "modified (fst (snd (p_read_header rd fs filename h))) = 0"
    by (simp add: p_read_header_def Let_def split: prod.split option.split)
  have w: "modified (fst (snd (p_write_header wr fs filename h))) = 0"
    by (simp add: p_write_header_def Let_def split: prod.split)
  have rw: "modified (fst (snd (p_rewrite_header rd wr fs filename h old0))) = 0"
    by (simp add: p_rewrite_header_def Let_def split: prod.split)
  from r w rw show ?thesis by simp
qed

text \<open>
  A failed write: with a \<^verbatim>\<open>NULL\<close> file name nothing is written, the status is
  \<open>P_FILE_CREATE_FAILED\<close>, and the header that was flagged as modified no longer is.
\<close>

theorem header_io_clears_modified_witness:
  "p_write_header (\<lambda>fs f h rw. (P_OK, h, fs)) () None (P_HEADER_INIT\<lparr>modified := 1\<rparr>)
     = (P_FILE_CREATE_FAILED, P_HEADER_INIT\<lparr>modified := 0\<rparr>, ()) \<and>
   modified (fst (snd (p_write_header (\<lambda>fs f h rw. (P_OK, h, fs)) () None
     (P_HEADER_INIT\<lparr>modified := 1\<rparr>)))) = 0"
  using header_io_clears_modified
    [of "\<lambda>fs f h. (P_OK, h, fs)" "()" None "P_HEADER_INIT\<lparr>modified := 1\<rparr>"
        "\<lambda>fs f h rw. (P_OK, h, fs)" P_HEADER_INIT]
  by (simp add: p_write_header_def)

section \<open>A modified header blocks field and frame access\<close>

lemma p_read_field_modified:
  "modified h = 1 \<Longrightarrow>
   p_read_field rd w filename h frame field y_fld uv_fld read_mode width fld_height stride = (P_HEADER_IS_MODIFIED, h, w)"
  by (simp add: p_read_field_def p_check_modified_def Let_def)

lemma p_read_frame_modified:
  "modified h = 1 \<Longrightarrow>
   p_read_frame rd w filename h frame y_or_s_frm uv_frm read_mode width frm_height stride = (P_HEADER_IS_MODIFIED, h, w)"
  by (simp add: p_read_frame_def p_check_modified_def Let_def)

lemma p_write_field_modified:
  "modified h = 1 \<Longrightarrow>
   p_write_field wr w filename h frame field y_fld uv_fld width fld_height stride = (P_HEADER_IS_MODIFIED, h, w)"
  by (simp add: p_write_field_def p_check_modified_def Let_def)

lemma p_write_frame_modified:
  "modified h = 1 \<Longrightarrow>
   p_write_frame wr w filename h frame y_or_s_frm uv_frm width frm_height stride = (P_HEADER_IS_MODIFIED, h, w)"
  by (simp add: p_write_frame_def p_check_modified_def Let_def)

lemma p_read_field_16_modified:
  "modified h = 1 \<Longrightarrow>
   p_read_field_16 rd w filename h frame field y_fld uv_fld read_mode width fld_height stride = (P_HEADER_IS_MODIFIED, h, w)"
  by (simp add: p_read_field_16_def p_check_modified_def Let_def)

lemma p_read_frame_16_modified:
  "modified h = 1 \<Longrightarrow>
   p_read_frame_16 rd w filename h frame y_or_s_frm uv_frm read_mode width frm_height stride = (P_HEADER_IS_MODIFIED, h, w)"
  by (simp add: p_read_frame_16_def p_check_modified_def Let_def)

lemma p_write_field_16_modified:
  "modified h = 1 \<Longrightarrow>
   p_write_field_16 wr w filename h frame field y_fld uv_fld write_mode width fld_height stride = (P_HEADER_IS_MODIFIED, h, w)"
  by (simp add: p_write_field_16_def p_check_modified_def Let_def)

lemma p_write_frame_16_modified:
  "modified h = 1 \<Longrightarrow>
   p_write_frame_16 wr w filename h frame y_or_s_frm uv_frm write_mode width frm_height stride = (P_HEADER_IS_MODIFIED, h, w)"
  by (simp add: p_write_frame_16_def p_check_modified_def Let_def)

lemma p_read_field_planar_modified:
  "modified h = 1 \<Longrightarrow>
   p_read_field_planar rd w filename h frame field y_or_r_fld u_or_g_fld v_or_b_fld read_mode width fld_height stride uv_stride = (P_HEADER_IS_MODIFIED, h, w)"
  by (simp add: p_read_field_planar_def p_check_modified_def Let_def)

lemma p_read_frame_planar_modified:
  "modified h = 1 \<Longrightarrow>
   p_read_frame_planar rd w filename h frame y_or_r_frm u_or_g_frm v_or_b_frm read_mode width frm_height stride uv_stride = (P_HEADER_IS_MODIFIED, h, w)"
  by (simp add: p_read_frame_planar_def p_check_modified_def Let_def)

lemma p_write_field_planar_modified:
  "modified h = 1 \<Longrightarrow>
   p_write_field_planar wr w filename h frame field y_or_r_fld u_or_g_fld v_or_b_fld width fld_height stride uv_stride = (P_HEADER_IS_MODIFIED, h, w)"
  by (simp add: p_write_field_planar_def p_check_modified_def Let_def)

lemma p_write_frame_planar_modified:
  "modified h = 1 \<Longrightarrow>
   p_write_frame_planar wr w filename h frame y_or_r_frm u_or_g_frm v_or_b_frm width frm_height stride uv_stride = (P_HEADER_IS_MODIFIED, h, w)"
  by (simp add: p_write_frame_planar_def p_check_modified_def Let_def)

lemma p_read_field_planar_16_modified:
  "modified h = 1 \<Longrightarrow>
   p_read_field_planar_16 rd w filename h frame field y_or_r_fld u_or_g_fld v_or_b_fld read_mode width fld_height stride uv_stride = (P_HEADER_IS_MODIFIED, h, w)"
  by (simp add: p_read_field_planar_16_def p_check_modified_def Let_def)

lemma p_read_frame_planar_16_modified:
  "modified h = 1 \<Longrightarrow>
   p_read_frame_planar_16 rd w filename h frame y_or_r_frm u_or_g_frm v_or_b_frm read_mode width frm_height stride uv_stride = (P_HEADER_IS_MODIFIED, h, w)"
  by (simp add: p_read_frame_planar_16_def p_check_modified_def Let_def)

lemma p_write_field_planar_16_modified:
  "modified h = 1 \<Longrightarrow>
   p_write_field_planar_16 wr w filename h frame field y_or_r_fld u_or_g_fld v_or_b_fld write_mode width fld_height stride uv_stride = (P_HEADER_IS_MODIFIED, h, w)"
  by (simp add: p_write_field_planar_16_def p_check_modified_def Let_def)

lemma p_write_frame_planar_16_modified:
  "modified h = 1 \<Longrightarrow>
   p_write_frame_planar_16 wr w filename h frame y_or_r_frm u_or_g_frm v_or_b_frm write_mode width frm_height stride uv_stride = (P_HEADER_IS_MODIFIED, h, w)"
  by (simp add: p_write_frame_planar_16_def p_check_modified_def Let_def)

lemma p_read_field_comp_modified:
  "modified h = 1 \<Longrightarrow>
   p_read_field_comp rd w filename h frame field cmp c_fld read_mode width fld_height stride = (P_HEADER_IS_MODIFIED, h, w)"
  by (simp add: p_read_field_comp_def p_check_modified_def Let_def)

lemma p_read_frame_comp_modified:
  "modified h = 1 \<Longrightarrow>
   p_read_frame_comp rd w filename h frame cmp c_frm read_mode width frm_height stride = (P_HEADER_IS_MODIFIED, h, w)"
  by (simp add: p_read_frame_comp_def p_check_modified_def Let_def)

lemma p_write_field_comp_modified:
  "modified h = 1 \<Longrightarrow>
   p_write_field_comp wr w filename h frame field cmp c_fld width fld_height stride = (P_HEADER_IS_MODIFIED, h, w)"
  by (simp add: p_write_field_comp_def p_check_modified_def Let_def)

lemma p_write_frame_comp_modified:
  "modified h = 1 \<Longrightarrow>
   p_write_frame_comp wr w filename h frame cmp c_frm width frm_height stride = (P_HEADER_IS_MODIFIED, h, w)"
  by (simp add: p_write_frame_comp_def p_check_modified_def Let_def)

lemma p_read_field_comp_16_modified:
  "modified h = 1 \<Longrightarrow>
   p_read_field_comp_16 rd w filename h frame field cmp c_fld read_mode width fld_height stride = (P_HEADER_IS_MODIFIED, h, w)"
  by (simp add: p_read_field_comp_16_def p_check_modified_def Let_def)

lemma p_read_frame_comp_16_modified:
  "modified h = 1 \<Longrightarrow>
   p_read_frame_comp_16 rd w filename h frame cmp c_frm read_mode width frm_height stride = (P_HEADER_IS_MODIFIED, h, w)"
  by (simp add: p_read_frame_comp_16_def p_check_modified_def Let_def)

lemma p_write_field_comp_16_modified:
  "modified h = 1 \<Longrightarrow>
   p_write_field_comp_16 wr w filename h frame field cmp c_fld write_mode width fld_height stride = (P_HEADER_IS_MODIFIED, h, w)"
  by (simp add: p_write_field_comp_16_def p_check_modified_def Let_def)

lemma p_write_frame_comp_16_modified:
  "modified h = 1 \<Longrightarrow>
   p_write_frame_comp_16 wr w filename h frame cmp c_frm write_mode width frm_height stride = (P_HEADER_IS_MODIFIED, h, w)"
  by (simp add: p_write_frame_comp_16_def p_check_modified_def Let_def)

text \<open>
  Claim C8.  When \<^verbatim>\<open>header->modified\<close> is 1, each of the 24 field and frame functions
  (\<^verbatim>\<open>p_read_field\<close>, \<^verbatim>\<open>p_read_frame\<close>, \<^verbatim>\<open>p_write_field\<close>, \<^verbatim>\<open>p_write_frame\<close>, their
  \<^verbatim>\<open>_16\<close>, \<^verbatim>\<open>_planar\<close>, \<^verbatim>\<open>_planar_16\<close>, \<^verbatim>\<open>_comp\<close> and \<^verbatim>\<open>_comp_16\<close> variants) returns
  \<open>P_HEADER_IS_MODIFIED\<close> and leaves the header, the files and the buffers as they were:
  \<^verbatim>\<open>p_read_image\<close> and \<^verbatim>\<open>p_write_image\<close> are not called, whatever they would do.
\<close>

theorem modified_header_blocks_access:
  assumes "modified h = 1"
  shows "p_read_field rd w filename h frame field y_fld uv_fld read_mode width fld_height stride = (P_HEADER_IS_MODIFIED, h, w) \<and>
         p_read_frame rd w filename h frame y_or_s_frm uv_frm read_mode width frm_height stride = (P_HEADER_IS_MODIFIED, h, w) \<and>
         p_write_field wr w filename h frame field y_fld uv_fld width fld_height stride = (P_HEADER_IS_MODIFIED, h, w) \<and>
         p_write_frame wr w filename h frame y_or_s_frm uv_frm width frm_height stride = (P_HEADER_IS_MODIFIED, h, w) \<and>
         p_read_field_16 rd w filename h frame field y_fld uv_fld read_mode width fld_height stride = (P_HEADER_IS_MODIFIED, h, w) \<and>
         p_read_frame_16 rd w filename h frame y_or_s_frm uv_frm read_mode width frm_height stride = (P_HEADER_IS_MODIFIED, h, w) \<and>
         p_write_field_16 wr w filename h frame field y_fld uv_fld write_mode width fld_height stride = (P_HEADER_IS_MODIFIED, h, w) \<and>
         p_write_frame_16 wr w filename h frame y_or_s_frm uv_frm write_mode width frm_height stride = (P_HEADER_IS_MODIFIED, h, w) \<and>
         p_read_field_planar rd w filename h frame field y_or_r_fld u_or_g_fld v_or_b_fld read_mode width fld_height stride uv_stride = (P_HEADER_IS_MODIFIED, h, w) \<and>
         p_read_frame_planar rd w filename h frame y_or_r_frm u_or_g_frm v_or_b_frm read_mode width frm_height stride uv_stride = (P_HEADER_IS_MODIFIED, h, w) \<and>
         p_write_field_planar wr w filename h frame field y_or_r_fld u_or_g_fld v_or_b_fld width fld_height stride uv_stride = (P_HEADER_IS_MODIFIED, h, w) \<and>
         p_write_frame_planar wr w filename h frame y_or_r_frm u_or_g_frm v_or_b_frm width frm_height stride uv_stride = (P_HEADER_IS_MODIFIED, h, w) \<and>
         p_read_field_planar_16 rd w filename h frame field y_or_r_fld u_or_g_fld v_or_b_fld read_mode width fld_height stride uv_stride = (P_HEADER_IS_MODIFIED, h, w) \<and>
         p_read_frame_planar_16 rd w filename h frame y_or_r_frm u_or_g_frm v_or_b_frm read_mode width frm_height stride uv_stride = (P_HEADER_IS_MODIFIED, h, w) \<and>
         p_write_field_planar_16 wr w filename h frame field y_or_r_fld u_or_g_fld v_or_b_fld write_mode width fld_height stride uv_stride = (P_HEADER_IS_MODIFIED, h, w) \<and>
         p_write_frame_planar_16 wr w filename h frame y_or_r_frm u_or_g_frm v_or_b_frm write_mode width frm_height stride uv_stride = (P_HEADER_IS_MODIFIED, h, w) \<and>
         p_read_field_comp rd w filename h frame field cmp c_fld read_mode width fld_height stride = (P_HEADER_IS_MODIFIED, h, w) \<and>
         p_read_frame_comp rd w filename h frame cmp c_frm read_mode width frm_height stride = (P_HEADER_IS_MODIFIED, h, w) \<and>
         p_write_field_comp wr w filename h frame field cmp c_fld width fld_height stride = (P_HEADER_IS_MODIFIED, h, w) \<and>
         p_write_frame_comp wr w filename h frame cmp c_frm width frm_height stride = (P_HEADER_IS_MODIFIED, h, w) \<and>
         p_read_field_comp_16 rd w filename h frame field cmp c_fld read_mode width fld_height stride = (P_HEADER_IS_MODIFIED, h, w) \<and>
         p_read_frame_comp_16 rd w filename h frame cmp c_frm read_mode width frm_height stride = (P_HEADER_IS_MODIFIED, h, w) \<and>
         p_write_field_comp_16 wr w filename h frame field cmp c_fld write_mode width fld_height stride = (P_HEADER_IS_MODIFIED, h, w) \<and>
         p_write_frame_comp_16 wr w filename h frame cmp c_frm write_mode width frm_height stride = (P_HEADER_IS_MODIFIED, h, w)"
  using assms
  by (intro conjI,
      rule p_read_field_modified,
      rule p_read_frame_modified,
      rule p_write_field_modified,
      rule p_write_frame_modified,
      rule p_read_field_16_modified,
      rule p_read_frame_16_modified,
      rule p_write_field_16_modified,
      rule p_write_frame_16_modified,
      rule p_read_field_planar_modified,
      rule p_read_frame_planar_modified,
      rule p_write_field_planar_modified,
      rule p_write_frame_planar_modified,
      rule p_read_field_planar_16_modified,
      rule p_read_frame_planar_16_modified,
      rule p_write_field_planar_16_modified,
      rule p_write_frame_planar_16_modified,
      rule p_read_field_comp_modified,
      rule p_read_frame_comp_modified,
      rule p_write_field_comp_modified,
      rule p_write_frame_comp_modified,
      rule p_read_field_comp_16_modified,
      rule p_read_frame_comp_16_modified,
      rule p_write_field_comp_16_modified,
      rule p_write_frame_comp_16_modified)

text \<open>
  The statement at the header \<open>yuv422_header\<close> flagged as modified, with low-level routines
  that would succeed: the frame functions return the error and the state \<open>w\<close>, here a
  counter of low-level calls, stays 0.
\<close>

theorem modified_header_blocks_access_witness:
  "modified (yuv422_header\<lparr>modified := 1\<rparr>) = 1 \<and>
   p_read_frame (\<lambda>w f h nr c b mt mf wd ht st. (P_OK, (0, 0), Suc w)) 0 ''f''
       (yuv422_header\<lparr>modified := 1\<rparr>) 1 4096 8192 1 720 576 720
     = (P_HEADER_IS_MODIFIED, yuv422_header\<lparr>modified := 1\<rparr>, 0) \<and>
   p_write_frame (\<lambda>w f h nr c b mt mf wd ht st. (P_OK, (0, 0), Suc w)) 0 ''f''
       (yuv422_header\<lparr>modified := 1\<rparr>) 1 4096 8192 720 576 720
     = (P_HEADER_IS_MODIFIED, yuv422_header\<lparr>modified := 1\<rparr>, 0)"
proof -
  let ?io = "\<lambda>(w::nat) (f::string) (h::pT_header) (nr::int) (c::int) (b::int) (mt::int)
               (mf::int) (wd::int) (ht::int) (st::int). (P_OK, (0::int, 0::int), Suc w)"
  let ?h = "yuv422_header\<lparr>modified := 1\<rparr>"
  have m: "modified ?h = 1" by simp
  note t = modified_header_blocks_access [OF m, where rd = ?io and wr = ?io and w = 0
             and filename = "''f''" and frame = 1 and y_or_s_frm = 4096 and uv_frm = 8192
             and read_mode = 1 and width = 720 and frm_height = 576 and stride = 720]
  have r: "p_read_frame ?io 0 ''f'' ?h 1 4096 8192 1 720 576 720 = (P_HEADER_IS_MODIFIED, ?h, 0)"
    by (rule t [THEN conjunct2, THEN conjunct1])
  have w: "p_write_frame ?io 0 ''f'' ?h 1 4096 8192 720 576 720 = (P_HEADER_IS_MODIFIED, ?h, 0)"
    by (rule t [THEN conjunct2, THEN conjunct2, THEN conjunct2, THEN conjunct1])
  from m r w show ?thesis by simp
qed

section \<open>Frame access as two field accesses\<close>

lemma image_call_interlace:
  "interlace (fst (snd (image_call io d f n c b mt mf wd ht st s))) = interlace (fst (snd s))"
  by (simp add: image_call_def split: prod.split)

lemma p_read_buffers_interlace:
  "interlace (fst (snd (p_read_buffers rd w f h cf frame field cmp rf b0 b1 b2 mt mode wd ht
      s0 s1 s2))) = interlace h"
  by (simp add: p_read_buffers_def Let_def image_call_interlace split: prod.split)

lemma p_write_buffers_interlace:
  "interlace (fst (snd (p_write_buffers wr w f h cf frame field cmp rf b0 b1 b2 mt mode wd ht
      s0 s1 s2))) = interlace h"
  by (simp add: p_write_buffers_def Let_def image_call_interlace split: prod.split)

lemma mul32_2_eq_0:
  assumes "- 2147483648 < x" and "x < 2147483648" and "mul32 2 x = 0"
  shows "x = 0"
proof -
  define k where "k = (2 * x + 2147483648) div 4294967296"
  from assms(3) have m: "(2 * x + 2147483648) mod 4294967296 = 2147483648"
    by (simp add: mul32_def int32_def)
  have "2 * x + 2147483648 = 4294967296 * k + (2 * x + 2147483648) mod 4294967296"
    unfolding k_def by (rule mult_div_mod_eq [symmetric])
  then have "x = 2147483648 * k" using m by linarith
  then show ?thesis using assms(1,2) by (cases "k = 0") auto
qed

lemma doubled_strides:
  assumes "- 2147483648 < uv_stride" and "uv_stride < 2147483648"
  shows "p_get_strides cf (mul32 2 stride) (mul32 2 uv_stride) =
     (case p_get_strides cf stride uv_stride of
        (s0, s1, s2) \<Rightarrow> (mul32 2 s0, mul32 2 s1, mul32 2 s2))"
  using mul32_2_eq_0 [OF assms] by (auto simp: p_get_strides_def mul32_def int32_def)

text \<open>
  Claim C7.  A frame-level read or write on an interlaced header (\<open>interlace = 2\<close>) is the
  field-level operation for field 1 on the caller's buffers followed, when that returned
  \<open>P_OK\<close>, by the field-level operation for field 2 on the buffers advanced by one row (the
  stride of each buffer, in elements of the memory type; on writing a \<open>NULL\<close> buffer stays
  \<open>NULL\<close>), both with the strides doubled and half the frame height.  On any other header
  the frame operation is the single access of the whole frame with the strides unchanged.
  The low-level image routines are arbitrary; the memory type is one with a known element
  size and \<open>uv_stride\<close> is a C \<^verbatim>\<open>int\<close> whose double is not the wrapped value 0.
\<close>

theorem frame_is_two_fields:
  assumes sz: "mem_el_size mem_type = Some sz"
    and u: "- 2147483648 < uv_stride" "uv_stride < 2147483648"
  shows "(interlace h = 2 \<longrightarrow>
      p_read_frame_all rd w filename h cf frame cmp b0 b1 b2 mem_type mode width frm_height
          stride uv_stride =
        (case p_read_field_all rd w filename h cf frame 1 cmp b0 b1 b2 mem_type mode width
                (c_div frm_height 2) (mul32 2 stride) (mul32 2 uv_stride)
         of (status, h1, w1) \<Rightarrow>
           if status = P_OK then
             (case p_get_strides cf stride uv_stride of (s0, s1, s2) \<Rightarrow>
                p_read_field_all rd w1 filename h1 cf frame 2 cmp
                  (ptr_add b0 sz s0) (ptr_add b1 sz s1) (ptr_add b2 sz s2)
                  mem_type mode width (c_div frm_height 2) (mul32 2 stride) (mul32 2 uv_stride))
           else (status, h1, w1)) \<and>
      p_write_frame_all wr w filename h cf frame cmp b0 b1 b2 mem_type mode width frm_height
          stride uv_stride =
        (case p_write_field_all wr w filename h cf frame 1 cmp b0 b1 b2 mem_type mode width
                (c_div frm_height 2) (mul32 2 stride) (mul32 2 uv_stride)
         of (status, h1, w1) \<Rightarrow>
           if status = P_OK then
             (case p_get_strides cf stride uv_stride of (s0, s1, s2) \<Rightarrow>
                p_write_field_all wr w1 filename h1 cf frame 2 cmp
                  (ptr_add_nonnull b0 sz s0) (ptr_add_nonnull b1 sz s1)
                  (ptr_add_nonnull b2 sz s2)
                  mem_type mode width (c_div frm_height 2) (mul32 2 stride) (mul32 2 uv_stride))
           else (status, h1, w1))) \<and>
    (interlace h \<noteq> 2 \<longrightarrow>
      p_read_frame_all rd w filename h cf frame cmp b0 b1 b2 mem_type mode width frm_height
          stride uv_stride =
        (case p_get_strides cf stride uv_stride of (s0, s1, s2) \<Rightarrow>
           p_read_buffers rd w filename h cf frame 0 cmp 0 b0 b1 b2 mem_type mode width
             frm_height s0 s1 s2) \<and>
      p_write_frame_all wr w filename h cf frame cmp b0 b1 b2 mem_type mode width frm_height
          stride uv_stride =
        (case p_get_strides cf stride uv_stride of (s0, s1, s2) \<Rightarrow>
           p_write_buffers wr w filename h cf frame 0 cmp 0 b0 b1 b2 mem_type mode width
             frm_height s0 s1 s2))"
proof (intro conjI impI)
  assume i: "interlace h = 2"
  obtain s0 s1 s2 where st: "p_get_strides cf stride uv_stride = (s0, s1, s2)"
    by (cases "p_get_strides cf stride uv_stride") auto
  have d: "p_get_strides cf (mul32 2 stride) (mul32 2 uv_stride) = (mul32 2 s0, mul32 2 s1, mul32 2 s2)"
    using doubled_strides [OF u, of cf stride] st by simp
  let ?r1 = "p_read_buffers rd w filename h cf frame 1 cmp 1 b0 b1 b2 mem_type mode width
               (c_div frm_height 2) (mul32 2 s0) (mul32 2 s1) (mul32 2 s2)"
  obtain st1 h1 w1 where r1: "?r1 = (st1, h1, w1)" by (cases ?r1) auto
  have "interlace h1 = 2"
    using p_read_buffers_interlace [of rd w filename h cf frame 1 cmp 1 b0 b1 b2 mem_type mode
        width "c_div frm_height 2" "mul32 2 s0" "mul32 2 s1" "mul32 2 s2"] r1 i by simp
  then show "p_read_frame_all rd w filename h cf frame cmp b0 b1 b2 mem_type mode width
      frm_height stride uv_stride =
        (case p_read_field_all rd w filename h cf frame 1 cmp b0 b1 b2 mem_type mode width
                (c_div frm_height 2) (mul32 2 stride) (mul32 2 uv_stride)
         of (status, h1, w1) \<Rightarrow>
           if status = P_OK then
             (case p_get_strides cf stride uv_stride of (s0, s1, s2) \<Rightarrow>
                p_read_field_all rd w1 filename h1 cf frame 2 cmp
                  (ptr_add b0 sz s0) (ptr_add b1 sz s1) (ptr_add b2 sz s2)
                  mem_type mode width (c_div frm_height 2) (mul32 2 stride) (mul32 2 uv_stride))
           else (status, h1, w1))"
    using i by (simp add: p_read_frame_all_def p_read_field_all_def st d r1 sz
        p_is_interlaced_def p_is_progressive_def)
  let ?w1 = "p_write_buffers wr w filename h cf frame 1 cmp 1 b0 b1 b2 mem_type mode width
               (c_div frm_height 2) (mul32 2 s0) (mul32 2 s1) (mul32 2 s2)"
  obtain st2 h2 w2 where w1: "?w1 = (st2, h2, w2)" by (cases ?w1) auto
  have "interlace h2 = 2"
    using p_write_buffers_interlace [of wr w filename h cf frame 1 cmp 1 b0 b1 b2 mem_type mode
        width "c_div frm_height 2" "mul32 2 s0" "mul32 2 s1" "mul32 2 s2"] w1 i by simp
  then show "p_write_frame_all wr w filename h cf frame cmp b0 b1 b2 mem_type mode width
      frm_height stride uv_stride =
        (case p_write_field_all wr w filename h cf frame 1 cmp b0 b1 b2 mem_type mode width
                (c_div frm_height 2) (mul32 2 stride) (mul32 2 uv_stride)
         of (status, h1, w1) \<Rightarrow>
           if status = P_OK then
             (case p_get_strides cf stride uv_stride of (s0, s1, s2) \<Rightarrow>
                p_write_field_all wr w1 filename h1 cf frame 2 cmp
                  (ptr_add_nonnull b0 sz s0) (ptr_add_nonnull b1 sz s1)
                  (ptr_add_nonnull b2 sz s2)
                  mem_type mode width (c_div frm_height 2) (mul32 2 stride) (mul32 2 uv_stride))
           else (status, h1, w1))"
    using i by (simp add: p_write_frame_all_def p_write_field_all_def st d w1 sz
        p_is_interlaced_def p_is_progressive_def)
next
  assume "interlace h \<noteq> 2"
  then show "p_read_frame_all rd w filename h cf frame cmp b0 b1 b2 mem_type mode width
      frm_height stride uv_stride =
        (case p_get_strides cf stride uv_stride of (s0, s1, s2) \<Rightarrow>
           p_read_buffers rd w filename h cf frame 0 cmp 0 b0 b1 b2 mem_type mode width
             frm_height s0 s1 s2)"
    by (simp add: p_read_frame_all_def p_is_interlaced_def split: prod.split)
next
  assume "interlace h \<noteq> 2"
  then show "p_write_frame_all wr w filename h cf frame cmp b0 b1 b2 mem_type mode width
      frm_height stride uv_stride =
        (case p_get_strides cf stride uv_stride of (s0, s1, s2) \<Rightarrow>
           p_write_buffers wr w filename h cf frame 0 cmp 0 b0 b1 b2 mem_type mode width
             frm_height s0 s1 s2)"
    by (simp add: p_write_frame_all_def p_is_interlaced_def split: prod.split)
qed


text \<open>
  The theorem at the interlaced 720 x 576 header, with low-level routines that log
  \<open>(image, component, buffer, width, height, stride)\<close>: frame 1 is read as images 1 and 2,
  288 lines each with stride 1440, the second field 720 elements further into each buffer.
\<close>

theorem frame_is_two_fields_witness:
  "mem_el_size 8 = Some 1 \<and> - 2147483648 < (0::int) \<and> (0::int) < 2147483648 \<and>
   interlace yuv422_header = 2 \<and>
   fst (p_read_frame_all
          (\<lambda>w f h nr c b mt mf wd ht st. (P_OK, (0, 0), w @ [(nr, c, b, wd, ht, st)])) []
          ''f'' yuv422_header P_COLOR_422 1 (- 1) 4096 8192 0 8 1 720 576 720 0) = P_OK \<and>
   snd (snd (p_read_frame_all
          (\<lambda>w f h nr c b mt mf wd ht st. (P_OK, (0, 0), w @ [(nr, c, b, wd, ht, st)])) []
          ''f'' yuv422_header P_COLOR_422 1 (- 1) 4096 8192 0 8 1 720 576 720 0)) =
     [(1, 0, 4096, 720, 288, 1440), (1, 1, 8192, 720, 288, 1440),
      (2, 0, 4816, 720, 288, 1440), (2, 1, 8912, 720, 288, 1440)]"
proof -
  let ?io = "\<lambda>(w::(int \<times> int \<times> int \<times> int \<times> int \<times> int) list) (f::string) (h::pT_header)
               (nr::int) (c::int) (b::int) (mt::int) (mf::int) (wd::int) (ht::int) (st::int).
               (P_OK, (0::int, 0::int), w @ [(nr, c, b, wd, ht, st)])"
  have sz: "mem_el_size 8 = Some 1" by (simp add: mem_el_size_def P_UNSIGNED_CHAR_def)
  have i: "interlace yuv422_header = 2" by (simp add: yuv422_fields)
  have c1: "comp (yuv422_header\<lparr>offset_lo := 0, offset_hi := 0\<rparr>) = comp yuv422_header"
    by simp
  have i1: "interlace (yuv422_header\<lparr>offset_lo := 0, offset_hi := 0\<rparr>) = 2"
    by (simp add: yuv422_fields)
  note t = frame_is_two_fields [OF sz, of 0, simplified, where rd = ?io and w = "[]"
      and h = yuv422_header and cf = P_COLOR_422 and filename = "''f''" and frame = 1
      and cmp = "- 1" and ?b0.0 = 4096 and ?b1.0 = 8192 and ?b2.0 = 0 and mode = 1
      and width = 720 and frm_height = 576 and stride = 720,
      THEN conjunct1, rule_format, OF i, THEN conjunct1]
  have f1: "p_read_field_all ?io [] ''f'' yuv422_header P_COLOR_422 1 1 (- 1) 4096 8192 0 8 1
        720 (c_div 576 2) (mul32 2 720) (mul32 2 0) =
      (P_OK, yuv422_header\<lparr>offset_lo := 0, offset_hi := 0\<rparr>,
       [(1, 0, 4096, 720, 288, 1440), (1, 1, 8192, 720, 288, 1440)])"
    by (simp add: p_read_field_all_def p_get_strides_def p_is_progressive_def i
        p_read_buffers_def P_COMPONENT_MODE_MASK_def P_MEM_DATA_FMT_MASK_def P_NORMAL_COMP_def
        read_components_def P_READ_ALL_def buffer_size_def yuv422_comp0 yuv422_comp1
        image_number_of_def image_call_def mul32_def add32_def sub32_def int32_def c_div_def)
  have f2: "p_read_field_all ?io [(1, 0, 4096, 720, 288, 1440), (1, 1, 8192, 720, 288, 1440)]
        ''f'' (yuv422_header\<lparr>offset_lo := 0, offset_hi := 0\<rparr>) P_COLOR_422 1 2 (- 1)
        (ptr_add 4096 1 720) (ptr_add 8192 1 720) (ptr_add 0 1 720) 8 1
        720 (c_div 576 2) (mul32 2 720) (mul32 2 0) =
      (P_OK, yuv422_header\<lparr>offset_lo := 0, offset_hi := 0\<rparr>,
       [(1, 0, 4096, 720, 288, 1440), (1, 1, 8192, 720, 288, 1440),
        (2, 0, 4816, 720, 288, 1440), (2, 1, 8912, 720, 288, 1440)])"
    by (simp add: p_read_field_all_def p_get_strides_def p_is_progressive_def i1 c1
        p_read_buffers_def P_COMPONENT_MODE_MASK_def P_MEM_DATA_FMT_MASK_def P_NORMAL_COMP_def
        read_components_def P_READ_ALL_def buffer_size_def yuv422_comp0 yuv422_comp1
        image_number_of_def image_call_def mul32_def add32_def sub32_def int32_def c_div_def
        ptr_add_def)
  have g: "p_get_strides P_COLOR_422 720 0 = (720, 720, 720)"
    by (simp add: p_get_strides_def)
  have r: "p_read_frame_all ?io [] ''f'' yuv422_header P_COLOR_422 1 (- 1) 4096 8192 0 8 1
        720 576 720 0 =
      (P_OK, yuv422_header\<lparr>offset_lo := 0, offset_hi := 0\<rparr>,
       [(1, 0, 4096, 720, 288, 1440), (1, 1, 8192, 720, 288, 1440),
        (2, 0, 4816, 720, 288, 1440), (2, 1, 8912, 720, 288, 1440)])"
    unfolding t f1 g by (simp add: f2)
  show ?thesis unfolding r using sz i by simp
qed

section \<open>Round trip of the 16-bit float codec\<close>

lemma or_high_low:
  fixes a b :: int
  assumes "0 \<le> b" "b < 2 ^ n"
  shows "a * 2 ^ n OR b = a * 2 ^ n + b"
proof -
  have tb: "take_bit n b = b" using assms by (simp add: take_bit_int_eq_self)
  have "push_bit n a + take_bit n b = push_bit n a OR take_bit n b"
    by (rule disjunctive_add) (auto simp: bit_push_bit_iff bit_take_bit_iff)
  then show ?thesis by (simp add: tb push_bit_eq_mult)
qed

lemma and_low_mask:
  fixes x :: int
  shows "x AND (2 ^ n - 1) = x mod 2 ^ n"
  by (simp flip: mask_eq_exp_minus_1 take_bit_eq_mask add: take_bit_eq_mod)

lemma and_single_bit:
  fixes x :: int
  shows "x AND 2 ^ n = 2 ^ n * (x div 2 ^ n mod 2)"
proof -
  have "x AND push_bit n 1 = push_bit n (drop_bit n x AND 1)"
    by (rule bit_eqI) (auto simp: bit_simps)
  then show ?thesis by (simp add: push_bit_eq_mult drop_bit_eq_div and_one_eq)
qed


lemma and_32768: "(x::int) AND 32768 = 32768 * (x div 32768 mod 2)"
  using and_single_bit [of x 15] by simp

lemma and_1024: "(x::int) AND 1024 = 1024 * (x div 1024 mod 2)"
  using and_single_bit [of x 10] by simp

lemma and_8388608: "(x::int) AND 8388608 = 8388608 * (x div 8388608 mod 2)"
  using and_single_bit [of x 23] by simp

lemma and_31: "(x::int) AND 31 = x mod 32"
  using and_low_mask [of x 5] by simp

lemma and_255: "(x::int) AND 255 = x mod 256"
  using and_low_mask [of x 8] by simp

lemma and_1023: "(x::int) AND 1023 = x mod 1024"
  using and_low_mask [of x 10] by simp

lemma and_8388607: "(x::int) AND 8388607 = x mod 8388608"
  using and_low_mask [of x 23] by simp

lemma clear_bit_10:
  fixes x :: int
  assumes "1024 \<le> x" "x < 2048"
  shows "x AND uint32 (NOT (push_bit 10 1)) = x - 1024"
proof -
  have c: "uint32 (NOT (push_bit 10 1)) = 4294966271"
    by (simp add: uint32_def not_int_def)
  have t: "take_bit 11 x = x" using assms by (simp add: take_bit_int_eq_self)
  have "take_bit 11 (x AND 4294966271) = take_bit 11 x AND take_bit 11 4294966271"
    by (rule take_bit_and)
  also have "take_bit 11 (4294966271::int) = 1023" by (simp add: take_bit_eq_mod)
  finally have "take_bit 11 (x AND 4294966271) = x mod 1024" by (simp add: t and_1023)
  moreover have "take_bit 11 (x AND 4294966271) = x AND 4294966271"
    by (rule take_bit_int_eq_self) (use assms in \<open>auto intro: AND_upper1' [THEN order.strict_trans1]\<close>)
  moreover have "x mod 1024 = x - 1024"
    using assms by (simp add: int_mod_pos_eq [of x 1024 1 "x - 1024"])
  ultimately show ?thesis unfolding c by simp
qed


lemma f16_normalize_shift:
  assumes "k \<le> 10" "2 ^ (10 - k) \<le> m" "m < 2 ^ (11 - k)"
    and "- 2147483648 + int k \<le> e" "e < 2147483648"
  shows "f16_normalize e m = Some (e - int k, m * 2 ^ k)"
  using assms
proof (induction k arbitrary: e m)
  case 0
  then have "1024 \<le> m" "m < 2048" by simp_all
  then have "m div 1024 = 1" by (simp add: int_div_pos_eq [of m 1024 1 "m - 1024"])
  then have "m AND push_bit 10 1 \<noteq> 0" by (simp add: and_1024)
  then show ?case by (subst f16_normalize.simps) simp
next
  case (Suc k)
  from Suc.prems(1) have k9: "k \<le> 9" by simp
  define j where "j = 9 - k"
  have je: "10 - Suc k = j" "10 - k = Suc j" "11 - Suc k = Suc j" "11 - k = Suc (Suc j)"
    using k9 by (simp_all add: j_def)
  have j9: "j \<le> 9" by (simp add: j_def)
  have p: "(2::int) ^ Suc j \<le> 1024"
    using power_increasing [of "Suc j" 10 "2::int"] j9 by simp
  have lo: "2 ^ j \<le> m" using Suc.prems(2) unfolding je(1) .
  have hi: "m < 2 ^ Suc j" using Suc.prems(3) unfolding je(3) .
  have m0: "0 \<le> m" using lo by (smt (verit) zero_le_power)
  have m1: "m < 1024" using hi p by linarith
  have "m div 1024 = 0" using m0 m1 by simp
  then have z: "m AND push_bit 10 1 = 0" by (simp add: and_1024)
  have s: "sub32 e 1 = e - 1" using Suc.prems(4,5) by (simp add: sub32_def int32_def)
  have u: "uint32 (push_bit 1 m) = 2 * m" using m0 m1 by (simp add: uint32_def)
  have "f16_normalize (e - 1) (2 * m) = Some (e - 1 - int k, 2 * m * 2 ^ k)"
  proof (rule Suc.IH)
    show "k \<le> 10" using Suc.prems(1) by simp
    show "2 ^ (10 - k) \<le> 2 * m" unfolding je(2) using lo by simp
    show "2 * m < 2 ^ (11 - k)" unfolding je(4) using hi by simp
    show "- 2147483648 + int k \<le> e - 1" using Suc.prems(4) by simp
    show "e - 1 < 2147483648" using Suc.prems(5) by simp
  qed
  then show ?case
    by (subst f16_normalize.simps) (simp only: z s u if_True, simp add: algebra_simps)
qed

lemma mantissa_class:
  fixes m :: int
  assumes "0 < m" "m < 1024"
  shows "\<exists>k. 1 \<le> k \<and> k \<le> 10 \<and> 2 ^ (10 - k) \<le> m \<and> m < 2 ^ (11 - k)"
proof -
  consider "m < 2" | "2 \<le> m \<and> m < 4" | "4 \<le> m \<and> m < 8" | "8 \<le> m \<and> m < 16"
    | "16 \<le> m \<and> m < 32" | "32 \<le> m \<and> m < 64" | "64 \<le> m \<and> m < 128"
    | "128 \<le> m \<and> m < 256" | "256 \<le> m \<and> m < 512" | "512 \<le> m"
    by linarith
  then show ?thesis
  proof cases
    case 1 then show ?thesis using assms by (intro exI [of _ 10]) simp
  next
    case 2 then show ?thesis by (intro exI [of _ 9]) simp
  next
    case 3 then show ?thesis by (intro exI [of _ 8]) simp
  next
    case 4 then show ?thesis by (intro exI [of _ 7]) simp
  next
    case 5 then show ?thesis by (intro exI [of _ 6]) simp
  next
    case 6 then show ?thesis by (intro exI [of _ 5]) simp
  next
    case 7 then show ?thesis by (intro exI [of _ 4]) simp
  next
    case 8 then show ?thesis by (intro exI [of _ 3]) simp
  next
    case 9 then show ?thesis by (intro exI [of _ 2]) simp
  next
    case 10 then show ?thesis using assms by (intro exI [of _ 1]) simp
  qed
qed

lemma pack32:
  assumes "0 \<le> s" "s < 2" "0 \<le> E" "E < 256" "0 \<le> M" "M < 1024"
  shows "uint32 (push_bit 16 (32768 * s)) OR uint32 (push_bit 23 (uint32 E))
           OR uint32 (push_bit 13 M) = s * 2147483648 + E * 8388608 + M * 8192"
proof -
  have a: "uint32 (push_bit 16 (32768 * s)) = s * 2 ^ 31"
    using assms by (simp add: uint32_def push_bit_eq_mult)
  have b: "uint32 (push_bit 23 (uint32 E)) = E * 2 ^ 23"
    using assms by (simp add: uint32_def push_bit_eq_mult)
  have c: "uint32 (push_bit 13 M) = M * 8192"
    using assms by (simp add: uint32_def push_bit_eq_mult)
  have d: "E * 2 ^ 23 OR M * 8192 = E * 2 ^ 23 + M * 8192"
    using assms by (intro or_high_low) simp_all
  have e: "s * 2 ^ 31 OR (E * 2 ^ 23 + M * 8192) = s * 2 ^ 31 + (E * 2 ^ 23 + M * 8192)"
    using assms by (intro or_high_low) simp_all
  show ?thesis unfolding a b c d e by simp
qed

lemma pack16:
  assumes "0 \<le> s" "s < 2" "0 \<le> e" "e < 32" "0 \<le> m" "m < 1024"
  shows "uint16 (32768 * s OR push_bit 10 e OR m) = 32768 * s + 1024 * e + m"
proof -
  have d: "e * 2 ^ 10 OR m = e * 2 ^ 10 + m"
    using assms by (intro or_high_low) simp_all
  have e: "s * 2 ^ 15 OR (e * 2 ^ 10 + m) = s * 2 ^ 15 + (e * 2 ^ 10 + m)"
    using assms by (intro or_high_low) simp_all
  have "32768 * s OR push_bit 10 e OR m = s * 2 ^ 15 OR (e * 2 ^ 10 OR m)"
    by (simp add: push_bit_eq_mult mult.commute)
  then show ?thesis unfolding d e using assms by (simp add: uint16_def)
qed

lemma unpack32:
  assumes "0 \<le> s" "s < 2" "0 \<le> E" "E < 256" "0 \<le> M" "M < 1024"
    and f: "f = s * 2147483648 + E * 8388608 + M * 8192"
  shows "uint16 (drop_bit 16 f AND 0x00008000) = 32768 * s"
    and "drop_bit 23 f AND 0x000000FF = E"
    and "f AND 0x007FFFFF = M * 8192"
proof -
  have q: "f div 8388608 = s * 256 + E"
    using assms by (intro int_div_pos_eq [where r = "M * 8192"]) simp_all
  have r: "f mod 8388608 = M * 8192"
    using assms by (intro int_mod_pos_eq [where q = "s * 256 + E"]) simp_all
  have t: "f div 65536 div 32768 = s"
    using assms by (simp add: div_mult2_eq [symmetric])
  show "uint16 (drop_bit 16 f AND 0x00008000) = 32768 * s"
    using assms(1,2) by (simp add: drop_bit_eq_div and_32768 t uint16_def)
  show "drop_bit 23 f AND 0x000000FF = E"
    using assms(3,4) by (simp add: drop_bit_eq_div and_255 q)
  show "f AND 0x007FFFFF = M * 8192"
    by (simp add: and_8388607 r)
qed


lemma to_f16_fields:
  assumes "0 \<le> s" "s < 2" "0 \<le> E" "E < 256" "0 \<le> M" "M < 1024"
    and f: "f = s * 2147483648 + E * 8388608 + M * 8192"
  shows "p_cce_float_to_f16 f =
     (if E = 0 \<and> M = 0 then 32768 * s
      else if E = 255 then
        (if M = 0 then uint16 (32768 * s OR push_bit 10 31 OR 0)
         else uint16 (32768 * s OR push_bit 10 31 OR M))
      else if E - 112 < - 9 then 32768 * s
      else if E - 112 \<le> 0 then
        uint16 (32768 * s OR push_bit 10 0 OR
          drop_bit 13 (drop_bit (nat (113 - E)) ((M + 1024) * 8192) + 4096))
      else if E - 112 > 30 then uint16 (32768 * s OR push_bit 10 31 OR 0)
      else uint16 (32768 * s OR push_bit 10 (E - 112) OR M))"
proof -
  note u = unpack32 [OF assms]
  have x: "sub32 E (127 - 15) = E - 112" using assms by (simp add: sub32_def int32_def)
  have z: "uint16 (32768 * s) = 32768 * s" using assms by (simp add: uint16_def)
  have d: "drop_bit 13 (M * 8192) = M" by (simp add: drop_bit_eq_div)
  have n: "(M * 8192 = 0) = (M = 0)" by simp
  have o: "M * 8192 OR 0x800000 = (M + 1024) * 8192"
  proof -
    have "1 * 2 ^ 23 OR M * 8192 = 1 * 2 ^ 23 + M * 8192"
      using assms by (intro or_high_low) simp_all
    then show ?thesis by (simp add: or.commute algebra_simps)
  qed
  have r: "uint32 (M * 8192 + 0x1000) = M * 8192 + 4096"
    using assms by (simp add: uint32_def)
  have "(M * 8192 + 4096) div 8388608 = 0" using assms by simp
  then have b: "(M * 8192 + 4096) AND 0x800000 = 0" by (simp add: and_8388608)
  have d2: "drop_bit 13 (M * 8192 + 4096) = M"
    using assms by (simp add: drop_bit_eq_div int_div_pos_eq [where r = 4096])
  have sh: "0 \<le> drop_bit (nat (113 - E)) ((M + 1024) * 8192)"
    "drop_bit (nat (113 - E)) ((M + 1024) * 8192) + 4096 < 4294967296"
  proof -
    have "0 \<le> (M + 1024) * 8192" using assms by simp
    then show "0 \<le> drop_bit (nat (113 - E)) ((M + 1024) * 8192)" by simp
    have "drop_bit (nat (113 - E)) ((M + 1024) * 8192) \<le> (M + 1024) * 8192"
      using assms zdiv_mono2 [of "(M + 1024) * 8192" 1 "2 ^ nat (113 - E)"]
      by (simp add: drop_bit_eq_div)
    then show "drop_bit (nat (113 - E)) ((M + 1024) * 8192) + 4096 < 4294967296"
      using assms by simp
  qed
  have r2: "uint32 (drop_bit (nat (113 - E)) ((M + 1024) * 8192) + 0x1000) =
      drop_bit (nat (113 - E)) ((M + 1024) * 8192) + 4096"
    using sh by (simp add: uint32_def)
  have e1: "1 - (E - 112) = 113 - E" by simp
  show ?thesis
    unfolding p_cce_float_to_f16_def u Let_def x o e1 r r2 b d d2 n
    using assms(3,4) by (simp add: z d2)
qed

lemma to_f16_subnormal:
  assumes "0 \<le> s" "s < 2" "1 \<le> k" "k \<le> 10" "0 \<le> m" "m < 1024"
    and "1024 \<le> m * 2 ^ k" "m * 2 ^ k < 2048"
    and f: "f = s * 2147483648 + (113 - int k) * 8388608 + (m * 2 ^ k - 1024) * 8192"
  shows "p_cce_float_to_f16 f = 32768 * s + m"
proof -
  define M where "M = m * 2 ^ k - 1024"
  define E where "E = 113 - int k"
  have M: "0 \<le> M" "M < 1024" using assms by (simp_all add: M_def)
  have E: "0 \<le> E" "E < 256" using assms by (simp_all add: E_def)
  have f': "f = s * 2147483648 + E * 8388608 + M * 8192" by (simp add: f E_def M_def)
  have sh: "drop_bit (nat (113 - E)) ((M + 1024) * 8192) = m * 8192"
    by (simp add: drop_bit_eq_div E_def M_def)
  have d: "drop_bit 13 (m * 8192 + 4096) = m"
    using assms by (simp add: drop_bit_eq_div int_div_pos_eq [where r = 4096])
  have p: "uint16 (32768 * s OR push_bit 10 0 OR m) = 32768 * s + 1024 * 0 + m"
    using assms(1,2,5,6) by (intro pack16) simp_all
  have c: "\<not> (E = 0 \<and> M = 0)" "E \<noteq> 255" "\<not> E - 112 < - 9" "E - 112 \<le> 0"
    using assms(3,4) by (simp_all add: E_def)
  show ?thesis
    unfolding to_f16_fields [OF assms(1,2) E M f'] sh d using c p by simp
qed

text \<open>
  Claim C2.  For every 16-bit pattern \<open>x\<close> (an \<^verbatim>\<open>unsigned short\<close>, both sign bits, zeros,
  subnormal and regular numbers, infinities and NaNs), \<^verbatim>\<open>p_cce_f16_to_float\<close> returns (its
  normalisation loop ends) and \<^verbatim>\<open>p_cce_float_to_f16\<close> maps the returned bit pattern back to
  \<open>x\<close>.  On bit patterns the NaNs round-trip exactly too, so their kind and sign are kept.
\<close>

theorem f16_round_trip:
  assumes "0 \<le> x" "x < 65536"
  shows "\<exists>f. p_cce_f16_to_float x = Some f \<and> p_cce_float_to_f16 f = x"
proof -
  define s where "s = x div 32768"
  define e where "e = x div 1024 mod 32"
  define m where "m = x mod 1024"
  have s: "0 \<le> s" "s < 2" using assms by (simp_all add: s_def)
  have e: "0 \<le> e" "e < 32" by (simp_all add: e_def)
  have m: "0 \<le> m" "m < 1024" by (simp_all add: m_def)
  have x: "x = 32768 * s + 1024 * e + m"
  proof -
    have a: "x = 1024 * (x div 1024) + x mod 1024" by simp
    have b: "x div 1024 = 32 * (x div 1024 div 32) + x div 1024 mod 32" by simp
    have c: "x div 1024 div 32 = x div 32768" by (simp add: div_mult2_eq [symmetric])
    show ?thesis unfolding s_def e_def m_def using a b c by linarith
  qed
  have xs: "x AND 0x8000 = 32768 * s" using s by (simp add: and_32768 s_def)
  have xe: "drop_bit 10 x AND 0x001F = e" by (simp add: drop_bit_eq_div and_31 e_def)
  have xm: "x AND 0x03FF = m" by (simp add: and_1023 m_def)
  have p16: "uint16 (32768 * s OR push_bit 10 e OR m) = x"
    unfolding x using s e m by (rule pack16)
  consider (special) "e = 31" | (zero) "e = 0" "m = 0" | (subnormal) "e = 0" "m \<noteq> 0"
    | (regular) "0 < e" "e < 31"
    using e by linarith
  then show ?thesis
  proof cases
    case special
    define f where "f = s * 2147483648 + 255 * 8388608 + m * 8192"
    have "p_cce_f16_to_float x = Some f"
      unfolding p_cce_f16_to_float_def xs xe xm Let_def f_def
      using pack32 [OF s _ _ m, of 255] by (simp add: special)
    moreover have "p_cce_float_to_f16 f = x"
      unfolding to_f16_fields [OF s _ _ m f_def, simplified]
      using p16 by (auto simp: special)
    ultimately show ?thesis by simp
  next
    case zero
    define f where "f = s * 2147483648 + 0 * 8388608 + 0 * 8192"
    have "p_cce_f16_to_float x = Some f"
      unfolding p_cce_f16_to_float_def xs xe xm Let_def f_def
      using pack32 [OF s, of 0 0] by (simp add: zero)
    moreover have "p_cce_float_to_f16 f = x"
      unfolding to_f16_fields [OF s _ _ _ _ f_def, simplified]
      by (simp add: x zero)
    ultimately show ?thesis by simp
  next
    case subnormal
    then have "0 < m" using m by simp
    from mantissa_class [OF this m(2)] obtain k where
      k: "1 \<le> k" "k \<le> 10" "2 ^ (10 - k) \<le> m" "m < 2 ^ (11 - k)" by blast
    have n: "f16_normalize (127 - 15) m = Some (112 - int k, m * 2 ^ k)"
      using f16_normalize_shift [OF k(2,3,4), of 112] k(2) by simp
    have lo: "1024 \<le> m * 2 ^ k"
    proof -
      have "(2::int) ^ (10 - k) * 2 ^ k \<le> m * 2 ^ k" using k(3) by simp
      then show ?thesis using k(2) by (simp flip: power_add)
    qed
    have hi: "m * 2 ^ k < 2048"
    proof -
      have "m * 2 ^ k < (2::int) ^ (11 - k) * 2 ^ k" using k(4) by simp
      then show ?thesis using k(2) by (simp flip: power_add)
    qed
    have a: "add32 (112 - int k) 1 = 113 - int k" using k by (simp add: add32_def int32_def)
    have M: "0 \<le> m * 2 ^ k - 1024" "m * 2 ^ k - 1024 < 1024" using lo hi by simp_all
    have E: "0 \<le> 113 - int k" "113 - int k < 256" using k by simp_all
    define f where "f = s * 2147483648 + (113 - int k) * 8388608 + (m * 2 ^ k - 1024) * 8192"
    have t: "p_cce_f16_to_float x =
        Some (uint32 (push_bit 16 (32768 * s))
              OR uint32 (push_bit 23 (uint32 (add32 (112 - int k) 1)))
              OR uint32 (push_bit 13 (m * 2 ^ k AND uint32 (NOT (push_bit 10 1)))))"
      unfolding p_cce_f16_to_float_def xs xe xm Let_def n using subnormal by simp
    have "p_cce_f16_to_float x = Some f"
      unfolding t a clear_bit_10 [OF lo hi] f_def using pack32 [OF s E M] by simp
    moreover have "p_cce_float_to_f16 f = x"
      using to_f16_subnormal [OF s k(1,2) m lo hi f_def] by (simp add: x subnormal)
    ultimately show ?thesis by simp
  next
    case regular
    have a: "add32 e 112 = e + 112" using e by (simp add: add32_def int32_def)
    have E: "0 \<le> e + 112" "e + 112 < 256" using e by simp_all
    define f where "f = s * 2147483648 + (e + 112) * 8388608 + m * 8192"
    have "p_cce_f16_to_float x = Some f"
      unfolding p_cce_f16_to_float_def xs xe xm Let_def f_def
      using pack32 [OF s E m] regular by (simp add: a)
    moreover have "p_cce_float_to_f16 f = x"
      unfolding to_f16_fields [OF s E m f_def]
      using p16 regular by simp
    ultimately show ?thesis by simp
  qed
qed


text \<open>The smallest subnormal, \<open>x = 1\<close>: ten rounds of the loop give \<open>2\<^sup>-\<^sup>2\<^sup>4\<close>,
  the pattern \<open>0x33800000\<close>.\<close>

theorem f16_round_trip_witness:
  "(0::int) \<le> 1 \<and> (1::int) < 65536 \<and> p_cce_f16_to_float 1 = Some 864026624 \<and>
   p_cce_float_to_f16 864026624 = 1"
proof -
  from f16_round_trip [of 1] obtain f where
    f: "p_cce_f16_to_float 1 = Some f" "p_cce_float_to_f16 f = 1" by auto
  have "p_cce_f16_to_float 1 = Some 864026624"
    by (simp add: p_cce_f16_to_float_def f16_normalize.simps add32_def sub32_def int32_def
        uint32_def)
  with f show ?thesis by simp
qed

section \<open>Adding and removing an auxiliary header\<close>

subsection \<open>Writing bytes\<close>

lemma write_bytes_length:
  "off + length bs \<le> length buf \<Longrightarrow> length (write_bytes buf off bs) = length buf"
  by (simp add: write_bytes_def)

lemma write_bytes_take:
  "k \<le> off \<Longrightarrow> off \<le> length buf \<Longrightarrow> take k (write_bytes buf off bs) = take k buf"
  by (simp add: write_bytes_def min_def)

lemma write_bytes_drop_after:
  "off + length bs \<le> k \<Longrightarrow> off \<le> length buf \<Longrightarrow>
     drop k (write_bytes buf off bs) = drop k buf"
  by (simp add: write_bytes_def min_def)

lemma write_bytes_drop_at:
  "off \<le> length buf \<Longrightarrow>
     drop off (write_bytes buf off bs) = bs @ drop (off + length bs) buf"
  by (simp add: write_bytes_def min_def)

lemma write_bytes_field_before:
  assumes "j + m \<le> off" "off \<le> length buf"
  shows "take m (drop j (write_bytes buf off bs)) = take m (drop j buf)"
proof -
  have "take m (drop j (write_bytes buf off bs)) = take m (drop j (take off (write_bytes buf off bs)))"
    using assms by (simp add: drop_take)
  also have "take off (write_bytes buf off bs) = take off buf"
    using assms by (simp add: write_bytes_take)
  also have "take m (drop j (take off buf)) = take m (drop j buf)"
    using assms by (simp add: drop_take)
  finally show ?thesis .
qed

subsection \<open>Decimal fields\<close>

declare digits.simps [simp del]

lemma of_char_digit: "(d::nat) < 10 \<Longrightarrow> (of_char (char_of (48 + d)) :: nat) = 48 + d"
  by simp

lemma isdigit_char_of: "(d::nat) < 10 \<Longrightarrow> isdigit (char_of (48 + d))"
  by (simp add: isdigit_def of_char_digit del: of_char_of)

lemma digit_val_char_of: "(d::nat) < 10 \<Longrightarrow> digit_val (char_of (48 + d)) = d"
  by (simp add: digit_val_def of_char_digit del: of_char_of)

lemma digits_all: "list_all isdigit (digits n)"
proof (induction n rule: digits.induct)
  case (1 n)
  show ?case
  proof (cases "n < 10")
    case True
    then show ?thesis by (subst digits.simps) (simp add: isdigit_char_of)
  next
    case False
    then show ?thesis using 1 by (subst digits.simps) (simp add: isdigit_char_of)
  qed
qed

lemma digits_value: "foldl (\<lambda>v ch. 10 * v + digit_val ch) 0 (digits n) = n"
proof (induction n rule: digits.induct)
  case (1 n)
  show ?case
  proof (cases "n < 10")
    case True
    then show ?thesis by (subst digits.simps) (simp add: digit_val_char_of)
  next
    case False
    then show ?thesis using 1 by (subst digits.simps) (simp add: digit_val_char_of)
  qed
qed

lemma digits_nonempty: "digits n \<noteq> []"
  by (subst digits.simps) simp

lemma digits_length: "0 < k \<Longrightarrow> n < 10 ^ k \<Longrightarrow> length (digits n) \<le> k"
proof (induction k arbitrary: n)
  case 0
  then show ?case by simp
next
  case (Suc k)
  show ?case
  proof (cases "n < 10")
    case True
    then show ?thesis by (subst digits.simps) simp
  next
    case False
    then have k: "0 < k" using Suc.prems by (cases k) auto
    have "n div 10 < 10 ^ k" using Suc.prems(2) by (simp add: less_mult_imp_div_less mult.commute)
    from Suc.IH [OF k this] False show ?thesis by (subst digits.simps) simp
  qed
qed

lemma not_isdigit_space: "\<not> isdigit CHR '' ''"
  by (simp add: isdigit_def)

lemma atoi_pad_left: "atoi (pad_left w (digits n)) = n"
proof -
  obtain c cs where d: "digits n = c # cs" using digits_nonempty [of n] by (cases "digits n") auto
  have "isdigit c" using digits_all [of n] by (simp add: d)
  then have c: "c \<noteq> CHR '' ''" using not_isdigit_space by auto
  have a: "dropWhile (\<lambda>ch. ch = CHR '' '') (pad_left w (digits n)) = digits n"
    by (simp add: pad_left_def dropWhile_append d c)
  have b: "takeWhile isdigit (digits n) = digits n"
    using digits_all [of n] by (simp add: takeWhile_eq_all_conv list_all_iff)
  show ?thesis unfolding atoi_def a b by (rule digits_value)
qed

lemma pad_left_ok: "list_all (\<lambda>ch. ch = CHR '' '' \<or> isdigit ch) (pad_left w (digits n))"
  using digits_all [of n] by (auto simp: pad_left_def list_all_iff)

lemma pad_left_length: "length s \<le> w \<Longrightarrow> length (pad_left w s) = w"
  by (simp add: pad_left_def)

lemma pad_right_length: "length s \<le> w \<Longrightarrow> length (pad_right w s) = w"
  by (simp add: pad_right_def)

lemma parse_field:
  assumes "off + 8 \<le> length aux" "take 8 (drop off aux) = pad_left 8 (digits n)"
  shows "p_aux_parse_int aux off = n"
  using assms by (simp add: p_aux_parse_int_def pad_left_ok atoi_pad_left)

lemma parse_sentinel:
  assumes "off + 8 \<le> length aux" "take 8 (drop off aux) = P_AUX_LAST"
  shows "p_aux_parse_int aux off = 8"
proof -
  have r: "replicate 7 CHR '' '' = ''       ''" by (simp add: eval_nat_numeral)
  have "char_of (of_char CHR ''8'' :: nat) = CHR ''8''" by (rule char_of_char)
  then have c: "char_of (56 :: nat) = CHR ''8''" by simp
  have "P_AUX_LAST = pad_left 8 (digits 8)"
    by (simp add: P_AUX_LAST_def pad_left_def digits.simps r c)
  then show ?thesis using assms parse_field by simp
qed


subsection \<open>The chain of records\<close>

declare aux_records.simps [simp del]

lemma records_end_Cons: "records_end ((off, len) # rs) off' = records_end rs (off + len)"
  by (cases rs) (simp_all add: records_end_def)

lemma aux_end_eq: "aux_end aux = records_end (aux_records aux 0) 0"
  by (simp add: aux_end_def records_end_def split: list.split)

lemma aux_records_valid:
  "P_SMIN_VALID \<le> p_aux_parse_int aux off \<Longrightarrow>
     aux_records aux off = (off, p_aux_parse_int aux off) # aux_records aux (off + p_aux_parse_int aux off)"
  by (subst aux_records.simps) (simp add: Let_def)

lemma aux_records_invalid:
  "\<not> P_SMIN_VALID \<le> p_aux_parse_int aux off \<Longrightarrow> aux_records aux off = []"
  by (subst aux_records.simps) (simp add: Let_def)

lemma parse_cong:
  assumes "take E a = take E b" "off + 8 \<le> E"
  shows "p_aux_parse_int a off = p_aux_parse_int b off"
proof -
  have f: "take 8 (drop off a) = take 8 (drop off b)"
  proof -
    have "take 8 (drop off (take E a)) = take 8 (drop off a)"
      using assms(2) by (simp add: drop_take min_def)
    moreover have "take 8 (drop off (take E b)) = take 8 (drop off b)"
      using assms(2) by (simp add: drop_take min_def)
    ultimately show ?thesis using assms(1) by simp
  qed
  have l: "(off + 8 \<le> length a) = (off + 8 \<le> length b)"
  proof -
    have "length (take E a) = length (take E b)" using assms(1) by simp
    then show ?thesis using assms(2) by (auto simp: min_def split: if_splits)
  qed
  show ?thesis by (simp add: p_aux_parse_int_def f l)
qed

lemma records_end_ge: "off \<le> records_end (aux_records a off) off"
proof (induction a off rule: aux_records.induct)
  case (1 aux off)
  show ?case
  proof (cases "P_SMIN_VALID \<le> p_aux_parse_int aux off")
    case True
    from 1 [OF refl True] show ?thesis
      by (simp add: aux_records_valid [OF True] records_end_Cons)
  next
    case False
    then show ?thesis by (simp add: aux_records_invalid records_end_def)
  qed
qed

lemma records_prefix:
  shows "take E a = take E b \<Longrightarrow> records_end (aux_records a off) off \<le> E \<Longrightarrow>
     aux_records b off = aux_records a off @ aux_records b (records_end (aux_records a off) off)"
proof (induction a off rule: aux_records.induct)
  case (1 aux off)
  show ?case
  proof (cases "P_SMIN_VALID \<le> p_aux_parse_int aux off")
    case True
    let ?len = "p_aux_parse_int aux off"
    have e: "records_end (aux_records aux (off + ?len)) (off + ?len) \<le> E"
      using "1.prems"(2) by (simp add: aux_records_valid [OF True] records_end_Cons)
    have "off + ?len \<le> E" using e records_end_ge [of "off + ?len" aux] by simp
    then have "off + 8 \<le> E" using True by (simp add: P_SMIN_VALID_def)
    then have p: "p_aux_parse_int b off = ?len"
      using parse_cong [OF "1.prems"(1), of off] by simp
    have vb: "P_SMIN_VALID \<le> p_aux_parse_int b off" using True p by simp
    show ?thesis
      using "1.IH" [OF refl True "1.prems"(1) e]
      by (simp add: aux_records_valid [OF True] aux_records_valid [OF vb] p records_end_Cons)
  next
    case False
    then show ?thesis by (simp add: aux_records_invalid records_end_def)
  qed
qed

lemma skip_prefix:
  shows "take E a = take E b \<Longrightarrow> records_end (aux_records a off) off \<le> E \<Longrightarrow>
     skip_records b (length (aux_records a off)) off = records_end (aux_records a off) off"
proof (induction a off rule: aux_records.induct)
  case (1 aux off)
  show ?case
  proof (cases "P_SMIN_VALID \<le> p_aux_parse_int aux off")
    case True
    let ?len = "p_aux_parse_int aux off"
    have e: "records_end (aux_records aux (off + ?len)) (off + ?len) \<le> E"
      using "1.prems"(2) by (simp add: aux_records_valid [OF True] records_end_Cons)
    have "off + ?len \<le> E" using e records_end_ge [of "off + ?len" aux] by simp
    then have "off + 8 \<le> E" using True by (simp add: P_SMIN_VALID_def)
    then have p: "p_aux_parse_int b off = ?len"
      using parse_cong [OF "1.prems"(1), of off] by simp
    show ?thesis
      using "1.IH" [OF refl True "1.prems"(1) e]
      by (simp add: aux_records_valid [OF True] p records_end_Cons)
  next
    case False
    then show ?thesis by (simp add: aux_records_invalid records_end_def)
  qed
qed


subsection \<open>Adding and removing a record\<close>

lemma write_bytes_nil: "write_bytes buf off [] = buf"
  by (simp add: write_bytes_def)

lemma pad_left_length_le: "length (pad_left w s) \<le> max w (length s)"
  by (simp add: pad_left_def)

lemma pad_left_length_ge: "w \<le> length (pad_left w s)"
  by (simp add: pad_left_def)

lemma show_int_length:
  assumes "in_int32 n"
  shows "length (show_int n) \<le> 11"
proof (cases "n < 0")
  case True
  have "nat (- n) < 10 ^ 10" using assms by (simp add: in_int32_def) linarith
  from digits_length [OF _ this] True show ?thesis by (simp add: show_int_def)
next
  case False
  have "nat n < 10 ^ 10" using assms by (simp add: in_int32_def) linarith
  from digits_length [OF _ this] False show ?thesis by (simp add: show_int_def)
qed

lemma add_then_rm:
  fixes h :: pT_header
  defines "aux \<equiv> aux_hdrs h"
  defines "E \<equiv> aux_end (aux_hdrs h)"
  assumes len: "length aux = P_SAUX_HDR"
    and tail: "drop E aux = P_AUX_LAST @ replicate (P_SAUX_HDR - E - 8) (CHR 0x00)"
    and nm: "length nm \<le> P_SAUX_NAME"
    and dl: "0 \<le> descr_len" "nat descr_len \<le> length descr"
    and ms: "in_int32 max_size"
    and nodup: "p_get_aux_by_name h nm < 0"
    and cap: "int E + 48 + descr_len + 8 + 1 \<le> int P_SAUX_HDR"
  shows "\<exists>h1. p_mod_add_aux h max_size nm descr_len descr =
              (int (length (aux_records aux 0)), h1) \<and>
           p_mod_rm_aux h1 (int (length (aux_records aux 0))) =
              (P_OK, h\<lparr>nr_aux_data_recs := aux_data_recs aux (bytes_rec h), modified := 1\<rparr>)"
proof -
  define n where "n = length (aux_records aux 0)"
  define ln where "ln = 48 + nat descr_len"
  define z where "z = 16384 - E - 8"
  define d where "d = take (nat descr_len) descr"
  have la: "length aux = 16384" using len by (simp add: P_SAUX_HDR_def)
  have cap': "E + ln + 9 \<le> 16384" using cap dl by (simp add: ln_def P_SAUX_HDR_def)
  have zl: "ln + 1 \<le> z" using cap' by (simp add: z_def)
  have tail': "drop E aux = P_AUX_LAST @ replicate z (CHR 0x00)"
    using tail by (simp add: z_def P_SAUX_HDR_def)
  have sl: "length P_AUX_LAST = 8" by (simp add: P_AUX_LAST_def)
  have dlen: "length d = nat descr_len" using dl by (simp add: d_def)
  define F1 where "F1 = pad_left 8 (digits ln)"
  define rec where "rec = F1 @ pad_right 16 nm @ pad_left 8 (show_int max_size) @ pad_right 16 '' ''"
  have a32: "add32 (int P_SMIN_VALID) descr_len = int ln"
    using cap dl by (simp add: add32_def int32_def ln_def P_SMIN_VALID_def P_SAUX_HDR_def)
  have si: "show_int (int ln) = digits ln" by (simp add: show_int_def)
  have "ln < 10 ^ 8" using cap' by simp
  then have "length (digits ln) \<le> 8" by (intro digits_length) simp_all
  then have F1l: "length F1 = 8" by (simp add: F1_def pad_left_length)
  have f3: "8 \<le> length (pad_left 8 (show_int max_size))"
    "length (pad_left 8 (show_int max_size)) \<le> 11"
    using pad_left_length_le [of 8 "show_int max_size"] pad_left_length_ge [of 8 "show_int max_size"]
      show_int_length [OF ms] by simp_all
  have recl: "48 \<le> length rec" "length rec \<le> 51"
    using f3 nm by (simp_all add: rec_def F1l pad_right_length P_SAUX_NAME_def)
  define a1 where "a1 = strcpy_at aux E rec"
  define a2 where "a2 = write_bytes a1 (E + 48) d"
  define a3 where "a3 = strcpy_at a2 (E + ln) P_AUX_LAST"
  have l1: "length a1 = 16384"
    using recl cap' la by (simp add: a1_def strcpy_at_def write_bytes_length ln_def)
  have l2: "length a2 = 16384"
    using cap' l1 dlen by (simp add: a2_def write_bytes_length ln_def)
  have l3: "length a3 = 16384"
    using cap' l2 sl by (simp add: a3_def strcpy_at_def write_bytes_length)
  have add_eq: "p_mod_add_aux h max_size nm descr_len descr =
      (int n, h\<lparr>aux_hdrs := a3, nr_aux_data_recs := aux_data_recs a3 (bytes_rec h),
                modified := 1\<rparr>)"
  proof -
    have c: "\<not> add32 (add32 (add32 (add32 (int E) (int P_SMIN_VALID)) descr_len)
                  (int P_SAUX_HDRLEN)) 1 > int P_SAUX_HDR"
      using cap dl
      by (simp add: add32_def int32_def P_SMIN_VALID_def P_SAUX_HDRLEN_def P_SAUX_HDR_def)
    have r: "pad_left P_SAUX_HDRLEN (show_int (add32 (int P_SMIN_VALID) descr_len))
                @ pad_right P_SAUX_NAME nm @ pad_left P_SMAX_LEN (show_int max_size)
                @ pad_right P_SRESERVED '' '' = rec"
      unfolding a32 si
      by (simp add: rec_def F1_def P_SAUX_HDRLEN_def P_SAUX_NAME_def P_SMAX_LEN_def
          P_SRESERVED_def)
    have w: "(if descr_len > 0
              then (write_bytes a1 (E + P_SMIN_VALID) (take (nat descr_len) descr),
                    E + P_SMIN_VALID + nat descr_len)
              else (a1, E + P_SMIN_VALID)) = (a2, E + ln)"
      using dl by (auto simp: a2_def d_def ln_def P_SMIN_VALID_def write_bytes_nil)
    have e: "aux_end aux = E" by (simp add: E_def aux_def)
    show ?thesis
      unfolding p_mod_add_aux_def Let_def aux_def [symmetric] e r a1_def [symmetric] w
      using nodup c by (simp add: n_def a3_def)
  qed
  have pre: "take E a3 = take E aux"
  proof -
    have "take E a3 = take E a2"
      unfolding a3_def strcpy_at_def using l2 cap' by (intro write_bytes_take) simp_all
    also have "\<dots> = take E a1"
      unfolding a2_def using l1 cap' by (intro write_bytes_take) (simp_all add: ln_def)
    also have "\<dots> = take E aux"
      unfolding a1_def strcpy_at_def using la cap' by (intro write_bytes_take) simp_all
    finally show ?thesis .
  qed
  have fld: "take 8 (drop E a3) = F1"
  proof -
    have "take 8 (drop E a3) = take 8 (drop E a2)"
      unfolding a3_def strcpy_at_def using l2 cap'
      by (intro write_bytes_field_before) (simp_all add: ln_def)
    also have "\<dots> = take 8 (drop E a1)"
      unfolding a2_def using l1 cap'
      by (intro write_bytes_field_before) (simp_all add: ln_def)
    also have "drop E a1 = (rec @ [CHR 0x00]) @ drop (E + length (rec @ [CHR 0x00])) aux"
      unfolding a1_def strcpy_at_def using la cap' by (intro write_bytes_drop_at) simp
    also have "take 8 \<dots> = F1" using F1l by (simp add: rec_def)
    finally show ?thesis .
  qed
  have after: "drop (E + ln) a3 = P_AUX_LAST @ replicate (z - ln) (CHR 0x00)"
  proof -
    have "drop (E + ln) a3 =
        (P_AUX_LAST @ [CHR 0x00]) @ drop (E + ln + length (P_AUX_LAST @ [CHR 0x00])) a2"
      unfolding a3_def strcpy_at_def using l2 cap' by (intro write_bytes_drop_at) simp
    also have "E + ln + length (P_AUX_LAST @ [CHR 0x00]) = E + ln + 9" by (simp add: sl)
    also have "drop (E + ln + 9) a2 = drop (E + ln + 9) a1"
      unfolding a2_def using l1 cap' dlen
      by (intro write_bytes_drop_after) (simp_all add: ln_def)
    also have "\<dots> = drop (E + ln + 9) aux"
      unfolding a1_def strcpy_at_def using la cap' recl
      by (intro write_bytes_drop_after) (simp_all add: ln_def)
    also have "\<dots> = drop (ln + 9) (drop E aux)" by (simp add: add.commute add.assoc)
    also have "\<dots> = replicate (z - ln - 1) (CHR 0x00)"
      unfolding tail' by (simp add: sl)
    finally have "drop (E + ln) a3 = P_AUX_LAST @ CHR 0x00 # replicate (z - ln - 1) (CHR 0x00)"
      by simp
    moreover have "z - ln = Suc (z - ln - 1)" using zl by simp
    ultimately show ?thesis by (simp del: replicate_Suc add: replicate_Suc [symmetric])
  qed
  have pE: "p_aux_parse_int a3 E = ln"
    using parse_field [of E a3 ln] l3 cap' fld by (simp add: F1_def)
  have pS: "p_aux_parse_int a3 (E + ln) = 8"
    using parse_sentinel [of "E + ln" a3] l3 cap' after by (simp add: sl)
  have Ee: "records_end (aux_records aux 0) 0 = E" by (simp add: E_def aux_def aux_end_eq)
  have last_rec: "aux_records a3 E = [(E, ln)]"
  proof -
    have v: "P_SMIN_VALID \<le> p_aux_parse_int a3 E" by (simp add: pE ln_def P_SMIN_VALID_def)
    have i: "\<not> P_SMIN_VALID \<le> p_aux_parse_int a3 (E + ln)" by (simp add: pS P_SMIN_VALID_def)
    show ?thesis using aux_records_valid [OF v] aux_records_invalid [OF i] by (simp add: pE)
  qed
  have chain: "aux_records a3 0 = aux_records aux 0 @ [(E, ln)]"
    using records_prefix [of E aux a3 0] pre by (simp add: Ee last_rec)
  have skip: "skip_records a3 n 0 = E"
    using skip_prefix [of E aux a3 0] pre by (simp add: Ee n_def)
  define h1 where "h1 = h\<lparr>aux_hdrs := a3, nr_aux_data_recs := aux_data_recs a3 (bytes_rec h),
                modified := 1\<rparr>"
  have num: "p_get_num_aux h1 = int n + 1" by (simp add: p_get_num_aux_def h1_def chain n_def)
  define M where "M = P_AUX_LAST @ replicate (z - ln) (CHR 0x00)"
  have Ml: "length M = 16384 - E - ln" using zl cap' by (simp add: M_def sl z_def)
  have mv: "take (P_SAUX_HDR - E - ln) (drop (E + ln) a3) = M"
    unfolding after M_def [symmetric] using Ml by (simp add: P_SAUX_HDR_def)
  define a4 where "a4 = write_bytes a3 E M"
  have a4e: "a4 = take E aux @ M @ drop (16384 - ln) a3"
  proof -
    have "E + length M = 16384 - ln" using Ml cap' by simp
    then show ?thesis by (simp add: a4_def write_bytes_def pre)
  qed
  have l4: "length a4 = 16384"
    using l3 Ml cap' by (simp add: a4_def write_bytes_length)
  have a5: "write_bytes a4 (P_SAUX_HDR - ln) (replicate ln (CHR 0x00)) = aux"
  proof -
    have t: "take (16384 - ln) a4 = take E aux @ M"
      using Ml cap' la by (simp add: a4e)
    have "write_bytes a4 (P_SAUX_HDR - ln) (replicate ln (CHR 0x00)) =
        take E aux @ M @ replicate ln (CHR 0x00)"
      using l4 cap' by (simp add: write_bytes_def P_SAUX_HDR_def t)
    also have "M @ replicate ln (CHR 0x00) = P_AUX_LAST @ replicate z (CHR 0x00)"
      using zl by (simp add: M_def replicate_add [symmetric])
    also have "take E aux @ P_AUX_LAST @ replicate z (CHR 0x00) = aux"
      unfolding tail' [symmetric] by simp
    finally show ?thesis .
  qed
  have rm_eq: "p_mod_rm_aux h1 (int n) =
      (P_OK, h\<lparr>nr_aux_data_recs := aux_data_recs aux (bytes_rec h), modified := 1\<rparr>)"
  proof -
    have g: "\<not> (int n < 0 \<or> int n \<ge> p_get_num_aux h1)" by (simp add: num)
    have ah: "aux_hdrs h1 = a3" "bytes_rec h1 = bytes_rec h" by (simp_all add: h1_def)
    have "p_mod_rm_aux h1 (int n) =
        (P_OK, h1\<lparr>aux_hdrs := aux, nr_aux_data_recs := aux_data_recs aux (bytes_rec h),
                   modified := 1\<rparr>)"
      unfolding p_mod_rm_aux_def Let_def ah nat_int skip pE mv a4_def [symmetric] a5
      using g by simp
    also have "h1\<lparr>aux_hdrs := aux, nr_aux_data_recs := aux_data_recs aux (bytes_rec h),
                   modified := 1\<rparr> =
        h\<lparr>nr_aux_data_recs := aux_data_recs aux (bytes_rec h), modified := 1\<rparr>"
      by (simp add: h1_def aux_def)
    finally show ?thesis .
  qed
  show ?thesis
    using add_eq rm_eq unfolding h1_def n_def by blast
qed


lemma init_catalogue:
  assumes "aux_hdrs h = P_AUX_LAST @ replicate (P_SAUX_HDR - 8) (CHR 0x00)"
  shows "length (aux_hdrs h) = P_SAUX_HDR"
    and "aux_records (aux_hdrs h) 0 = []"
    and "aux_end (aux_hdrs h) = 0"
    and "drop (aux_end (aux_hdrs h)) (aux_hdrs h) =
        P_AUX_LAST @ replicate (P_SAUX_HDR - aux_end (aux_hdrs h) - 8) (CHR 0x00)"
    and "p_get_aux_by_name h nm = - 1"
    and "aux_data_recs (aux_hdrs h) 512 = 0"
proof -
  show l: "length (aux_hdrs h) = P_SAUX_HDR"
    by (simp add: assms P_AUX_LAST_def P_SAUX_HDR_def)
  have "p_aux_parse_int (aux_hdrs h) 0 = 8"
    using l by (intro parse_sentinel) (simp_all add: assms P_AUX_LAST_def P_SAUX_HDR_def)
  then show r: "aux_records (aux_hdrs h) 0 = []"
    by (intro aux_records_invalid) (simp add: P_SMIN_VALID_def)
  then show e: "aux_end (aux_hdrs h) = 0" by (simp add: aux_end_def)
  show "drop (aux_end (aux_hdrs h)) (aux_hdrs h) =
        P_AUX_LAST @ replicate (P_SAUX_HDR - aux_end (aux_hdrs h) - 8) (CHR 0x00)"
    unfolding e by (simp add: assms)
  show "p_get_aux_by_name h nm = - 1" by (simp add: p_get_aux_by_name_def r)
  show "aux_data_recs (aux_hdrs h) 512 = 0"
    by (simp add: aux_data_recs_def p_aux_get_total_def r uint32_def int32_def)
qed

lemma yuv422_aux: "aux_hdrs yuv422_header = P_AUX_LAST @ replicate (P_SAUX_HDR - 8) (CHR 0x00)"
  by (simp add: yuv422_header_def P_HEADER_INIT_def)

text \<open>
  Claim C9.  Let the auxiliary area of a header be its 16384 bytes, made of the chain of
  records, the sentinel \<^verbatim>\<open>P_AUX_LAST\<close> where the chain ends and zero bytes after it.  If
  \<^verbatim>\<open>p_mod_add_aux\<close> succeeds (it returns an index \<open>\<ge> 0\<close>) for a name of at most 16
  characters, a description of \<open>descr_len \<ge> 0\<close> bytes and an \<^verbatim>\<open>int\<close> \<open>max_size\<close>, then
  \<^verbatim>\<open>p_mod_rm_aux\<close> of the returned index returns \<open>P_OK\<close> and yields the header before the add
  with \<open>modified = 1\<close> and with \<open>nr_aux_data_recs\<close> recomputed from the catalogue: the byte
  region \<open>aux_hdrs\<close> is restored exactly, the vacated tail zero again, and \<open>nr_aux_data_recs\<close> is the
  value before the add exactly when that value agreed with the catalogue.  (The record size
  \<open>bytes_rec\<close> is not 0: the C code divides by it.)
\<close>

theorem aux_add_rm_round_trip:
  assumes len: "length (aux_hdrs h) = P_SAUX_HDR"
    and tail: "drop (aux_end (aux_hdrs h)) (aux_hdrs h) =
        P_AUX_LAST @ replicate (P_SAUX_HDR - aux_end (aux_hdrs h) - 8) (CHR 0x00)"
    and brec: "bytes_rec h \<noteq> 0"
    and nm: "length nm \<le> P_SAUX_NAME"
    and dl: "0 \<le> descr_len" "descr_len \<le> int P_SAUX_HDR" "nat descr_len \<le> length descr"
    and ms: "in_int32 max_size"
    and add: "p_mod_add_aux h max_size nm descr_len descr = (aux_id, h1)"
    and ok: "0 \<le> aux_id"
  shows "p_mod_rm_aux h1 aux_id =
     (P_OK, h\<lparr>nr_aux_data_recs := aux_data_recs (aux_hdrs h) (bytes_rec h), modified := 1\<rparr>)"
proof -
  let ?E = "aux_end (aux_hdrs h)"
  have "length (drop ?E (aux_hdrs h)) = 8 + (P_SAUX_HDR - ?E - 8)"
    unfolding tail by (simp add: P_AUX_LAST_def)
  then have E: "?E + 8 \<le> 16384" using len by (simp add: P_SAUX_HDR_def)
  have nodup: "p_get_aux_by_name h nm < 0"
    using add ok by (auto simp: p_mod_add_aux_def split: if_splits)
  have "\<not> add32 (add32 (add32 (add32 (int ?E) (int P_SMIN_VALID)) descr_len)
                  (int P_SAUX_HDRLEN)) 1 > int P_SAUX_HDR"
    using add ok nodup by (auto simp: p_mod_add_aux_def Let_def split: if_splits)
  then have cap: "int ?E + 48 + descr_len + 8 + 1 \<le> int P_SAUX_HDR"
    using E dl(1,2)
    by (simp add: add32_def int32_def P_SMIN_VALID_def P_SAUX_HDRLEN_def P_SAUX_HDR_def)
  from add_then_rm [OF len tail nm dl(1,3) ms nodup cap] add show ?thesis by auto
qed

text \<open>The catalogue of a new header is the sentinel and zeros; adding the entry \<open>a\<close> and
  removing it gives the header back, marked modified.\<close>

theorem aux_add_rm_round_trip_witness:
  "length (aux_hdrs yuv422_header) = P_SAUX_HDR \<and>
   drop (aux_end (aux_hdrs yuv422_header)) (aux_hdrs yuv422_header) =
     P_AUX_LAST @ replicate (P_SAUX_HDR - aux_end (aux_hdrs yuv422_header) - 8) (CHR 0x00) \<and>
   bytes_rec yuv422_header \<noteq> 0 \<and> length ''a'' \<le> P_SAUX_NAME \<and>
   (0::int) \<le> 0 \<and> 0 \<le> int P_SAUX_HDR \<and> nat 0 \<le> length ([] :: char list) \<and> in_int32 100 \<and>
   fst (p_mod_add_aux yuv422_header 100 ''a'' 0 []) = 0 \<and>
   p_mod_rm_aux (snd (p_mod_add_aux yuv422_header 100 ''a'' 0 [])) 0 =
     (P_OK, yuv422_header\<lparr>modified := 1\<rparr>)"
proof -
  note i = init_catalogue [OF yuv422_aux]
  have b: "bytes_rec yuv422_header = 512" by (simp add: yuv422_fields)
  have n: "length ''a'' \<le> P_SAUX_NAME" by (simp add: P_SAUX_NAME_def)
  have m: "in_int32 100" by (simp add: in_int32_def)
  have c: "int (aux_end (aux_hdrs yuv422_header)) + 48 + 0 + 8 + 1 \<le> int P_SAUX_HDR"
    by (simp add: i(3) P_SAUX_HDR_def)
  have "\<exists>h1. p_mod_add_aux yuv422_header 100 ''a'' 0 [] =
              (int (length (aux_records (aux_hdrs yuv422_header) 0)), h1) \<and>
           p_mod_rm_aux h1 (int (length (aux_records (aux_hdrs yuv422_header) 0))) =
              (P_OK, yuv422_header\<lparr>nr_aux_data_recs :=
                 aux_data_recs (aux_hdrs yuv422_header) (bytes_rec yuv422_header),
                 modified := 1\<rparr>)"
    using i(5) [of "''a''"] by (intro add_then_rm [OF i(1) i(4) n _ _ m _ c]) simp_all
  then have f: "fst (p_mod_add_aux yuv422_header 100 ''a'' 0 []) = 0"
    unfolding i(2) by auto
  have "p_mod_rm_aux (snd (p_mod_add_aux yuv422_header 100 ''a'' 0 []))
          (fst (p_mod_add_aux yuv422_header 100 ''a'' 0 [])) =
        (P_OK, yuv422_header\<lparr>nr_aux_data_recs :=
           aux_data_recs (aux_hdrs yuv422_header) (bytes_rec yuv422_header), modified := 1\<rparr>)"
  proof (rule aux_add_rm_round_trip [where max_size = 100 and nm = "''a''" and descr_len = 0
        and descr = "[]"])
    show "length (aux_hdrs yuv422_header) = P_SAUX_HDR" by (rule i(1))
    show "drop (aux_end (aux_hdrs yuv422_header)) (aux_hdrs yuv422_header) =
        P_AUX_LAST @ replicate (P_SAUX_HDR - aux_end (aux_hdrs yuv422_header) - 8) (CHR 0x00)"
      by (rule i(4))
    show "bytes_rec yuv422_header \<noteq> 0" by (simp add: b)
    show "length ''a'' \<le> P_SAUX_NAME" by (rule n)
    show "(0::int) \<le> 0" by simp
    show "0 \<le> int P_SAUX_HDR" by simp
    show "nat 0 \<le> length ([] :: char list)" by simp
    show "in_int32 100" by (rule m)
    show "p_mod_add_aux yuv422_header 100 ''a'' 0 [] =
        (fst (p_mod_add_aux yuv422_header 100 ''a'' 0 []),
         snd (p_mod_add_aux yuv422_header 100 ''a'' 0 []))" by simp
    show "0 \<le> fst (p_mod_add_aux yuv422_header 100 ''a'' 0 [])" by (simp add: f)
  qed
  moreover have "yuv422_header\<lparr>nr_aux_data_recs :=
           aux_data_recs (aux_hdrs yuv422_header) (bytes_rec yuv422_header), modified := 1\<rparr> =
        yuv422_header\<lparr>modified := 1\<rparr>"
    unfolding b i(6) by (simp add: yuv422_header_def P_HEADER_INIT_def)
  ultimately show ?thesis using i(1,4) b n m f by (simp add: P_SAUX_HDR_def)
qed

text \<open>
  With the same empty catalogue but \<open>nr_aux_data_recs = 3\<close>, a count that the catalogue does
  not account for, the add succeeds with index 0 and the removal returns \<open>P_OK\<close>, but
  \<open>nr_aux_data_recs\<close> is 0 afterwards, not 3.
\<close>

theorem aux_add_rm_round_trip_counterexample:
  "length (aux_hdrs (yuv422_header\<lparr>nr_aux_data_recs := 3\<rparr>)) = P_SAUX_HDR \<and>
   drop (aux_end (aux_hdrs (yuv422_header\<lparr>nr_aux_data_recs := 3\<rparr>)))
        (aux_hdrs (yuv422_header\<lparr>nr_aux_data_recs := 3\<rparr>)) =
     P_AUX_LAST @ replicate
       (P_SAUX_HDR - aux_end (aux_hdrs (yuv422_header\<lparr>nr_aux_data_recs := 3\<rparr>)) - 8)
       (CHR 0x00) \<and>
   fst (p_mod_add_aux (yuv422_header\<lparr>nr_aux_data_recs := 3\<rparr>) 100 ''a'' 0 []) = 0 \<and>
   fst (p_mod_rm_aux
          (snd (p_mod_add_aux (yuv422_header\<lparr>nr_aux_data_recs := 3\<rparr>) 100 ''a'' 0 [])) 0)
     = P_OK \<and>
   nr_aux_data_recs (snd (p_mod_rm_aux
          (snd (p_mod_add_aux (yuv422_header\<lparr>nr_aux_data_recs := 3\<rparr>) 100 ''a'' 0 [])) 0))
     = 0 \<and>
   nr_aux_data_recs (yuv422_header\<lparr>nr_aux_data_recs := 3\<rparr>) = 3"
proof -
  let ?h = "yuv422_header\<lparr>nr_aux_data_recs := 3\<rparr>"
  have a: "aux_hdrs ?h = P_AUX_LAST @ replicate (P_SAUX_HDR - 8) (CHR 0x00)"
    by (simp add: yuv422_aux)
  note i = init_catalogue [OF a]
  have b: "bytes_rec ?h = 512" by (simp add: yuv422_fields)
  have n: "length ''a'' \<le> P_SAUX_NAME" by (simp add: P_SAUX_NAME_def)
  have m: "in_int32 100" by (simp add: in_int32_def)
  have c: "int (aux_end (aux_hdrs ?h)) + 48 + 0 + 8 + 1 \<le> int P_SAUX_HDR"
    unfolding i(3) by (simp add: P_SAUX_HDR_def)
  have "\<exists>h1. p_mod_add_aux ?h 100 ''a'' 0 [] =
              (int (length (aux_records (aux_hdrs ?h) 0)), h1) \<and>
           p_mod_rm_aux h1 (int (length (aux_records (aux_hdrs ?h) 0))) =
              (P_OK, ?h\<lparr>nr_aux_data_recs := aux_data_recs (aux_hdrs ?h) (bytes_rec ?h),
                 modified := 1\<rparr>)"
    using i(5) [of "''a''"] by (intro add_then_rm [OF i(1) i(4) n _ _ m _ c]) simp_all
  then obtain h1 where h1: "p_mod_add_aux ?h 100 ''a'' 0 [] = (0, h1)"
    "p_mod_rm_aux h1 0 = (P_OK, ?h\<lparr>nr_aux_data_recs := aux_data_recs (aux_hdrs ?h) (bytes_rec ?h),
        modified := 1\<rparr>)"
    unfolding i(2) by auto
  have r: "aux_data_recs (aux_hdrs ?h) (bytes_rec ?h) = 0" unfolding b by (rule i(6))
  show ?thesis
    unfolding h1 fst_conv snd_conv r using i(1,4) by simp
qed

end
